theory Spec2Isabelle
  imports Main "HOL-Library.FSet" "HOL-Library.AList"
begin

section \<open>The Ironbeam WebSocket client (app/services/ironbeam\_client.py)\<close>

text \<open>
  The client is one Python class, \<^verbatim>\<open>IronbeamClient\<close>, whose methods are asyncio
  coroutines. asyncio runs one task at a time and switches tasks only at an
  \<^verbatim>\<open>await\<close>, so a method body between two awaits is one atomic state change. The
  embedding is a state-passing one: every method takes the client and returns the client
  it leaves behind. What a method receives from outside the class (the result of
  \<^verbatim>\<open>json.loads\<close>, what \<^verbatim>\<open>ws.send\<close> does, the clock) is an argument. A method that
  waits for a response is cut in two at its wait, and the steps of the other tasks go in
  between.

  Exceptions are those of class \<^verbatim>\<open>Exception\<close>: these are what the \<^verbatim>\<open>except\<close> clauses of
  the class catch. Task cancellation from outside and interpreter exit are not part of
  the model.
\<close>

subsection \<open>Values\<close>

text \<open>
  A decoded JSON value. A number is an integer or a decimal fraction \<open>m \<cdot> 10\<^sup>e\<close>
  standing for a float; an object is the list of its items, keys unique.
\<close>

datatype json =
    JNull
  | JBool bool
  | JInt int
  | JFloat int int
  | JStr string
  | JList "json list"
  | JObj "(string \<times> json) list"

text \<open>\<^verbatim>\<open>d.get(k)\<close> and \<^verbatim>\<open>d.get(k, default)\<close> on a dict.\<close>

definition dict_get :: "(string \<times> json) list \<Rightarrow> string \<Rightarrow> json \<Rightarrow> json" where
  "dict_get d k dflt = (case map_of d k of None \<Rightarrow> dflt | Some v \<Rightarrow> v)"

text \<open>Python's truth value of a decoded JSON value.\<close>

fun truthy :: "json \<Rightarrow> bool" where
  "truthy JNull = False"
| "truthy (JBool b) = b"
| "truthy (JInt i) = (i \<noteq> 0)"
| "truthy (JFloat m e) = (m \<noteq> 0)"
| "truthy (JStr s) = (s \<noteq> [])"
| "truthy (JList xs) = (xs \<noteq> [])"
| "truthy (JObj d) = (d \<noteq> [])"

fun type_name :: "json \<Rightarrow> string" where
  "type_name JNull = ''NoneType''"
| "type_name (JBool b) = ''bool''"
| "type_name (JInt i) = ''int''"
| "type_name (JFloat m e) = ''float''"
| "type_name (JStr s) = ''str''"
| "type_name (JList xs) = ''list''"
| "type_name (JObj d) = ''dict''"

text \<open>
  The exceptions the class raises, catches or receives. \<open>Exception m\<close> is
  \<^verbatim>\<open>Exception(m)\<close> and also stands for any other exception a handler, the socket or
  the decoder raises, \<open>m\<close> being its \<^verbatim>\<open>str\<close>.
\<close>

datatype exn =
    Exception string
  | ConnectionClosed string
  | JSONDecodeError string
  | AttributeError string
  | TypeError string
  | InvalidStateError string

fun str_exn :: "exn \<Rightarrow> string" where
  "str_exn (Exception m) = m"
| "str_exn (ConnectionClosed m) = m"
| "str_exn (JSONDecodeError m) = m"
| "str_exn (AttributeError m) = m"
| "str_exn (TypeError m) = m"
| "str_exn (InvalidStateError m) = m"

text \<open>\<^verbatim>\<open>str(n)\<close> of a Python int, as the f-strings of the class print it.\<close>

definition digit_char :: "nat \<Rightarrow> char" where
  "digit_char n = ''0123456789'' ! n"

fun str_nat :: "nat \<Rightarrow> string" where
  "str_nat n = (if n < 10 then [digit_char n] else str_nat (n div 10) @ [digit_char (n mod 10)])"

declare str_nat.simps [simp del]

definition str_int :: "int \<Rightarrow> string" where
  "str_int i = (if i < 0 then CHR ''-'' # str_nat (nat (- i)) else str_nat (nat i))"

subsection \<open>The client object\<close>

text \<open>
  An \<^verbatim>\<open>asyncio.Future\<close>: pending, finished with a result, finished with an exception,
  or cancelled. \<^verbatim>\<open>done()\<close> holds in the last three.
\<close>

datatype future = Pending | Finished json | Failed exn | Cancelled

definition fut_done :: "future \<Rightarrow> bool" where
  "fut_done f = (f \<noteq> Pending)"

datatype level = DEBUG | INFO | WARNING | ERROR

datatype log_arg = AStr string | AInt int | AJson json

text \<open>A log record: level, the fixed text of the message, the values formatted into it.\<close>

type_synonym log_entry = "level \<times> string \<times> log_arg list"

text \<open>An event callback: \<open>None\<close> when it returns, \<open>Some m\<close> when it raises.\<close>

type_synonym handler = "json \<Rightarrow> string option"

text \<open>
  The fields of \<^verbatim>\<open>__init__\<close>, then what the object does to its surroundings: the store
  of Future objects (a future is shared by the pending-request table and by the caller
  awaiting it, so the table holds addresses), the frames written to the socket, the log,
  the \<^verbatim>\<open>asyncio.sleep\<close> delays and the number of \<^verbatim>\<open>listen\<close> tasks created. The
  pending-request table is a dict, kept in insertion order.
\<close>

record client =
  api_key :: string
  api_secret :: string
  base_url :: string
  ws :: "nat option"
  connected :: bool
  subscriptions :: "string fset"
  reconnect_attempts :: int
  max_reconnect_attempts :: int
  pending_requests :: "(string \<times> nat) list"
  request_id :: int
  on_market_data :: "handler option"
  on_order_update :: "handler option"
  on_position_update :: "handler option"
  futures :: "nat \<Rightarrow> future"
  next_future :: nat
  wire :: "json list"
  logged :: "log_entry list"
  slept :: "int list"
  listen_tasks :: nat

definition init ::
  "string \<Rightarrow> string \<Rightarrow> string \<Rightarrow> handler option \<Rightarrow> handler option \<Rightarrow> handler option \<Rightarrow> client" where
  "init key secret url md ou pu =
     \<lparr> api_key = key, api_secret = secret, base_url = url, ws = None, connected = False,
       subscriptions = {||}, reconnect_attempts = 0, max_reconnect_attempts = 10,
       pending_requests = [], request_id = 0,
       on_market_data = md, on_order_update = ou, on_position_update = pu,
       futures = (\<lambda>_. Pending), next_future = 0, wire = [], logged = [], slept = [],
       listen_tasks = 0 \<rparr>"

definition log_msg :: "level \<Rightarrow> string \<Rightarrow> log_arg list \<Rightarrow> client \<Rightarrow> client" where
  "log_msg lvl txt args c = c\<lparr>logged := logged c @ [(lvl, txt, args)]\<rparr>"

definition is_connected :: "client \<Rightarrow> bool" where
  "is_connected c = (connected c \<and> ws c \<noteq> None)"

text \<open>\<^verbatim>\<open>asyncio.Future()\<close>: a new object, pending.\<close>

definition new_future :: "client \<Rightarrow> nat \<times> client" where
  "new_future c =
     (next_future c,
      c\<lparr>futures := (futures c)(next_future c := Pending), next_future := Suc (next_future c)\<rparr>)"

text \<open>
  \<^verbatim>\<open>set_result\<close> and \<^verbatim>\<open>set_exception\<close> raise \<^verbatim>\<open>InvalidStateError\<close> on a future that is
  done.
\<close>

definition set_result :: "nat \<Rightarrow> json \<Rightarrow> client \<Rightarrow> exn + client" where
  "set_result a d c =
     (if fut_done (futures c a) then Inl (InvalidStateError ''invalid state'')
      else Inr (c\<lparr>futures := (futures c)(a := Finished d)\<rparr>))"

definition set_exception :: "nat \<Rightarrow> exn \<Rightarrow> client \<Rightarrow> exn + client" where
  "set_exception a e c =
     (if fut_done (futures c a) then Inl (InvalidStateError ''invalid state'')
      else Inr (c\<lparr>futures := (futures c)(a := Failed e)\<rparr>))"

text \<open>\<^verbatim>\<open>self.pending_requests.pop(request_id, None)\<close>, the value dropped.\<close>

definition pop_pending :: "string \<Rightarrow> client \<Rightarrow> client" where
  "pop_pending rid c = c\<lparr>pending_requests := AList.delete rid (pending_requests c)\<rparr>"

subsection \<open>Sending\<close>

text \<open>A name in single quotes, as Python's error messages print it.\<close>

definition quoted :: "string \<Rightarrow> string" where
  "quoted s = CHR 0x27 # s @ [CHR 0x27]"

text \<open>
  \<^verbatim>\<open>send\<close> (lines 312-324). \<open>so\<close> is what \<^verbatim>\<open>json.dumps\<close> and \<^verbatim>\<open>ws.send\<close> do
  when they complete: \<open>None\<close> when the frame is written, \<open>Some m\<close> when one of them
  raises. The debug record of line 320 calls \<^verbatim>\<open>message.get\<close>, inside the \<^verbatim>\<open>try\<close>: for
  a message that is not a dict the frame is on the socket when \<^verbatim>\<open>AttributeError\<close> is
  raised and the \<^verbatim>\<open>except\<close> clause runs. \<open>send_failed\<close> is that clause, lines 321-324.
\<close>

definition send_failed :: "exn \<Rightarrow> client \<Rightarrow> exn option \<times> client" where
  "send_failed e c =
     (Some e, (log_msg ERROR ''Failed to send message: '' [AStr (str_exn e)] c)\<lparr>connected := False\<rparr>)"

definition send :: "json \<Rightarrow> string option \<Rightarrow> client \<Rightarrow> exn option \<times> client" where
  "send message so c =
     (if \<not> is_connected c then (Some (Exception ''WebSocket not connected''), c)
      else case so of
        None \<Rightarrow>
          (let c1 = c\<lparr>wire := wire c @ [message]\<rparr>
           in case message of
                JObj d \<Rightarrow>
                  (None, log_msg DEBUG ''Sent message: ''
                           [AJson (dict_get d ''action'' (JStr ''unknown''))] c1)
              | _ \<Rightarrow>
                  send_failed (AttributeError (quoted (type_name message)
                                 @ '' object has no attribute '' @ quoted ''get'')) c1)
      | Some m \<Rightarrow> send_failed (Exception m) c)"

text \<open>\<^verbatim>\<open>authenticate\<close> (lines 108-117); \<open>ts\<close> is \<^verbatim>\<open>datetime.utcnow().isoformat()\<close>.\<close>

definition authenticate :: "string \<Rightarrow> string option \<Rightarrow> client \<Rightarrow> exn option \<times> client" where
  "authenticate ts so c =
     (let auth_message = JObj [(''action'', JStr ''authenticate''), (''api_key'', JStr (api_key c)),
                               (''secret'', JStr (api_secret c)), (''timestamp'', JStr ts)]
      in case send auth_message so c of
           (Some e, c') \<Rightarrow> (Some e, c')
         | (None, c') \<Rightarrow> (None, log_msg INFO ''Sent authentication message to Ironbeam'' [] c'))"

text \<open>
  \<^verbatim>\<open>_get_request_id\<close> (lines 326-329); \<open>now\<close> is
  \<^verbatim>\<open>int(datetime.now().timestamp() * 1000)\<close>, and \<open>request_id_text\<close> is the f-string
  \<^verbatim>\<open>f"req_{self.request_id}_{...}"\<close>.
\<close>

definition request_id_text :: "int \<Rightarrow> int \<Rightarrow> string" where
  "request_id_text n now = ''req_'' @ str_int n @ ''_'' @ str_int now"

definition get_request_id :: "int \<Rightarrow> client \<Rightarrow> string \<times> client" where
  "get_request_id now c =
     (let c' = c\<lparr>request_id := request_id c + 1\<rparr>
      in (request_id_text (request_id c') now, c'))"

subsection \<open>Inbound frames\<close>

text \<open>
  A frame off the socket: its text, and what \<^verbatim>\<open>json.loads\<close> makes of it: \<open>Inr\<close> the
  decoded value, \<open>Inl\<close> the exception it raises, which is \<^verbatim>\<open>JSONDecodeError\<close> for text
  that is not JSON and another one otherwise (a binary frame that is not UTF-8, a
  nesting too deep).
\<close>

type_synonym frame = "string \<times> (exn + json)"

definition call_handler :: "handler \<Rightarrow> json \<Rightarrow> client \<Rightarrow> exn option \<times> client" where
  "call_handler h payload c =
     (case h payload of None \<Rightarrow> (None, c) | Some m \<Rightarrow> (Some (Exception m), c))"

text \<open>Lines 148-158: the chain over the event type; \<open>d\<close> is the decoded dict.\<close>

definition dispatch :: "json \<Rightarrow> (string \<times> json) list \<Rightarrow> client \<Rightarrow> exn option \<times> client" where
  "dispatch event_type d c =
     (if event_type = JStr ''market_data'' \<and> on_market_data c \<noteq> None then
        (case on_market_data c of
           Some h \<Rightarrow> call_handler h (dict_get d ''data'' (JObj [])) c | None \<Rightarrow> (None, c))
      else if event_type = JStr ''order_update'' \<and> on_order_update c \<noteq> None then
        (case on_order_update c of
           Some h \<Rightarrow> call_handler h (dict_get d ''data'' (JObj [])) c | None \<Rightarrow> (None, c))
      else if event_type = JStr ''position_update'' \<and> on_position_update c \<noteq> None then
        (case on_position_update c of
           Some h \<Rightarrow> call_handler h (dict_get d ''data'' (JObj [])) c | None \<Rightarrow> (None, c))
      else if event_type = JStr ''error'' then
        (None, log_msg ERROR ''Ironbeam error: ''
                 [AJson (dict_get d ''message'' (JStr ''Unknown error''))] c)
      else
        (None, log_msg DEBUG ''Unhandled message type'' [AJson event_type, AJson (JObj d)] c))"

text \<open>
  Lines 142-146: the decoded frame answers a pending request. The future leaves the
  table, and is given the frame as its result unless it is done.
\<close>

definition resolve :: "string \<Rightarrow> nat \<Rightarrow> json \<Rightarrow> client \<Rightarrow> exn option \<times> client" where
  "resolve rid a data c =
     (let c' = pop_pending rid c
      in if \<not> fut_done (futures c' a) then
           (case set_result a data c' of Inl e \<Rightarrow> (Some e, c') | Inr c'' \<Rightarrow> (None, c''))
         else (None, c'))"

text \<open>
  Lines 138-158, the \<^verbatim>\<open>try\<close> body after the decoding. \<^verbatim>\<open>data.get\<close> exists on a dict
  only; \<^verbatim>\<open>request_id in self.pending_requests\<close> hashes the id, which a list or a
  dict refuses, and is evaluated only when the id is truthy. The keys of the table are
  strings, so no other kind of id is among them.
\<close>

definition handle_decoded :: "json \<Rightarrow> client \<Rightarrow> exn option \<times> client" where
  "handle_decoded data c =
     (case data of
        JObj d \<Rightarrow>
          (let event_type = dict_get d ''type'' JNull;
               rid = dict_get d ''request_id'' JNull
           in if truthy rid then
                (case rid of
                   JList xs \<Rightarrow> (Some (TypeError (''unhashable type: '' @ quoted (type_name rid))), c)
                 | JObj kvs \<Rightarrow> (Some (TypeError (''unhashable type: '' @ quoted (type_name rid))), c)
                 | JStr s \<Rightarrow>
                     (case map_of (pending_requests c) s of
                        Some a \<Rightarrow> resolve s a data c
                      | None \<Rightarrow> dispatch event_type d c)
                 | _ \<Rightarrow> dispatch event_type d c)
              else dispatch event_type d c)
      | _ \<Rightarrow>
          (Some (AttributeError (quoted (type_name data) @ '' object has no attribute ''
                                  @ quoted ''get'')), c))"

text \<open>
  \<^verbatim>\<open>handle_message\<close> (lines 134-163). \<open>handle_message_try\<close> is the \<^verbatim>\<open>try\<close> body, with
  the exception it raises, if any, and the client at that point. \<open>handle_message\<close> puts
  it under the two \<^verbatim>\<open>except\<close> clauses: line 160 takes \<^verbatim>\<open>JSONDecodeError\<close>, line 162
  every other exception. Both log and return, so the method itself raises nothing.
\<close>

definition handle_message_try :: "frame \<Rightarrow> client \<Rightarrow> exn option \<times> client" where
  "handle_message_try fr c =
     (case snd fr of Inl e \<Rightarrow> (Some e, c) | Inr data \<Rightarrow> handle_decoded data c)"

definition handle_message :: "frame \<Rightarrow> client \<Rightarrow> client" where
  "handle_message fr c =
     (case handle_message_try fr c of
        (Some (JSONDecodeError m), c') \<Rightarrow>
          log_msg ERROR ''Failed to decode message: '' [AStr (fst fr)] c'
      | (Some e, c') \<Rightarrow> log_msg ERROR ''Error handling message: '' [AStr (str_exn e)] c'
      | (None, c') \<Rightarrow> c')"

subsection \<open>Lifecycle\<close>

text \<open>
  \<^verbatim>\<open>disconnect\<close> (lines 92-106). \<open>co\<close> is what \<^verbatim>\<open>ws.close\<close> does; lines 94-100
  are \<open>close_socket\<close>. The loop of lines 103-105 over the items of the table is
  \<open>fail_pending\<close>.
\<close>

fun fail_pending :: "(string \<times> nat) list \<Rightarrow> client \<Rightarrow> exn option \<times> client" where
  "fail_pending [] c = (None, c)"
| "fail_pending ((rid, a) # items) c =
     (if \<not> fut_done (futures c a) then
        (case set_exception a (Exception ''Connection closed'') c of
           Inl e \<Rightarrow> (Some e, c)
         | Inr c' \<Rightarrow> fail_pending items c')
      else fail_pending items c)"

definition close_socket :: "string option \<Rightarrow> client \<Rightarrow> client" where
  "close_socket co c =
     (case ws c of
        None \<Rightarrow> c\<lparr>connected := False\<rparr>
      | Some sock \<Rightarrow>
          (case co of
             None \<Rightarrow> log_msg INFO ''WebSocket connection closed gracefully'' []
                       (c\<lparr>connected := False\<rparr>)
           | Some m \<Rightarrow> log_msg ERROR ''Error closing WebSocket: '' [AStr m]
                       (c\<lparr>connected := False\<rparr>)))"

definition disconnect :: "string option \<Rightarrow> client \<Rightarrow> exn option \<times> client" where
  "disconnect co c =
     (let c2 = close_socket co c
      in case fail_pending (pending_requests c2) c2 of
           (Some e, c3) \<Rightarrow> (Some e, c3)
         | (None, c3) \<Rightarrow> (None, c3\<lparr>pending_requests := []\<rparr>))"

text \<open>
  \<^verbatim>\<open>connect\<close> (lines 63-90). One pass through the loop body is \<open>connect_attempt\<close>; it
  receives what \<^verbatim>\<open>websockets.connect\<close> does (\<open>Inl m\<close> when it raises, \<open>Inr sock\<close> the
  new socket), the clock for the authentication message and what \<^verbatim>\<open>ws.send\<close> does.
  \<open>connect_succeeded\<close> is lines 75-80, the end of the \<^verbatim>\<open>try\<close> body, and
  \<open>connect_failed\<close> is the \<^verbatim>\<open>except\<close> clause, lines 83-87.
  \<^verbatim>\<open>asyncio.create_task(self.listen())\<close> is counted, not run: the task runs later.
\<close>

type_synonym attempt = "(string + nat) \<times> string \<times> string option"

definition connect_succeeded :: "client \<Rightarrow> client" where
  "connect_succeeded c =
     log_msg INFO ''Successfully connected to Ironbeam'' []
       (c\<lparr>connected := True, reconnect_attempts := 0, listen_tasks := Suc (listen_tasks c)\<rparr>)"

definition connect_failed :: "exn \<Rightarrow> client \<Rightarrow> client" where
  "connect_failed e c =
     (let c2 = c\<lparr>reconnect_attempts := reconnect_attempts c + 1\<rparr>;
          wait_time = min (5 * reconnect_attempts c2) 60;
          c3 = log_msg ERROR ''WebSocket connection failed (attempt ): ''
                 [AInt (reconnect_attempts c2), AStr (str_exn e)] c2;
          c4 = log_msg INFO ''Retrying in  seconds...'' [AInt wait_time] c3
      in c4\<lparr>slept := slept c4 @ [wait_time]\<rparr>)"

fun connect_attempt :: "attempt \<Rightarrow> client \<Rightarrow> client" where
  "connect_attempt (wc, ts, so) c =
     (let c0 = log_msg INFO ''Connecting to Ironbeam WebSocket: '' [AStr (base_url c)] c;
          r = (case wc of
                 Inl m \<Rightarrow> (Some (Exception m), c0)
               | Inr sock \<Rightarrow> authenticate ts so (c0\<lparr>ws := Some sock\<rparr>))
      in case r of
           (None, c1) \<Rightarrow> connect_succeeded c1
         | (Some e, c1) \<Rightarrow> connect_failed e c1)"

text \<open>
  The \<^verbatim>\<open>while\<close> loop of \<^verbatim>\<open>connect\<close>; \<open>env k\<close> is what the \<open>k\<close>-th pass meets. The loop
  ends: a pass either connects or adds one to the attempt counter.
\<close>

definition connect_measure :: "client \<Rightarrow> nat" where
  "connect_measure c =
     (if connected c then 0 else Suc (nat (max_reconnect_attempts c - reconnect_attempts c)))"

function connect_loop :: "(nat \<Rightarrow> attempt) \<Rightarrow> nat \<Rightarrow> client \<Rightarrow> client" where
  "connect_loop env k c =
     (if \<not> connected c \<and> reconnect_attempts c < max_reconnect_attempts c
      then connect_loop env (Suc k) (connect_attempt (env k) c)
      else c)"
  by pat_completeness auto
termination
proof (relation "measure (\<lambda>(env, k, c). connect_measure c)")
  show "wf (measure (\<lambda>(env, k, c). connect_measure c))" by simp
next
  fix env :: "nat \<Rightarrow> attempt" and k :: nat and c :: client
  assume "\<not> connected c \<and> reconnect_attempts c < max_reconnect_attempts c"
  then have "connect_measure (connect_attempt (env k) c) < connect_measure c"
    by (cases "env k")
       (auto simp: connect_measure_def connect_succeeded_def connect_failed_def authenticate_def
          send_def log_msg_def is_connected_def Let_def
          split: sum.splits option.splits prod.splits)
  then show "((env, Suc k, connect_attempt (env k) c), (env, k, c))
               \<in> measure (\<lambda>(env, k, c). connect_measure c)"
    by simp
qed

declare connect_loop.simps [simp del]

definition connect :: "(nat \<Rightarrow> attempt) \<Rightarrow> client \<Rightarrow> client" where
  "connect env c =
     (let c' = connect_loop env 0 c
      in if \<not> connected c' then
           log_msg ERROR ''Max reconnection attempts reached. Unable to connect to Ironbeam.'' [] c'
         else c')"

text \<open>
  \<^verbatim>\<open>listen\<close> (lines 119-132): the frames the socket yields, each handled in turn, then
  \<open>listen_end\<close>: how the iteration ends (\<open>None\<close>: the socket is exhausted; \<open>Some e\<close>: it
  raises \<open>e\<close>), the matching \<^verbatim>\<open>except\<close> clause and the \<^verbatim>\<open>finally\<close> clause.
\<close>

definition listen_end :: "exn option \<Rightarrow> (nat \<Rightarrow> attempt) \<Rightarrow> client \<Rightarrow> client" where
  "listen_end cause env c =
     (let c1 = (case cause of
                  None \<Rightarrow> c
                | Some (ConnectionClosed m) \<Rightarrow>
                    log_msg WARNING ''WebSocket connection closed by server'' [] c
                | Some e \<Rightarrow> log_msg ERROR ''WebSocket listen error: '' [AStr (str_exn e)] c);
          c2 = c1\<lparr>connected := False\<rparr>
      in if reconnect_attempts c2 < max_reconnect_attempts c2 then
           connect env (log_msg INFO ''Attempting to reconnect...'' [] c2)
         else c2)"

definition listen :: "frame list \<Rightarrow> exn option \<Rightarrow> (nat \<Rightarrow> attempt) \<Rightarrow> client \<Rightarrow> client" where
  "listen frames cause env c = listen_end cause env (fold handle_message frames c)"

subsection \<open>Requests and their responses\<close>

text \<open>
  What a coroutine that awaits a response hands to its caller: a value, an exception of
  class \<^verbatim>\<open>Exception\<close>, or the \<^verbatim>\<open>CancelledError\<close> that awaiting a cancelled future
  raises and no \<^verbatim>\<open>except Exception\<close> clause catches. \<open>Hangs\<close>: it has handed nothing
  yet, the coroutine is still suspended.
\<close>

datatype 'a outcome = Returns 'a | Raises exn | Cancels | Hangs

text \<open>
  \<^verbatim>\<open>send_with_response\<close> (lines 287-310) awaits twice: \<^verbatim>\<open>self.send\<close> at line 298,
  which awaits \<^verbatim>\<open>ws.send\<close> at line 319, and \<^verbatim>\<open>asyncio.wait_for(future, timeout)\<close> at
  line 301. The timeout is an argument of the second only. So \<^verbatim>\<open>ws.send\<close> either
  completes, writing the frame or raising, or it is not complete when the caller is
  looked at: it returns when the frame has left the write buffer, which is when the peer
  reads, and nothing in the method bounds that wait.
\<close>

datatype ws_send = Completes "string option" | Stalls

text \<open>
  \<open>send_with_response_register\<close> is lines 289-298. It ends in one of three ways: an
  exception is raised (and the request is out of the table again, lines 307-310), the
  frame is sent and the caller goes on to wait for the future, or the caller is
  suspended in \<^verbatim>\<open>ws.send\<close>, the future being in the table and nothing written.
  \<open>send_with_response_await\<close> is lines 301-310, when the caller resumes from
  \<^verbatim>\<open>wait_for\<close>, while other tasks have run: \<^verbatim>\<open>wait_for\<close> returns the result of a
  finished future, re-raises the exception of a failed one, and when the deadline finds
  the future pending it cancels the future and raises \<^verbatim>\<open>TimeoutError\<close>. The timeout is
  in whole seconds, as at every call site (\<^verbatim>\<open>5.0\<close>, \<^verbatim>\<open>10.0\<close>).
\<close>

datatype registered = Raised exn | Awaits nat | Stalled

definition send_with_response_register ::
  "json \<Rightarrow> string \<Rightarrow> ws_send \<Rightarrow> client \<Rightarrow> registered \<times> client" where
  "send_with_response_register message rid tr c =
     (if \<not> is_connected c then (Raised (Exception ''WebSocket not connected''), c)
      else case new_future c of
        (a, c1) \<Rightarrow>
          (let c2 = c1\<lparr>pending_requests := AList.update rid a (pending_requests c1)\<rparr>
           in case tr of
                Stalls \<Rightarrow> (Stalled, c2)
              | Completes so \<Rightarrow>
                  (case send message so c2 of
                     (Some e, c3) \<Rightarrow> (Raised e, pop_pending rid c3)
                   | (None, c3) \<Rightarrow> (Awaits a, c3))))"

definition timed_out :: "string \<Rightarrow> nat \<Rightarrow> exn" where
  "timed_out rid timeout =
     Exception (''Request '' @ rid @ '' timed out after '' @ str_nat timeout @ ''.0s'')"

definition send_with_response_await ::
  "string \<Rightarrow> nat \<Rightarrow> nat \<Rightarrow> client \<Rightarrow> json outcome \<times> client" where
  "send_with_response_await rid a timeout c =
     (case futures c a of
        Finished d \<Rightarrow> (Returns d, c)
      | Failed e \<Rightarrow> (Raises e, pop_pending rid c)
      | Pending \<Rightarrow>
          (Raises (timed_out rid timeout),
           pop_pending rid (c\<lparr>futures := (futures c)(a := Cancelled)\<rparr>))
      | Cancelled \<Rightarrow> (Cancels, c))"

text \<open>
  A coroutine that has started: it has returned already, it waits for a response on a
  request id and a future, or it is stuck in \<^verbatim>\<open>ws.send\<close>.
\<close>

datatype 'a started = Done 'a | Waiting string nat | Stuck

definition error_result :: "exn \<Rightarrow> (string \<times> json) list \<Rightarrow> json" where
  "error_result e extra = JObj ([(''status'', JStr ''error''), (''message'', JStr (str_exn e))] @ extra)"

text \<open>\<^verbatim>\<open>subscribe\<close> (lines 165-184), cut at its wait.\<close>

definition subscribe_start ::
  "string \<Rightarrow> int \<Rightarrow> ws_send \<Rightarrow> client \<Rightarrow> json started \<times> client" where
  "subscribe_start symbol now tr c =
     (if symbol |\<in>| subscriptions c then
        (Done (JObj [(''status'', JStr ''already_subscribed''), (''symbol'', JStr symbol)]), c)
      else case get_request_id now c of
        (rid, c1) \<Rightarrow>
          (let message = JObj [(''action'', JStr ''subscribe''), (''request_id'', JStr rid),
                               (''symbol'', JStr symbol)]
           in case send_with_response_register message rid tr c1 of
                (Raised e, c2) \<Rightarrow>
                  (Done (error_result e [(''symbol'', JStr symbol)]),
                   log_msg ERROR ''Failed to subscribe to : '' [AStr symbol, AStr (str_exn e)] c2)
              | (Awaits a, c2) \<Rightarrow> (Waiting rid a, c2)
              | (Stalled, c2) \<Rightarrow> (Stuck, c2)))"

definition subscribe_finish ::
  "string \<Rightarrow> string \<Rightarrow> nat \<Rightarrow> client \<Rightarrow> json outcome \<times> client" where
  "subscribe_finish symbol rid a c =
     (case send_with_response_await rid a 5 c of
        (Returns response, c1) \<Rightarrow>
          (Returns (JObj [(''status'', JStr ''subscribed''), (''symbol'', JStr symbol),
                          (''data'', response)]),
           log_msg INFO ''Subscribed to market data: '' [AStr symbol]
             (c1\<lparr>subscriptions := finsert symbol (subscriptions c1)\<rparr>))
      | (Raises e, c1) \<Rightarrow>
          (Returns (error_result e [(''symbol'', JStr symbol)]),
           log_msg ERROR ''Failed to subscribe to : '' [AStr symbol, AStr (str_exn e)] c1)
      | (Cancels, c1) \<Rightarrow> (Cancels, c1)
      | (Hangs, c1) \<Rightarrow> (Hangs, c1))"

text \<open>\<^verbatim>\<open>unsubscribe\<close> (lines 186-205), cut at its wait.\<close>

definition unsubscribe_start ::
  "string \<Rightarrow> int \<Rightarrow> ws_send \<Rightarrow> client \<Rightarrow> json started \<times> client" where
  "unsubscribe_start symbol now tr c =
     (if symbol |\<notin>| subscriptions c then
        (Done (JObj [(''status'', JStr ''not_subscribed''), (''symbol'', JStr symbol)]), c)
      else case get_request_id now c of
        (rid, c1) \<Rightarrow>
          (let message = JObj [(''action'', JStr ''unsubscribe''), (''request_id'', JStr rid),
                               (''symbol'', JStr symbol)]
           in case send_with_response_register message rid tr c1 of
                (Raised e, c2) \<Rightarrow>
                  (Done (error_result e [(''symbol'', JStr symbol)]),
                   log_msg ERROR ''Failed to unsubscribe from : '' [AStr symbol, AStr (str_exn e)] c2)
              | (Awaits a, c2) \<Rightarrow> (Waiting rid a, c2)
              | (Stalled, c2) \<Rightarrow> (Stuck, c2)))"

definition unsubscribe_finish ::
  "string \<Rightarrow> string \<Rightarrow> nat \<Rightarrow> client \<Rightarrow> json outcome \<times> client" where
  "unsubscribe_finish symbol rid a c =
     (case send_with_response_await rid a 5 c of
        (Returns response, c1) \<Rightarrow>
          (Returns (JObj [(''status'', JStr ''unsubscribed''), (''symbol'', JStr symbol),
                          (''data'', response)]),
           log_msg INFO ''Unsubscribed from: '' [AStr symbol]
             (c1\<lparr>subscriptions := subscriptions c1 |-| {|symbol|}\<rparr>))
      | (Raises e, c1) \<Rightarrow>
          (Returns (error_result e [(''symbol'', JStr symbol)]),
           log_msg ERROR ''Failed to unsubscribe from : '' [AStr symbol, AStr (str_exn e)] c1)
      | (Cancels, c1) \<Rightarrow> (Cancels, c1)
      | (Hangs, c1) \<Rightarrow> (Hangs, c1))"

text \<open>
  \<^verbatim>\<open>place_order\<close>, \<^verbatim>\<open>cancel_order\<close>, \<^verbatim>\<open>get_positions\<close> and \<^verbatim>\<open>get_account_info\<close>
  (lines 207-285) have one shape: a fresh request id, a message, the response awaited
  for ten seconds and returned as it is, any exception logged and turned into an error
  result. \<open>request_start\<close> and \<open>request_finish\<close> are that shape, given the message (as a
  function of the request id) and the two log records.
\<close>

definition request_start ::
  "(string \<Rightarrow> json) \<Rightarrow> log_entry \<Rightarrow> int \<Rightarrow> ws_send \<Rightarrow> client \<Rightarrow> json started \<times> client" where
  "request_start message failure now tr c =
     (case get_request_id now c of
        (rid, c1) \<Rightarrow>
          (case send_with_response_register (message rid) rid tr c1 of
             (Raised e, c2) \<Rightarrow>
               (Done (error_result e []),
                log_msg (fst failure) (fst (snd failure)) (snd (snd failure) @ [AStr (str_exn e)]) c2)
           | (Awaits a, c2) \<Rightarrow> (Waiting rid a, c2)
           | (Stalled, c2) \<Rightarrow> (Stuck, c2)))"

definition request_finish ::
  "log_entry option \<Rightarrow> log_entry \<Rightarrow> string \<Rightarrow> nat \<Rightarrow> client \<Rightarrow> json outcome \<times> client" where
  "request_finish success failure rid a c =
     (case send_with_response_await rid a 10 c of
        (Returns response, c1) \<Rightarrow>
          (Returns response,
           case success of
             None \<Rightarrow> c1
           | Some l \<Rightarrow> log_msg (fst l) (fst (snd l)) (snd (snd l)) c1)
      | (Raises e, c1) \<Rightarrow>
          (Returns (error_result e []),
           log_msg (fst failure) (fst (snd failure)) (snd (snd failure) @ [AStr (str_exn e)]) c1)
      | (Cancels, c1) \<Rightarrow> (Cancels, c1)
      | (Hangs, c1) \<Rightarrow> (Hangs, c1))"

record order_data =
  symbol :: string
  side :: string
  order_type :: string
  quantity :: int
  price :: "(int \<times> int) option"
  stop_price :: "(int \<times> int) option"

definition place_order_message :: "order_data \<Rightarrow> string \<Rightarrow> string \<Rightarrow> json" where
  "place_order_message order ts rid =
     JObj ([(''action'', JStr ''place_order''), (''request_id'', JStr rid),
            (''symbol'', JStr (symbol order)), (''side'', JStr (side order)),
            (''order_type'', JStr (order_type order)), (''quantity'', JInt (quantity order)),
            (''timestamp'', JStr ts)]
           @ (case price order of None \<Rightarrow> [] | Some (m, e) \<Rightarrow> [(''price'', JFloat m e)])
           @ (case stop_price order of None \<Rightarrow> [] | Some (m, e) \<Rightarrow> [(''stop_price'', JFloat m e)]))"

text \<open>\<^verbatim>\<open>order.price or 'market'\<close>: a price of zero prints as the market.\<close>

definition price_or_market :: "order_data \<Rightarrow> log_arg" where
  "price_or_market order =
     (case price order of
        None \<Rightarrow> AStr ''market''
      | Some (m, e) \<Rightarrow> if m = 0 then AStr ''market'' else AJson (JFloat m e))"

definition place_order_start ::
  "order_data \<Rightarrow> string \<Rightarrow> int \<Rightarrow> ws_send \<Rightarrow> client \<Rightarrow> json started \<times> client" where
  "place_order_start order ts =
     request_start (place_order_message order ts) (ERROR, ''Failed to place order: '', [])"

definition place_order_finish ::
  "order_data \<Rightarrow> string \<Rightarrow> nat \<Rightarrow> client \<Rightarrow> json outcome \<times> client" where
  "place_order_finish order =
     request_finish
       (Some (INFO, ''Placed order:    @ '',
              [AStr (symbol order), AStr (side order), AInt (quantity order), price_or_market order]))
       (ERROR, ''Failed to place order: '', [])"

definition cancel_order_message :: "string \<Rightarrow> string \<Rightarrow> string \<Rightarrow> json" where
  "cancel_order_message order_id ts rid =
     JObj [(''action'', JStr ''cancel_order''), (''request_id'', JStr rid),
           (''order_id'', JStr order_id), (''timestamp'', JStr ts)]"

definition cancel_order_start ::
  "string \<Rightarrow> string \<Rightarrow> int \<Rightarrow> ws_send \<Rightarrow> client \<Rightarrow> json started \<times> client" where
  "cancel_order_start order_id ts =
     request_start (cancel_order_message order_id ts)
       (ERROR, ''Failed to cancel order : '', [AStr order_id])"

definition cancel_order_finish ::
  "string \<Rightarrow> string \<Rightarrow> nat \<Rightarrow> client \<Rightarrow> json outcome \<times> client" where
  "cancel_order_finish order_id =
     request_finish (Some (INFO, ''Cancelled order: '', [AStr order_id]))
       (ERROR, ''Failed to cancel order : '', [AStr order_id])"

definition get_positions_message :: "string \<Rightarrow> string \<Rightarrow> json" where
  "get_positions_message ts rid =
     JObj [(''action'', JStr ''get_positions''), (''request_id'', JStr rid),
           (''timestamp'', JStr ts)]"

definition get_positions_start ::
  "string \<Rightarrow> int \<Rightarrow> ws_send \<Rightarrow> client \<Rightarrow> json started \<times> client" where
  "get_positions_start ts =
     request_start (get_positions_message ts) (ERROR, ''Failed to get positions: '', [])"

definition get_positions_finish :: "string \<Rightarrow> nat \<Rightarrow> client \<Rightarrow> json outcome \<times> client" where
  "get_positions_finish = request_finish None (ERROR, ''Failed to get positions: '', [])"

definition get_account_info_message :: "string \<Rightarrow> string \<Rightarrow> json" where
  "get_account_info_message ts rid =
     JObj [(''action'', JStr ''get_account_info''), (''request_id'', JStr rid),
           (''timestamp'', JStr ts)]"

definition get_account_info_start ::
  "string \<Rightarrow> int \<Rightarrow> ws_send \<Rightarrow> client \<Rightarrow> json started \<times> client" where
  "get_account_info_start ts =
     request_start (get_account_info_message ts) (ERROR, ''Failed to get account info: '', [])"

definition get_account_info_finish :: "string \<Rightarrow> nat \<Rightarrow> client \<Rightarrow> json outcome \<times> client" where
  "get_account_info_finish = request_finish None (ERROR, ''Failed to get account info: '', [])"

text \<open>
  \<^verbatim>\<open>get_connection_stats\<close> (lines 331-339): connected, reconnect attempts, number of
  subscriptions, number of pending requests, the subscriptions. Python lists the set in
  no fixed order; the set itself is kept.
\<close>

datatype stats = Stats bool int nat nat "string fset"

definition get_connection_stats :: "client \<Rightarrow> stats" where
  "get_connection_stats c =
     Stats (connected c) (reconnect_attempts c) (fcard (subscriptions c))
       (length (pending_requests c)) (subscriptions c)"

subsection \<open>Tasks side by side\<close>

text \<open>
  What the tasks sharing the client do, one atomic step each: the read loop handles a
  frame or ends, the owner connects or disconnects, a caller starts a request or resumes
  from its wait. A run of the program is a list of such steps.
\<close>

datatype step =
    Frame frame
  | Listen_end "exn option" "nat \<Rightarrow> attempt"
  | Connect "nat \<Rightarrow> attempt"
  | Disconnect "string option"
  | Subscribe_start string int ws_send
  | Subscribe_finish string string nat
  | Unsubscribe_start string int ws_send
  | Unsubscribe_finish string string nat
  | Place_order_start order_data string int ws_send
  | Place_order_finish order_data string nat
  | Cancel_order_start string string int ws_send
  | Cancel_order_finish string string nat
  | Get_positions_start string int ws_send
  | Get_positions_finish string nat
  | Get_account_info_start string int ws_send
  | Get_account_info_finish string nat

fun exec :: "step \<Rightarrow> client \<Rightarrow> client" where
  "exec (Frame fr) c = handle_message fr c"
| "exec (Listen_end cause env) c = listen_end cause env c"
| "exec (Connect env) c = connect env c"
| "exec (Disconnect co) c = snd (disconnect co c)"
| "exec (Subscribe_start symb now tr) c = snd (subscribe_start symb now tr c)"
| "exec (Subscribe_finish symb rid a) c = snd (subscribe_finish symb rid a c)"
| "exec (Unsubscribe_start symb now tr) c = snd (unsubscribe_start symb now tr c)"
| "exec (Unsubscribe_finish symb rid a) c = snd (unsubscribe_finish symb rid a c)"
| "exec (Place_order_start order ts now tr) c = snd (place_order_start order ts now tr c)"
| "exec (Place_order_finish order rid a) c = snd (place_order_finish order rid a c)"
| "exec (Cancel_order_start oid ts now tr) c = snd (cancel_order_start oid ts now tr c)"
| "exec (Cancel_order_finish oid rid a) c = snd (cancel_order_finish oid rid a c)"
| "exec (Get_positions_start ts now tr) c = snd (get_positions_start ts now tr c)"
| "exec (Get_positions_finish rid a) c = snd (get_positions_finish rid a c)"
| "exec (Get_account_info_start ts now tr) c = snd (get_account_info_start ts now tr c)"
| "exec (Get_account_info_finish rid a) c = snd (get_account_info_finish rid a c)"

text \<open>The steps that are not a caller's: the read loop's and the owner's.\<close>

fun env_step :: "step \<Rightarrow> bool" where
  "env_step (Frame fr) = True"
| "env_step (Listen_end cause env) = True"
| "env_step (Connect env) = True"
| "env_step (Disconnect co) = True"
| "env_step _ = False"

text \<open>
  The whole coroutines, looked at when the timeout has run out: the part before the
  wait, the steps \<open>es\<close> the other tasks take meanwhile, the part after. A caller that is
  stuck in \<^verbatim>\<open>ws.send\<close> has not reached \<^verbatim>\<open>wait_for\<close>: it has no deadline, and is still
  suspended after the steps of the others.
\<close>

definition send_with_response ::
  "json \<Rightarrow> string \<Rightarrow> nat \<Rightarrow> ws_send \<Rightarrow> step list \<Rightarrow> client \<Rightarrow> json outcome \<times> client" where
  "send_with_response message rid timeout tr es c =
     (case send_with_response_register message rid tr c of
        (Raised e, c1) \<Rightarrow> (Raises e, c1)
      | (Awaits a, c1) \<Rightarrow> send_with_response_await rid a timeout (fold exec es c1)
      | (Stalled, c1) \<Rightarrow> (Hangs, fold exec es c1))"

definition subscribe ::
  "string \<Rightarrow> int \<Rightarrow> ws_send \<Rightarrow> step list \<Rightarrow> client \<Rightarrow> json outcome \<times> client" where
  "subscribe symb now so es c =
     (case subscribe_start symb now so c of
        (Done r, c1) \<Rightarrow> (Returns r, c1)
      | (Waiting rid a, c1) \<Rightarrow> subscribe_finish symb rid a (fold exec es c1)
      | (Stuck, c1) \<Rightarrow> (Hangs, fold exec es c1))"

definition unsubscribe ::
  "string \<Rightarrow> int \<Rightarrow> ws_send \<Rightarrow> step list \<Rightarrow> client \<Rightarrow> json outcome \<times> client" where
  "unsubscribe symb now so es c =
     (case unsubscribe_start symb now so c of
        (Done r, c1) \<Rightarrow> (Returns r, c1)
      | (Waiting rid a, c1) \<Rightarrow> unsubscribe_finish symb rid a (fold exec es c1)
      | (Stuck, c1) \<Rightarrow> (Hangs, fold exec es c1))"

text \<open>Whether a frame is a response to the request \<open>rid\<close>: a dict whose request id is \<open>rid\<close>.\<close>

definition answers :: "string \<Rightarrow> frame \<Rightarrow> bool" where
  "answers rid fr =
     (case snd fr of
        Inr (JObj d) \<Rightarrow> dict_get d ''request_id'' JNull = JStr rid
      | _ \<Rightarrow> False)"

text \<open>
  Whether the test of line 142 is false for a decoded dict: its request id is falsy, or
  it is none of the keys of the pending-request table. (A list or a dict that is not
  empty cannot be looked up, the test raises.)
\<close>

definition no_response :: "(string \<times> json) list \<Rightarrow> client \<Rightarrow> bool" where
  "no_response d c =
     (case dict_get d ''request_id'' JNull of
        JStr s \<Rightarrow> s = [] \<or> map_of (pending_requests c) s = None
      | JList xs \<Rightarrow> xs = []
      | JObj kvs \<Rightarrow> kvs = []
      | _ \<Rightarrow> True)"

text \<open>The client without its log, and whether every future of the table has been created.\<close>

definition unlogged :: "client \<Rightarrow> client" where
  "unlogged c = c\<lparr>logged := []\<rparr>"

definition table_ok :: "client \<Rightarrow> bool" where
  "table_ok c = list_all (\<lambda>(k, a). a < next_future c) (pending_requests c)"

text \<open>
  A request that is live: its future has been created and is pending, and the table
  holds the future under the request id and under no other key.
\<close>

definition live :: "string \<Rightarrow> nat \<Rightarrow> client \<Rightarrow> bool" where
  "live rid a c \<longleftrightarrow>
     futures c a = Pending \<and> a < next_future c \<and>
     map_of (pending_requests c) rid = Some a \<and>
     list_all (\<lambda>p. snd p = a \<longrightarrow> fst p = rid) (pending_requests c)"

text \<open>The \<^verbatim>\<open>"status"\<close> of the dict a call returns, empty when there is none.\<close>

definition status_of :: "json outcome \<Rightarrow> string" where
  "status_of r =
     (case r of
        Returns (JObj d) \<Rightarrow> (case dict_get d ''status'' JNull of JStr s \<Rightarrow> s | _ \<Rightarrow> [])
      | _ \<Rightarrow> [])"


subsection \<open>One step, many steps\<close>

text \<open>
  How a client stands to the client one step later, and to the client any number of steps
  later: futures are only added, a future that is done keeps its state, the request
  counter goes up by one at most per step, and a key of the pending-request table is an
  old key or the text of a request id drawn since.
\<close>

definition step_rel :: "client \<Rightarrow> client \<Rightarrow> bool" where
  "step_rel c c' \<longleftrightarrow>
     next_future c \<le> next_future c' \<and>
     (\<forall>a. a < next_future c \<longrightarrow> fut_done (futures c a) \<longrightarrow> futures c' a = futures c a) \<and>
     (request_id c' = request_id c \<or> request_id c' = request_id c + 1) \<and>
     (\<forall>k \<in> fst ` set (pending_requests c').
        k \<in> fst ` set (pending_requests c) \<or>
        (request_id c' = request_id c + 1 \<and> (\<exists>now. k = request_id_text (request_id c + 1) now)))"

definition run_rel :: "client \<Rightarrow> client \<Rightarrow> bool" where
  "run_rel c c' \<longleftrightarrow>
     next_future c \<le> next_future c' \<and>
     (\<forall>a. a < next_future c \<longrightarrow> fut_done (futures c a) \<longrightarrow> futures c' a = futures c a) \<and>
     request_id c \<le> request_id c' \<and>
     (\<forall>k \<in> fst ` set (pending_requests c').
        k \<in> fst ` set (pending_requests c) \<or>
        (\<exists>n now. request_id c < n \<and> n \<le> request_id c' \<and> k = request_id_text n now))"

subsection \<open>Example clients\<close>

text \<open>
  Concrete clients on which the theorems below are instantiated: a client as
  \<^verbatim>\<open>__init__\<close> leaves it, the same client with an open socket and the connected flag
  set, and one whose three handlers raise.
\<close>

definition fresh :: client where
  "fresh = init ''key'' ''secret'' ''wss://demo.ironbeam.com/socket'' None None None"

definition ready :: client where
  "ready = fresh\<lparr>ws := Some 0, connected := True\<rparr>"

text \<open>
  A transport in good health (every \<^verbatim>\<open>websockets.connect\<close> yields a socket, every
  \<^verbatim>\<open>ws.send\<close> writes), a connected client with \<^verbatim>\<open>"MES"\<close> subscribed, and a
  connected client that has sent a subscribe request and waits for the response.
\<close>

definition healthy :: "nat \<Rightarrow> attempt" where
  "healthy k = (Inr (Suc k), ''2026-01-01T00:00:00'', None)"

definition subscribed :: client where
  "subscribed = ready\<lparr>subscriptions := {|''MES''|}\<rparr>"

definition waiting :: client where
  "waiting = snd (subscribe_start ''MES'' 1700000000000 (Completes None) ready)"

text \<open>
  A response to the request of \<open>waiting\<close>, the client that has handled it, and a
  market-data push.
\<close>

definition ack :: frame where
  "ack = (''ack'', Inr (JObj [(''request_id'', JStr ''req_1_1700000000000''),
                               (''status'', JStr ''ok'')]))"

definition answered :: client where
  "answered = handle_message ack waiting"

definition push :: frame where
  "push = (''tick'', Inr (JObj [(''type'', JStr ''market_data''), (''data'', JObj [])]))"

text \<open>
  A response with which the broker turns the request of \<open>waiting\<close> down; a second caller
  that subscribes to \<^verbatim>\<open>"MES"\<close> while the first one waits, and the response to it.
\<close>

definition rejection :: frame where
  "rejection = (''rejection'', Inr (JObj [(''request_id'', JStr ''req_1_1700000000000''),
                                         (''type'', JStr ''error''),
                                         (''message'', JStr ''Unknown symbol'')]))"

definition waiting2 :: client where
  "waiting2 = snd (subscribe_start ''MES'' 1700000000001 (Completes None) waiting)"

definition ack2 :: frame where
  "ack2 = (''ack2'', Inr (JObj [(''request_id'', JStr ''req_2_1700000000001''),
                                 (''status'', JStr ''ok'')]))"

definition ready_raising :: client where
  "ready_raising =
     ready\<lparr>on_market_data := Some (\<lambda>_. Some ''no strategy for this tick''),
           on_order_update := Some (\<lambda>_. Some ''unknown order''),
           on_position_update := Some (\<lambda>_. Some ''position book is closed'')\<rparr>"

text \<open>
  An order update and a position update; a frame that is not JSON and a binary frame
  that is not UTF-8.
\<close>

definition order_push :: frame where
  "order_push = (''order'', Inr (JObj [(''type'', JStr ''order_update''),
                                       (''data'', JObj [(''order_id'', JStr ''A1'')])]))"

definition position_push :: frame where
  "position_push = (''position'', Inr (JObj [(''type'', JStr ''position_update'')]))"

definition garbled :: frame where
  "garbled = (''{type: '', Inl (JSONDecodeError ''Expecting property name enclosed in double quotes''))"

definition undecodable :: frame where
  "undecodable = (''<binary>'', Inl (Exception ''invalid start byte''))"

text \<open>The request for the positions, with the id the fresh client draws first.\<close>

definition positions_request :: json where
  "positions_request = get_positions_message ''2026-01-01T00:00:00'' ''req_1_1700000000000''"

definition positions :: frame where
  "positions = (''positions'', Inr (JObj [(''request_id'', JStr ''req_1_1700000000000''),
                                           (''positions'', JList [])]))"

section \<open>Properties\<close>

subsection \<open>What each method leaves unchanged\<close>

lemma log_msg_fields [simp]:
  "connected (log_msg l t as c) = connected c"
  "ws (log_msg l t as c) = ws c"
  "subscriptions (log_msg l t as c) = subscriptions c"
  "reconnect_attempts (log_msg l t as c) = reconnect_attempts c"
  "max_reconnect_attempts (log_msg l t as c) = max_reconnect_attempts c"
  "pending_requests (log_msg l t as c) = pending_requests c"
  "request_id (log_msg l t as c) = request_id c"
  "futures (log_msg l t as c) = futures c"
  "next_future (log_msg l t as c) = next_future c"
  "wire (log_msg l t as c) = wire c"
  "slept (log_msg l t as c) = slept c"
  "listen_tasks (log_msg l t as c) = listen_tasks c"
  "on_market_data (log_msg l t as c) = on_market_data c"
  "on_order_update (log_msg l t as c) = on_order_update c"
  "on_position_update (log_msg l t as c) = on_position_update c"
  "logged (log_msg l t as c) = logged c @ [(l, t, as)]"
  by (simp_all add: log_msg_def)

lemma is_connected_log_msg [simp]: "is_connected (log_msg l t as c) = is_connected c"
  by (simp add: is_connected_def)

text \<open>A pass of the connect loop from a client that is not connected.\<close>

lemma connect_attempt_fails:
  assumes "\<not> connected c"
  shows "\<not> connected (connect_attempt att c)"
    and "reconnect_attempts (connect_attempt att c) = reconnect_attempts c + 1"
    and "max_reconnect_attempts (connect_attempt att c) = max_reconnect_attempts c"
    and "slept (connect_attempt att c) = slept c @ [min (5 * (reconnect_attempts c + 1)) 60]"
    and "wire (connect_attempt att c) = wire c"
    and "subscriptions (connect_attempt att c) = subscriptions c"
    and "pending_requests (connect_attempt att c) = pending_requests c"
    and "futures (connect_attempt att c) = futures c"
    and "next_future (connect_attempt att c) = next_future c"
    and "request_id (connect_attempt att c) = request_id c"
    and "listen_tasks (connect_attempt att c) = listen_tasks c"
  using assms
  by (cases att; simp add: connect_failed_def authenticate_def send_def is_connected_def Let_def
        split: sum.splits option.splits prod.splits)+


lemma connect_loop_step:
  "\<not> connected c \<Longrightarrow> reconnect_attempts c < max_reconnect_attempts c \<Longrightarrow>
   connect_loop env k c = connect_loop env (Suc k) (connect_attempt (env k) c)"
  by (subst connect_loop.simps) simp

lemma connect_loop_stop:
  "connected c \<or> \<not> reconnect_attempts c < max_reconnect_attempts c \<Longrightarrow>
   connect_loop env k c = c"
  by (subst connect_loop.simps) auto


lemma connect_loop_keeps:
  "connected (connect_loop env k c) = connected c \<and>
   max_reconnect_attempts (connect_loop env k c) = max_reconnect_attempts c \<and>
   wire (connect_loop env k c) = wire c \<and>
   subscriptions (connect_loop env k c) = subscriptions c \<and>
   pending_requests (connect_loop env k c) = pending_requests c \<and>
   futures (connect_loop env k c) = futures c \<and>
   next_future (connect_loop env k c) = next_future c \<and>
   request_id (connect_loop env k c) = request_id c \<and>
   listen_tasks (connect_loop env k c) = listen_tasks c"
proof (induction env k c rule: connect_loop.induct)
  case (1 env k c)
  show ?case
  proof (cases "\<not> connected c \<and> reconnect_attempts c < max_reconnect_attempts c")
    case True
    then have nc: "\<not> connected c" by simp
    have step: "connect_loop env k c = connect_loop env (Suc k) (connect_attempt (env k) c)"
      using True by (simp add: connect_loop_step)
    show ?thesis
      unfolding step using 1 [OF True] connect_attempt_fails [OF nc, of "env k"] nc by simp
  next
    case False
    then have "connect_loop env k c = c" by (intro connect_loop_stop) auto
    then show ?thesis by simp
  qed
qed

lemma connect_loop_attempts:
  "\<not> connected c \<Longrightarrow>
   reconnect_attempts (connect_loop env k c) = max (reconnect_attempts c) (max_reconnect_attempts c)"
proof (induction env k c rule: connect_loop.induct)
  case (1 env k c)
  show ?case
  proof (cases "reconnect_attempts c < max_reconnect_attempts c")
    case True
    have step: "connect_loop env k c = connect_loop env (Suc k) (connect_attempt (env k) c)"
      using True "1.prems" by (simp add: connect_loop_step)
    have "reconnect_attempts (connect_loop env (Suc k) (connect_attempt (env k) c)) =
          max (reconnect_attempts (connect_attempt (env k) c))
              (max_reconnect_attempts (connect_attempt (env k) c))"
      using "1.IH" True "1.prems" connect_attempt_fails(1) [OF "1.prems"] by simp
    then show ?thesis
      unfolding step using True connect_attempt_fails(2,3) [OF "1.prems", of "env k"] by simp
  next
    case False
    then have "connect_loop env k c = c" by (intro connect_loop_stop) auto
    then show ?thesis using False by simp
  qed
qed

lemma connect_loop_slept:
  "\<not> connected c \<Longrightarrow>
   slept (connect_loop env k c) =
     slept c @ map (\<lambda>n. min (5 * n) 60) [reconnect_attempts c + 1 .. max_reconnect_attempts c]"
proof (induction env k c rule: connect_loop.induct)
  case (1 env k c)
  show ?case
  proof (cases "reconnect_attempts c < max_reconnect_attempts c")
    case True
    have step: "connect_loop env k c = connect_loop env (Suc k) (connect_attempt (env k) c)"
      using True "1.prems" by (simp add: connect_loop_step)
    have up: "[reconnect_attempts c + 1 .. max_reconnect_attempts c] =
               (reconnect_attempts c + 1) # [reconnect_attempts c + 1 + 1 .. max_reconnect_attempts c]"
      using True by (simp add: upto_rec1)
    have "slept (connect_loop env (Suc k) (connect_attempt (env k) c)) =
          slept (connect_attempt (env k) c) @ map (\<lambda>n. min (5 * n) 60)
            [reconnect_attempts (connect_attempt (env k) c) + 1 ..
             max_reconnect_attempts (connect_attempt (env k) c)]"
      using "1.IH" True "1.prems" connect_attempt_fails(1) [OF "1.prems"] by simp
    then show ?thesis
      unfolding step up using connect_attempt_fails(2,3,4) [OF "1.prems", of "env k"] by simp
  next
    case False
    then have "connect_loop env k c = c" by (intro connect_loop_stop) auto
    then show ?thesis using False by simp
  qed
qed

lemma call_handler_state [simp]: "snd (call_handler h p c) = c"
  by (simp add: call_handler_def split: option.splits)

lemma dispatch_fields [simp]:
  "connected (snd (dispatch t d c)) = connected c"
  "ws (snd (dispatch t d c)) = ws c"
  "subscriptions (snd (dispatch t d c)) = subscriptions c"
  "reconnect_attempts (snd (dispatch t d c)) = reconnect_attempts c"
  "max_reconnect_attempts (snd (dispatch t d c)) = max_reconnect_attempts c"
  "pending_requests (snd (dispatch t d c)) = pending_requests c"
  "request_id (snd (dispatch t d c)) = request_id c"
  "futures (snd (dispatch t d c)) = futures c"
  "next_future (snd (dispatch t d c)) = next_future c"
  "wire (snd (dispatch t d c)) = wire c"
  "slept (snd (dispatch t d c)) = slept c"
  "listen_tasks (snd (dispatch t d c)) = listen_tasks c"
  by (simp_all add: dispatch_def split: option.splits)

lemma pop_pending_fields [simp]:
  "connected (pop_pending rid c) = connected c"
  "ws (pop_pending rid c) = ws c"
  "subscriptions (pop_pending rid c) = subscriptions c"
  "reconnect_attempts (pop_pending rid c) = reconnect_attempts c"
  "max_reconnect_attempts (pop_pending rid c) = max_reconnect_attempts c"
  "pending_requests (pop_pending rid c) = AList.delete rid (pending_requests c)"
  "request_id (pop_pending rid c) = request_id c"
  "futures (pop_pending rid c) = futures c"
  "next_future (pop_pending rid c) = next_future c"
  "wire (pop_pending rid c) = wire c"
  "slept (pop_pending rid c) = slept c"
  "listen_tasks (pop_pending rid c) = listen_tasks c"
  "logged (pop_pending rid c) = logged c"
  by (simp_all add: pop_pending_def)

lemma resolve_fields [simp]:
  "fst (resolve rid a data c) = None"
  "connected (snd (resolve rid a data c)) = connected c"
  "ws (snd (resolve rid a data c)) = ws c"
  "subscriptions (snd (resolve rid a data c)) = subscriptions c"
  "reconnect_attempts (snd (resolve rid a data c)) = reconnect_attempts c"
  "max_reconnect_attempts (snd (resolve rid a data c)) = max_reconnect_attempts c"
  "pending_requests (snd (resolve rid a data c)) = AList.delete rid (pending_requests c)"
  "request_id (snd (resolve rid a data c)) = request_id c"
  "futures (snd (resolve rid a data c)) =
     (if fut_done (futures c a) then futures c else (futures c)(a := Finished data))"
  "next_future (snd (resolve rid a data c)) = next_future c"
  "wire (snd (resolve rid a data c)) = wire c"
  "slept (snd (resolve rid a data c)) = slept c"
  "listen_tasks (snd (resolve rid a data c)) = listen_tasks c"
  "logged (snd (resolve rid a data c)) = logged c"
  by (simp_all add: resolve_def set_result_def Let_def)

lemma handle_decoded_fields [simp]:
  "connected (snd (handle_decoded data c)) = connected c"
  "ws (snd (handle_decoded data c)) = ws c"
  "subscriptions (snd (handle_decoded data c)) = subscriptions c"
  "reconnect_attempts (snd (handle_decoded data c)) = reconnect_attempts c"
  "max_reconnect_attempts (snd (handle_decoded data c)) = max_reconnect_attempts c"
  "request_id (snd (handle_decoded data c)) = request_id c"
  "next_future (snd (handle_decoded data c)) = next_future c"
  "wire (snd (handle_decoded data c)) = wire c"
  "slept (snd (handle_decoded data c)) = slept c"
  "listen_tasks (snd (handle_decoded data c)) = listen_tasks c"
  by (simp_all add: handle_decoded_def Let_def split: json.splits option.splits)

lemma dispatch_raises: "fst (dispatch t d c) = Some e \<Longrightarrow> \<exists>m. e = Exception m"
  by (auto simp: dispatch_def call_handler_def split: if_splits option.splits)

lemma handle_decoded_raises:
  "fst (handle_decoded data c) = Some e \<Longrightarrow>
   (\<exists>m. e = Exception m) \<or> (\<exists>m. e = TypeError m) \<or> (\<exists>m. e = AttributeError m)"
  by (auto simp: handle_decoded_def Let_def dest: dispatch_raises
        split: json.splits option.splits if_splits)

lemma handle_decoded_not_decode_error [simp]:
  "handle_decoded data c \<noteq> (Some (JSONDecodeError m), c')"
  using handle_decoded_raises [of data c "JSONDecodeError m"] by auto

lemma handle_message_decoded:
  "handle_message (raw, Inr data) c =
     (case fst (handle_decoded data c) of
        Some e \<Rightarrow> log_msg ERROR ''Error handling message: '' [AStr (str_exn e)]
                    (snd (handle_decoded data c))
      | None \<Rightarrow> snd (handle_decoded data c))"
proof (cases "handle_decoded data c")
  case (Pair r c')
  show ?thesis
  proof (cases r)
    case None
    with Pair show ?thesis by (simp add: handle_message_def handle_message_try_def)
  next
    case (Some e)
    with Pair have "\<And>m. e \<noteq> JSONDecodeError m"
      using handle_decoded_not_decode_error [of data c _ c'] by auto
    with Pair Some show ?thesis
      by (cases e) (simp_all add: handle_message_def handle_message_try_def)
  qed
qed

lemma handle_message_undecoded:
  "handle_message (raw, Inl e) c =
     (case e of
        JSONDecodeError m \<Rightarrow> log_msg ERROR ''Failed to decode message: '' [AStr raw] c
      | _ \<Rightarrow> log_msg ERROR ''Error handling message: '' [AStr (str_exn e)] c)"
  by (cases e) (simp_all add: handle_message_def handle_message_try_def)

lemma handle_message_eq:
  "handle_message fr c =
     (case snd fr of
        Inl e \<Rightarrow>
          (case e of
             JSONDecodeError m \<Rightarrow> log_msg ERROR ''Failed to decode message: '' [AStr (fst fr)] c
           | _ \<Rightarrow> log_msg ERROR ''Error handling message: '' [AStr (str_exn e)] c)
      | Inr data \<Rightarrow>
          (case fst (handle_decoded data c) of
             Some e \<Rightarrow> log_msg ERROR ''Error handling message: '' [AStr (str_exn e)]
                         (snd (handle_decoded data c))
           | None \<Rightarrow> snd (handle_decoded data c)))"
  by (cases fr; cases "snd fr")
     (simp_all add: handle_message_decoded handle_message_undecoded cong: exn.case_cong)

lemma handle_message_fields [simp]:
  "connected (handle_message fr c) = connected c"
  "ws (handle_message fr c) = ws c"
  "subscriptions (handle_message fr c) = subscriptions c"
  "reconnect_attempts (handle_message fr c) = reconnect_attempts c"
  "max_reconnect_attempts (handle_message fr c) = max_reconnect_attempts c"
  "request_id (handle_message fr c) = request_id c"
  "next_future (handle_message fr c) = next_future c"
  "wire (handle_message fr c) = wire c"
  "slept (handle_message fr c) = slept c"
  "listen_tasks (handle_message fr c) = listen_tasks c"
  by (simp_all add: handle_message_eq split: sum.splits option.splits exn.splits)

lemma fold_handle_message_fields [simp]:
  "connected (fold handle_message frames c) = connected c"
  "ws (fold handle_message frames c) = ws c"
  "subscriptions (fold handle_message frames c) = subscriptions c"
  "wire (fold handle_message frames c) = wire c"
  "request_id (fold handle_message frames c) = request_id c"
  "next_future (fold handle_message frames c) = next_future c"
  "reconnect_attempts (fold handle_message frames c) = reconnect_attempts c"
  "listen_tasks (fold handle_message frames c) = listen_tasks c"
  by (induction frames arbitrary: c; simp)+


lemma get_request_id_eq:
  "get_request_id now c =
     (request_id_text (request_id c + 1) now, c\<lparr>request_id := request_id c + 1\<rparr>)"
  by (simp add: get_request_id_def Let_def)

lemma register_not_connected:
  "\<not> is_connected c \<Longrightarrow>
   send_with_response_register message rid tr c = (Raised (Exception ''WebSocket not connected''), c)"
  by (simp add: send_with_response_register_def)

lemma register_sent:
  "is_connected c \<Longrightarrow>
   send_with_response_register (JObj d) rid (Completes None) c =
     (Awaits (next_future c),
      log_msg DEBUG ''Sent message: '' [AJson (dict_get d ''action'' (JStr ''unknown''))]
        (c\<lparr>futures := (futures c)(next_future c := Pending),
            next_future := Suc (next_future c),
            pending_requests := AList.update rid (next_future c) (pending_requests c),
            wire := wire c @ [JObj d]\<rparr>))"
  by (auto simp: send_with_response_register_def new_future_def send_def is_connected_def
        log_msg_def Let_def)

lemma register_refused:
  "is_connected c \<Longrightarrow> \<forall>d. message \<noteq> JObj d \<Longrightarrow>
   send_with_response_register message rid (Completes None) c =
     (Raised (AttributeError (quoted (type_name message) @ '' object has no attribute ''
                               @ quoted ''get'')),
      (log_msg ERROR ''Failed to send message: ''
         [AStr (quoted (type_name message) @ '' object has no attribute '' @ quoted ''get'')]
        (c\<lparr>futures := (futures c)(next_future c := Pending),
            next_future := Suc (next_future c),
            pending_requests := AList.delete rid (pending_requests c),
            wire := wire c @ [message]\<rparr>))
        \<lparr>connected := False\<rparr>)"
  by (cases message)
     (auto simp: send_with_response_register_def new_future_def send_def send_failed_def
        is_connected_def log_msg_def pop_pending_def AList.delete_update_same Let_def)

lemma register_send_failed:
  "is_connected c \<Longrightarrow>
   send_with_response_register message rid (Completes (Some m)) c =
     (Raised (Exception m),
      (log_msg ERROR ''Failed to send message: '' [AStr m]
        (c\<lparr>futures := (futures c)(next_future c := Pending),
            next_future := Suc (next_future c),
            pending_requests := AList.delete rid (pending_requests c)\<rparr>))
        \<lparr>connected := False\<rparr>)"
  by (auto simp: send_with_response_register_def new_future_def send_def send_failed_def
        is_connected_def log_msg_def pop_pending_def AList.delete_update_same Let_def)

lemma register_stalled:
  "is_connected c \<Longrightarrow>
   send_with_response_register message rid Stalls c =
     (Stalled,
      c\<lparr>futures := (futures c)(next_future c := Pending),
        next_future := Suc (next_future c),
        pending_requests := AList.update rid (next_future c) (pending_requests c)\<rparr>)"
  by (simp add: send_with_response_register_def new_future_def Let_def)

lemma register_cases:
  obtains (offline) "\<not> is_connected c"
      "send_with_response_register message rid tr c = (Raised (Exception ''WebSocket not connected''), c)"
  | (sent) d where "is_connected c" "tr = Completes None" "message = JObj d"
      "send_with_response_register message rid tr c =
         (Awaits (next_future c),
          log_msg DEBUG ''Sent message: '' [AJson (dict_get d ''action'' (JStr ''unknown''))]
            (c\<lparr>futures := (futures c)(next_future c := Pending),
                next_future := Suc (next_future c),
                pending_requests := AList.update rid (next_future c) (pending_requests c),
                wire := wire c @ [message]\<rparr>))"
  | (refused) "is_connected c" "tr = Completes None" "\<forall>d. message \<noteq> JObj d"
      "send_with_response_register message rid tr c =
         (Raised (AttributeError (quoted (type_name message) @ '' object has no attribute ''
                                   @ quoted ''get'')),
          (log_msg ERROR ''Failed to send message: ''
             [AStr (quoted (type_name message) @ '' object has no attribute '' @ quoted ''get'')]
            (c\<lparr>futures := (futures c)(next_future c := Pending),
                next_future := Suc (next_future c),
                pending_requests := AList.delete rid (pending_requests c),
                wire := wire c @ [message]\<rparr>))
            \<lparr>connected := False\<rparr>)"
  | (failed) m where "is_connected c" "tr = Completes (Some m)"
      "send_with_response_register message rid tr c =
         (Raised (Exception m),
          (log_msg ERROR ''Failed to send message: '' [AStr m]
            (c\<lparr>futures := (futures c)(next_future c := Pending),
                next_future := Suc (next_future c),
                pending_requests := AList.delete rid (pending_requests c)\<rparr>))
            \<lparr>connected := False\<rparr>)"
  | (stalled) "is_connected c" "tr = Stalls"
      "send_with_response_register message rid tr c =
         (Stalled,
          c\<lparr>futures := (futures c)(next_future c := Pending),
            next_future := Suc (next_future c),
            pending_requests := AList.update rid (next_future c) (pending_requests c)\<rparr>)"
proof (cases "is_connected c")
  case False
  then show ?thesis using offline register_not_connected by blast
next
  case True
  show ?thesis
  proof (cases tr)
    case Stalls
    then show ?thesis using stalled True register_stalled by blast
  next
    case (Completes so)
    show ?thesis
    proof (cases so)
      case (Some m)
      then show ?thesis using failed True Completes register_send_failed by blast
    next
      case None
      show ?thesis
      proof (cases "\<exists>d. message = JObj d")
        case True
        then obtain d where "message = JObj d" by blast
        then show ?thesis
          using sent [of d] \<open>is_connected c\<close> Completes None register_sent [of c d rid] by simp
      next
        case False
        then show ?thesis
          using refused \<open>is_connected c\<close> Completes None register_refused [of c message rid] by simp
      qed
    qed
  qed
qed

lemma register_fields [simp]:
  "subscriptions (snd (send_with_response_register message rid tr c)) = subscriptions c"
  "request_id (snd (send_with_response_register message rid tr c)) = request_id c"
  "ws (snd (send_with_response_register message rid tr c)) = ws c"
  "reconnect_attempts (snd (send_with_response_register message rid tr c)) = reconnect_attempts c"
  "max_reconnect_attempts (snd (send_with_response_register message rid tr c)) = max_reconnect_attempts c"
  "slept (snd (send_with_response_register message rid tr c)) = slept c"
  "listen_tasks (snd (send_with_response_register message rid tr c)) = listen_tasks c"
  by (rule register_cases [of c message rid tr]; simp)+

lemma await_fields [simp]:
  "subscriptions (snd (send_with_response_await rid a t c)) = subscriptions c"
  "request_id (snd (send_with_response_await rid a t c)) = request_id c"
  "ws (snd (send_with_response_await rid a t c)) = ws c"
  "connected (snd (send_with_response_await rid a t c)) = connected c"
  "reconnect_attempts (snd (send_with_response_await rid a t c)) = reconnect_attempts c"
  "max_reconnect_attempts (snd (send_with_response_await rid a t c)) = max_reconnect_attempts c"
  "next_future (snd (send_with_response_await rid a t c)) = next_future c"
  "wire (snd (send_with_response_await rid a t c)) = wire c"
  "slept (snd (send_with_response_await rid a t c)) = slept c"
  "listen_tasks (snd (send_with_response_await rid a t c)) = listen_tasks c"
  "logged (snd (send_with_response_await rid a t c)) = logged c"
  by (simp_all add: send_with_response_await_def split: future.splits)

lemma await_futures:
  "futures (snd (send_with_response_await rid a t c)) =
     (if futures c a = Pending then (futures c)(a := Cancelled) else futures c)"
  by (simp add: send_with_response_await_def split: future.splits)

lemma await_pending:
  "pending_requests (snd (send_with_response_await rid a t c)) =
     (case futures c a of
        Finished d \<Rightarrow> pending_requests c
      | Cancelled \<Rightarrow> pending_requests c
      | _ \<Rightarrow> AList.delete rid (pending_requests c))"
  by (simp add: send_with_response_await_def split: future.splits)

lemma fail_pending_None [simp]: "fst (fail_pending items c) = None"
  by (induction items c rule: fail_pending.induct) (simp_all add: set_exception_def)

lemma fail_pending_futures:
  "futures (snd (fail_pending items c)) a =
     (if a \<in> snd ` set items \<and> futures c a = Pending
      then Failed (Exception ''Connection closed'') else futures c a)"
proof (induction items c rule: fail_pending.induct)
  case (1 c)
  then show ?case by simp
next
  case (2 rid b items c)
  show ?case
  proof (cases "fut_done (futures c b)")
    case True
    with 2 show ?thesis by (auto simp: fut_done_def)
  next
    case False
    then have se: "set_exception b (Exception ''Connection closed'') c =
                 Inr (c\<lparr>futures := (futures c)(b := Failed (Exception ''Connection closed''))\<rparr>)"
      by (simp add: set_exception_def)
    from False 2(1) [OF False se] show ?thesis
      by (auto simp: se fut_done_def)
  qed
qed


lemma fail_pending_fields [simp]:
  "connected (snd (fail_pending items c)) = connected c"
  "ws (snd (fail_pending items c)) = ws c"
  "subscriptions (snd (fail_pending items c)) = subscriptions c"
  "reconnect_attempts (snd (fail_pending items c)) = reconnect_attempts c"
  "max_reconnect_attempts (snd (fail_pending items c)) = max_reconnect_attempts c"
  "pending_requests (snd (fail_pending items c)) = pending_requests c"
  "request_id (snd (fail_pending items c)) = request_id c"
  "next_future (snd (fail_pending items c)) = next_future c"
  "wire (snd (fail_pending items c)) = wire c"
  "slept (snd (fail_pending items c)) = slept c"
  "listen_tasks (snd (fail_pending items c)) = listen_tasks c"
  "logged (snd (fail_pending items c)) = logged c"
  by (induction items c rule: fail_pending.induct, simp_all add: set_exception_def)+

lemma fail_pending_pair: "fail_pending items c = (None, snd (fail_pending items c))"
  using fail_pending_None [of items c] by (cases "fail_pending items c") simp


lemma fail_pending_not_Some [simp]: "fail_pending items c \<noteq> (Some e, c')"
proof
  assume "fail_pending items c = (Some e, c')"
  then have "fst (fail_pending items c) = Some e" by simp
  then show False by simp
qed

lemma disconnect_eq:
  "disconnect co c =
     (None, (snd (fail_pending (pending_requests c) (close_socket co c)))\<lparr>pending_requests := []\<rparr>)"
proof -
  have pr: "pending_requests (close_socket co c) = pending_requests c"
    by (simp add: close_socket_def split: option.splits)
  obtain c3 where fp: "fail_pending (pending_requests c) (close_socket co c) = (None, c3)"
    using fail_pending_pair by blast
  have "disconnect co c = (None, c3\<lparr>pending_requests := []\<rparr>)"
    unfolding disconnect_def Let_def using fp pr by simp
  then show ?thesis using fp by simp
qed


lemma close_socket_fields [simp]:
  "connected (close_socket co c) = False"
  "ws (close_socket co c) = ws c"
  "subscriptions (close_socket co c) = subscriptions c"
  "reconnect_attempts (close_socket co c) = reconnect_attempts c"
  "max_reconnect_attempts (close_socket co c) = max_reconnect_attempts c"
  "pending_requests (close_socket co c) = pending_requests c"
  "request_id (close_socket co c) = request_id c"
  "futures (close_socket co c) = futures c"
  "next_future (close_socket co c) = next_future c"
  "wire (close_socket co c) = wire c"
  "slept (close_socket co c) = slept c"
  "listen_tasks (close_socket co c) = listen_tasks c"
  by (simp_all add: close_socket_def split: option.splits)

lemma disconnect_fields [simp]:
  "fst (disconnect co c) = None"
  "connected (snd (disconnect co c)) = False"
  "ws (snd (disconnect co c)) = ws c"
  "subscriptions (snd (disconnect co c)) = subscriptions c"
  "reconnect_attempts (snd (disconnect co c)) = reconnect_attempts c"
  "max_reconnect_attempts (snd (disconnect co c)) = max_reconnect_attempts c"
  "pending_requests (snd (disconnect co c)) = []"
  "request_id (snd (disconnect co c)) = request_id c"
  "next_future (snd (disconnect co c)) = next_future c"
  "wire (snd (disconnect co c)) = wire c"
  "slept (snd (disconnect co c)) = slept c"
  "listen_tasks (snd (disconnect co c)) = listen_tasks c"
  by (simp_all add: disconnect_eq)

lemma disconnect_futures:
  "futures (snd (disconnect co c)) a =
     (if a \<in> snd ` set (pending_requests c) \<and> futures c a = Pending
      then Failed (Exception ''Connection closed'') else futures c a)"
  by (simp add: disconnect_eq fail_pending_futures)

lemma connect_fields [simp]:
  "connected (connect env c) = connected c"
  "max_reconnect_attempts (connect env c) = max_reconnect_attempts c"
  "wire (connect env c) = wire c"
  "subscriptions (connect env c) = subscriptions c"
  "pending_requests (connect env c) = pending_requests c"
  "futures (connect env c) = futures c"
  "next_future (connect env c) = next_future c"
  "request_id (connect env c) = request_id c"
  "listen_tasks (connect env c) = listen_tasks c"
  by (simp_all add: connect_def Let_def connect_loop_keeps)

lemma listen_end_fields [simp]:
  "connected (listen_end cause env c) = False"
  "max_reconnect_attempts (listen_end cause env c) = max_reconnect_attempts c"
  "wire (listen_end cause env c) = wire c"
  "subscriptions (listen_end cause env c) = subscriptions c"
  "pending_requests (listen_end cause env c) = pending_requests c"
  "futures (listen_end cause env c) = futures c"
  "next_future (listen_end cause env c) = next_future c"
  "request_id (listen_end cause env c) = request_id c"
  "listen_tasks (listen_end cause env c) = listen_tasks c"
  by (simp_all add: listen_end_def Let_def split: option.splits exn.splits)

subsection \<open>Request ids as text\<close>

lemma digit_char_inj: "a < 10 \<Longrightarrow> b < 10 \<Longrightarrow> digit_char a = digit_char b \<Longrightarrow> a = b"
proof -
  assume a: "a < 10" and b: "b < 10" and eq: "digit_char a = digit_char b"
  have d: "distinct ''0123456789''" by simp
  have "a < length ''0123456789''" "b < length ''0123456789''" using a b by simp_all
  with d eq show "a = b" unfolding digit_char_def by (simp only: nth_eq_iff_index_eq)
qed

lemma digit_char_digit: "n < 10 \<Longrightarrow> digit_char n \<in> set ''0123456789''"
proof -
  assume "n < 10"
  then have "n < length ''0123456789''" by simp
  then show ?thesis unfolding digit_char_def by (rule nth_mem)
qed

lemma str_nat_small: "n < 10 \<Longrightarrow> str_nat n = [digit_char n]"
  by (subst str_nat.simps) simp

lemma str_nat_large: "\<not> n < 10 \<Longrightarrow> str_nat n = str_nat (n div 10) @ [digit_char (n mod 10)]"
  by (subst str_nat.simps) simp

lemma str_nat_digits: "set (str_nat n) \<subseteq> set ''0123456789''"
proof (induction n rule: str_nat.induct)
  case (1 n)
  show ?case
  proof (cases "n < 10")
    case True
    then show ?thesis using digit_char_digit [of n] by (simp add: str_nat_small)
  next
    case False
    have "n mod 10 < 10" by simp
    then have "digit_char (n mod 10) \<in> set ''0123456789''" by (rule digit_char_digit)
    moreover have "str_nat n = str_nat (n div 10) @ [digit_char (n mod 10)]"
      using False by (rule str_nat_large)
    ultimately show ?thesis using 1 [OF False] by simp
  qed
qed

lemma str_nat_not_Nil: "str_nat n \<noteq> []"
  by (cases "n < 10") (simp_all add: str_nat_small str_nat_large)


lemma str_nat_inj: "str_nat n = str_nat m \<Longrightarrow> n = m"
proof (induction n arbitrary: m rule: str_nat.induct)
  case (1 n)
  show ?case
  proof (cases "n < 10")
    case n: True
    show ?thesis
    proof (cases "m < 10")
      case True
      with n "1.prems" have "digit_char n = digit_char m" by (simp add: str_nat_small)
      with n True show ?thesis by (rule digit_char_inj)
    next
      case False
      with n "1.prems" have "str_nat (m div 10) = []"
        by (simp add: str_nat_small str_nat_large)
      then show ?thesis using str_nat_not_Nil by simp
    qed
  next
    case n: False
    show ?thesis
    proof (cases "m < 10")
      case True
      with n "1.prems" have "str_nat (n div 10) = []"
        by (simp add: str_nat_small str_nat_large)
      then show ?thesis using str_nat_not_Nil by simp
    next
      case False
      with n "1.prems" have a: "str_nat (n div 10) = str_nat (m div 10)"
        and b: "digit_char (n mod 10) = digit_char (m mod 10)"
        by (simp_all add: str_nat_large)
      from "1.IH" [OF n a] have d: "n div 10 = m div 10" .
      have "n mod 10 < 10" "m mod 10 < 10" by simp_all
      then have "n mod 10 = m mod 10" using b by (rule digit_char_inj)
      with d have "10 * (n div 10) + n mod 10 = 10 * (m div 10) + m mod 10" by simp
      then show ?thesis by (simp only: mult_div_mod_eq)
    qed
  qed
qed


lemma str_nat_no_sign: "CHR ''-'' \<notin> set (str_nat n)" "CHR ''_'' \<notin> set (str_nat n)"
  using str_nat_digits [of n] by auto

lemma str_int_no_underscore: "CHR ''_'' \<notin> set (str_int i)"
  by (simp add: str_int_def str_nat_no_sign)

lemma str_nat_no_minus: "str_nat n \<noteq> CHR ''-'' # xs"
proof
  assume "str_nat n = CHR ''-'' # xs"
  then have "CHR ''-'' \<in> set (str_nat n)" by simp
  then show False by (simp add: str_nat_no_sign)
qed

lemma str_int_inj: "str_int i = str_int j \<Longrightarrow> i = j"
proof -
  assume eq: "str_int i = str_int j"
  consider (nn) "i < 0" "j < 0" | (np) "i < 0" "\<not> j < 0" | (pn) "\<not> i < 0" "j < 0"
    | (pp) "\<not> i < 0" "\<not> j < 0" by blast
  then show ?thesis
  proof cases
    case nn
    with eq have "str_nat (nat (- i)) = str_nat (nat (- j))" by (simp add: str_int_def)
    then have "nat (- i) = nat (- j)" by (rule str_nat_inj)
    with nn show ?thesis by simp
  next
    case np
    with eq have "str_nat (nat j) = CHR ''-'' # str_nat (nat (- i))" by (simp add: str_int_def)
    then show ?thesis using str_nat_no_minus by blast
  next
    case pn
    with eq have "str_nat (nat i) = CHR ''-'' # str_nat (nat (- j))" by (simp add: str_int_def)
    then show ?thesis using str_nat_no_minus by blast
  next
    case pp
    with eq have "str_nat (nat i) = str_nat (nat j)" by (simp add: str_int_def)
    then have "nat i = nat j" by (rule str_nat_inj)
    with pp show ?thesis by simp
  qed
qed

lemma split_at_first:
  "x \<notin> set xs \<Longrightarrow> x \<notin> set xs' \<Longrightarrow> xs @ x # ys = xs' @ x # ys' \<Longrightarrow> xs = xs' \<and> ys = ys'"
proof (induction xs arbitrary: xs')
  case Nil
  then show ?case by (cases xs') auto
next
  case (Cons a xs)
  then show ?case by (cases xs') auto
qed

lemma request_id_text_inj:
  "request_id_text n now = request_id_text n' now' \<Longrightarrow> n = n' \<and> now = now'"
proof -
  assume "request_id_text n now = request_id_text n' now'"
  then have "str_int n @ CHR ''_'' # str_int now = str_int n' @ CHR ''_'' # str_int now'"
    by (simp add: request_id_text_def)
  then have "str_int n = str_int n' \<and> str_int now = str_int now'"
    using str_int_no_underscore by (intro split_at_first) auto
  then show ?thesis by (simp add: str_int_inj)
qed

subsection \<open>The read loop and failing frames\<close>

lemma unlogged_log_msg [simp]: "unlogged (log_msg l t as c) = unlogged c"
  by (simp add: unlogged_def log_msg_def)

lemma dispatch_raised_state:
  "fst (dispatch t d c) \<noteq> None \<Longrightarrow> snd (dispatch t d c) = c"
  by (simp add: dispatch_def call_handler_def split: if_splits option.splits)

lemma no_response_dispatch:
  "no_response d c \<Longrightarrow> handle_decoded (JObj d) c = dispatch (dict_get d ''type'' JNull) d c"
  by (cases "dict_get d ''request_id'' JNull")
     (auto simp: no_response_def handle_decoded_def Let_def)

lemma response_or_unhashable:
  "\<not> no_response d c \<Longrightarrow>
   fst (handle_decoded (JObj d) c) = None \<or>
   (\<exists>m. handle_decoded (JObj d) c = (Some (TypeError m), c))"
  by (cases "dict_get d ''request_id'' JNull")
     (auto simp: no_response_def handle_decoded_def Let_def)

lemma handle_decoded_raised_state:
  assumes r: "fst (handle_decoded data c) = Some e"
  shows "snd (handle_decoded data c) = c"
proof (cases data)
  case (JObj d)
  show ?thesis
  proof (cases "no_response d c")
    case True
    with r JObj show ?thesis by (simp add: no_response_dispatch dispatch_raised_state)
  next
    case False
    from response_or_unhashable [OF this] r JObj show ?thesis by auto
  qed
qed (simp_all add: handle_decoded_def)

lemma handle_message_try_raised_state:
  "fst (handle_message_try fr c) = Some e \<Longrightarrow> snd (handle_message_try fr c) = c"
  by (cases "snd fr") (simp_all add: handle_message_try_def handle_decoded_raised_state)

lemma handle_message_raised:
  assumes "fst (handle_message_try fr c) = Some e"
  shows "handle_message fr c =
           (case e of
              JSONDecodeError m \<Rightarrow> log_msg ERROR ''Failed to decode message: '' [AStr (fst fr)] c
            | _ \<Rightarrow> log_msg ERROR ''Error handling message: '' [AStr (str_exn e)] c)"
proof -
  from assms handle_message_try_raised_state [OF assms]
  have "handle_message_try fr c = (Some e, c)" by (simp add: prod_eq_iff)
  then show ?thesis by (cases e) (simp_all add: handle_message_def)
qed

lemma handler_raises:
  assumes "no_response d c" and "h (dict_get d ''data'' (JObj [])) = Some m"
  shows "dict_get d ''type'' JNull = JStr ''market_data'' \<Longrightarrow> on_market_data c = Some h \<Longrightarrow>
         handle_message (raw, Inr (JObj d)) c = log_msg ERROR ''Error handling message: '' [AStr m] c"
    and "dict_get d ''type'' JNull = JStr ''order_update'' \<Longrightarrow> on_order_update c = Some h \<Longrightarrow>
         handle_message (raw, Inr (JObj d)) c = log_msg ERROR ''Error handling message: '' [AStr m] c"
    and "dict_get d ''type'' JNull = JStr ''position_update'' \<Longrightarrow> on_position_update c = Some h \<Longrightarrow>
         handle_message (raw, Inr (JObj d)) c = log_msg ERROR ''Error handling message: '' [AStr m] c"
  using assms
  by (simp_all add: handle_message_decoded no_response_dispatch dispatch_def call_handler_def)

text \<open>What a frame does to the client does not depend on the log.\<close>

lemma unlogged_idem [simp]: "unlogged (unlogged c) = unlogged c"
  by (simp add: unlogged_def)

lemma dispatch_unlogged:
  "fst (dispatch t d (unlogged c)) = fst (dispatch t d c)"
  "unlogged (snd (dispatch t d (unlogged c))) = unlogged (snd (dispatch t d c))"
  by (simp_all add: dispatch_def call_handler_def unlogged_def log_msg_def split: option.splits)

lemma resolve_unlogged:
  "unlogged (snd (resolve rid a data (unlogged c))) = unlogged (snd (resolve rid a data c))"
  by (simp add: resolve_def set_result_def pop_pending_def unlogged_def Let_def)

lemma handle_decoded_unlogged:
  "fst (handle_decoded data (unlogged c)) = fst (handle_decoded data c)"
  "unlogged (snd (handle_decoded data (unlogged c))) = unlogged (snd (handle_decoded data c))"
proof -
  have p: "pending_requests (unlogged c) = pending_requests c" by (simp add: unlogged_def)
  show "fst (handle_decoded data (unlogged c)) = fst (handle_decoded data c)"
    by (simp add: handle_decoded_def Let_def p dispatch_unlogged
          split: json.splits option.splits)
  show "unlogged (snd (handle_decoded data (unlogged c))) = unlogged (snd (handle_decoded data c))"
    by (simp add: handle_decoded_def Let_def p dispatch_unlogged resolve_unlogged
          split: json.splits option.splits)
qed

lemma handle_message_unlogged:
  "unlogged (handle_message fr (unlogged c)) = unlogged (handle_message fr c)"
proof (cases fr)
  case (Pair raw r)
  show ?thesis
  proof (cases r)
    case (Inl e)
    with Pair show ?thesis
      by (cases e) (simp_all add: handle_message_undecoded)
  next
    case (Inr data)
    with Pair show ?thesis
      by (simp add: handle_message_decoded handle_decoded_unlogged split: option.splits)
  qed
qed

lemma handle_message_same_unlogged:
  assumes "unlogged c = unlogged c'"
  shows "unlogged (handle_message fr c) = unlogged (handle_message fr c')"
proof -
  have "unlogged (handle_message fr c) = unlogged (handle_message fr (unlogged c))"
    by (simp add: handle_message_unlogged)
  also have "\<dots> = unlogged (handle_message fr (unlogged c'))" using assms by simp
  also have "\<dots> = unlogged (handle_message fr c')" by (simp add: handle_message_unlogged)
  finally show ?thesis .
qed

lemma fold_handle_message_same_unlogged:
  "unlogged c = unlogged c' \<Longrightarrow>
   unlogged (fold handle_message frames c) = unlogged (fold handle_message frames c')"
proof (induction frames arbitrary: c c')
  case Nil
  then show ?case by simp
next
  case (Cons fr frames)
  from Cons.prems have "unlogged (handle_message fr c) = unlogged (handle_message fr c')"
    by (rule handle_message_same_unlogged)
  then have "unlogged (fold handle_message frames (handle_message fr c)) =
             unlogged (fold handle_message frames (handle_message fr c'))"
    by (rule Cons.IH)
  then show ?case by simp
qed

lemma raised_frame_skipped:
  assumes "fst (handle_message_try fr c) = Some e"
  shows "unlogged (handle_message fr c) = unlogged c"
    and "\<exists>txt s. logged (handle_message fr c) = logged c @ [(ERROR, txt, [AStr s])]"
  by (cases e; simp add: handle_message_raised [OF assms])+

lemma raised_frame_dropped:
  assumes "fst (handle_message_try fr (fold handle_message fs c)) = Some e"
  shows "unlogged (fold handle_message (fs @ fr # gs) c) = unlogged (fold handle_message (fs @ gs) c)"
  using fold_handle_message_same_unlogged [OF raised_frame_skipped(1) [OF assms], of gs]
  by simp

lemma raised_frame_listen:
  assumes "fst (handle_message_try fr (fold handle_message fs c)) = Some e"
  shows "futures (listen (fs @ fr # gs) cause env c) = futures (listen (fs @ gs) cause env c)"
    and "pending_requests (listen (fs @ fr # gs) cause env c)
           = pending_requests (listen (fs @ gs) cause env c)"
    and "subscriptions (listen (fs @ fr # gs) cause env c)
           = subscriptions (listen (fs @ gs) cause env c)"
proof -
  have u: "unlogged (fold handle_message (fs @ fr # gs) c) = unlogged (fold handle_message (fs @ gs) c)"
    using assms by (rule raised_frame_dropped)
  have "futures (unlogged (fold handle_message (fs @ fr # gs) c))
          = futures (unlogged (fold handle_message (fs @ gs) c))"
    "pending_requests (unlogged (fold handle_message (fs @ fr # gs) c))
          = pending_requests (unlogged (fold handle_message (fs @ gs) c))"
    by (simp_all only: u)
  then show "futures (listen (fs @ fr # gs) cause env c) = futures (listen (fs @ gs) cause env c)"
    and "pending_requests (listen (fs @ fr # gs) cause env c)
           = pending_requests (listen (fs @ gs) cause env c)"
    by (simp_all add: listen_def unlogged_def)
  show "subscriptions (listen (fs @ fr # gs) cause env c)
           = subscriptions (listen (fs @ gs) cause env c)"
    by (simp add: listen_def)
qed

text \<open>
  C7. A frame on which the \<^verbatim>\<open>try\<close> body of \<^verbatim>\<open>handle_message\<close> raises costs one ERROR
  record and nothing else. That is so for a frame that is not JSON (logged as
  \<^verbatim>\<open>Failed to decode message\<close> with the frame), for a frame on which the decoder raises
  anything else (logged as \<^verbatim>\<open>Error handling message\<close>), for a push of any of the three
  event types whose registered handler raises (logged with the handler's message), and
  in general: whatever the body raises, the client is left as it was but for that one
  record. No frames, however many and whatever they hold, change the connected flag, the
  socket, the attempt counter or the number of \<^verbatim>\<open>listen\<close> tasks: the connection is not
  torn down and no reconnect begins. The frames that follow a failing frame are handled
  as if it had not come: but for the log, the read loop leaves the same client with and
  without it, and \<^verbatim>\<open>listen\<close> ends with the same futures, pending requests and
  subscriptions.
\<close>

theorem bad_frames_are_logged_and_skipped:
  "handle_message (r0, Inl (JSONDecodeError m0)) c =
     log_msg ERROR ''Failed to decode message: '' [AStr r0] c
   \<and> ((\<forall>m. e0 \<noteq> JSONDecodeError m) \<longrightarrow>
        handle_message (r0, Inl e0) c =
          log_msg ERROR ''Error handling message: '' [AStr (str_exn e0)] c)
   \<and> (no_response d1 c \<longrightarrow> dict_get d1 ''type'' JNull = JStr ''market_data'' \<longrightarrow>
        on_market_data c = Some h1 \<longrightarrow> h1 (dict_get d1 ''data'' (JObj [])) = Some m1 \<longrightarrow>
        handle_message (r1, Inr (JObj d1)) c =
          log_msg ERROR ''Error handling message: '' [AStr m1] c)
   \<and> (no_response d2 c \<longrightarrow> dict_get d2 ''type'' JNull = JStr ''order_update'' \<longrightarrow>
        on_order_update c = Some h2 \<longrightarrow> h2 (dict_get d2 ''data'' (JObj [])) = Some m2 \<longrightarrow>
        handle_message (r2, Inr (JObj d2)) c =
          log_msg ERROR ''Error handling message: '' [AStr m2] c)
   \<and> (no_response d3 c \<longrightarrow> dict_get d3 ''type'' JNull = JStr ''position_update'' \<longrightarrow>
        on_position_update c = Some h3 \<longrightarrow> h3 (dict_get d3 ''data'' (JObj [])) = Some m3 \<longrightarrow>
        handle_message (r3, Inr (JObj d3)) c =
          log_msg ERROR ''Error handling message: '' [AStr m3] c)
   \<and> (fst (handle_message_try fr c) = Some e \<longrightarrow>
        unlogged (handle_message fr c) = unlogged c
        \<and> (\<exists>txt s. logged (handle_message fr c) = logged c @ [(ERROR, txt, [AStr s])]))
   \<and> connected (fold handle_message frames c) = connected c
   \<and> ws (fold handle_message frames c) = ws c
   \<and> reconnect_attempts (fold handle_message frames c) = reconnect_attempts c
   \<and> listen_tasks (fold handle_message frames c) = listen_tasks c
   \<and> (fst (handle_message_try fr (fold handle_message fs c)) = Some e \<longrightarrow>
        unlogged (fold handle_message (fs @ fr # gs) c) = unlogged (fold handle_message (fs @ gs) c)
        \<and> futures (listen (fs @ fr # gs) cause env c) = futures (listen (fs @ gs) cause env c)
        \<and> pending_requests (listen (fs @ fr # gs) cause env c)
            = pending_requests (listen (fs @ gs) cause env c)
        \<and> subscriptions (listen (fs @ fr # gs) cause env c)
            = subscriptions (listen (fs @ gs) cause env c))"
proof -
  have a: "(\<forall>m. e0 \<noteq> JSONDecodeError m) \<Longrightarrow>
        handle_message (r0, Inl e0) c =
          log_msg ERROR ''Error handling message: '' [AStr (str_exn e0)] c"
    by (cases e0) (simp_all add: handle_message_undecoded)
  show ?thesis
    apply (intro conjI impI)
                   apply (simp add: handle_message_undecoded)
                  apply (erule a)
                 apply (rule handler_raises(1); assumption)
                apply (rule handler_raises(2); assumption)
               apply (rule handler_raises(3); assumption)
              apply (erule raised_frame_skipped(1))
             apply (erule raised_frame_skipped(2))
            apply simp
           apply simp
          apply simp
         apply simp
        apply (erule raised_frame_dropped)
       apply (erule raised_frame_listen(1))
      apply (erule raised_frame_listen(2))
     apply (erule raised_frame_listen(3))
    done
qed

theorem bad_frames_are_logged_and_skipped_witness:
  "handle_message (''<binary>'', Inl (JSONDecodeError ''Expecting value'')) ready_raising =
     log_msg ERROR ''Failed to decode message: '' [AStr ''<binary>''] ready_raising
   \<and> (\<forall>m. Exception ''invalid start byte'' \<noteq> JSONDecodeError m)
   \<and> handle_message undecodable ready_raising =
       log_msg ERROR ''Error handling message: '' [AStr ''invalid start byte''] ready_raising
   \<and> no_response [(''type'', JStr ''market_data''), (''data'', JObj [])] ready_raising
   \<and> no_response [(''type'', JStr ''order_update''), (''data'', JObj [(''order_id'', JStr ''A1'')])]
         ready_raising
   \<and> no_response [(''type'', JStr ''position_update'')] ready_raising
   \<and> handle_message push ready_raising =
       log_msg ERROR ''Error handling message: '' [AStr ''no strategy for this tick''] ready_raising
   \<and> handle_message order_push ready_raising =
       log_msg ERROR ''Error handling message: '' [AStr ''unknown order''] ready_raising
   \<and> handle_message position_push ready_raising =
       log_msg ERROR ''Error handling message: '' [AStr ''position book is closed''] ready_raising
   \<and> fst (handle_message_try push ready_raising) = Some (Exception ''no strategy for this tick'')
   \<and> unlogged (handle_message push ready_raising) = unlogged ready_raising
   \<and> logged (handle_message push ready_raising) =
       [(ERROR, ''Error handling message: '', [AStr ''no strategy for this tick''])]
   \<and> connected (fold handle_message [garbled, push, undecodable, order_push] ready_raising)
   \<and> ws (fold handle_message [garbled, push, undecodable, order_push] ready_raising) = Some 0
   \<and> fst (handle_message_try push (fold handle_message [garbled] ready_raising))
       = Some (Exception ''no strategy for this tick'')
   \<and> unlogged (fold handle_message ([garbled] @ push # [ack]) ready_raising)
       = unlogged (fold handle_message ([garbled] @ [ack]) ready_raising)
   \<and> futures (listen ([garbled] @ push # [ack]) None healthy ready_raising)
       = futures (listen ([garbled] @ [ack]) None healthy ready_raising)"
proof -
  have p: "pending_requests ready_raising = []" "connected ready_raising" "ws ready_raising = Some 0"
    "on_market_data ready_raising = Some (\<lambda>_. Some ''no strategy for this tick'')"
    "on_order_update ready_raising = Some (\<lambda>_. Some ''unknown order'')"
    "on_position_update ready_raising = Some (\<lambda>_. Some ''position book is closed'')"
    "logged ready_raising = []"
    by (simp_all add: ready_raising_def ready_def fresh_def init_def)
  have g: "fold handle_message [garbled] ready_raising =
             log_msg ERROR ''Failed to decode message: '' [AStr ''{type: ''] ready_raising"
    by (simp add: garbled_def handle_message_undecoded)
  have t: "fst (handle_message_try push c) = Some (Exception ''no strategy for this tick'')"
    if "pending_requests c = []"
       "on_market_data c = Some (\<lambda>_. Some ''no strategy for this tick'')" for c
    using that
    by (simp add: handle_message_try_def push_def handle_decoded_def dict_get_def dispatch_def
          call_handler_def)
  have t1: "fst (handle_message_try push ready_raising) = Some (Exception ''no strategy for this tick'')"
    by (rule t) (simp_all add: p)
  have t2: "fst (handle_message_try push (fold handle_message [garbled] ready_raising))
              = Some (Exception ''no strategy for this tick'')"
    unfolding g by (rule t) (simp_all add: p)
  have n: "no_response [(''type'', JStr ''market_data''), (''data'', JObj [])] ready_raising"
    "no_response [(''type'', JStr ''order_update''), (''data'', JObj [(''order_id'', JStr ''A1'')])]
         ready_raising"
    "no_response [(''type'', JStr ''position_update'')] ready_raising"
    by (simp_all add: no_response_def dict_get_def)
  note w = bad_frames_are_logged_and_skipped
         [where c = ready_raising and ?r0.0 = "''<binary>''" and ?m0.0 = "''Expecting value''"
            and ?e0.0 = "Exception ''invalid start byte''"
            and ?r1.0 = "''tick''"
            and ?d1.0 = "[(''type'', JStr ''market_data''), (''data'', JObj [])]"
            and ?h1.0 = "\<lambda>_. Some ''no strategy for this tick''"
            and ?m1.0 = "''no strategy for this tick''"
            and ?r2.0 = "''order''"
            and ?d2.0 = "[(''type'', JStr ''order_update''), (''data'', JObj [(''order_id'', JStr ''A1'')])]"
            and ?h2.0 = "\<lambda>_. Some ''unknown order''"
            and ?m2.0 = "''unknown order''"
            and ?r3.0 = "''position''"
            and ?d3.0 = "[(''type'', JStr ''position_update'')]"
            and ?h3.0 = "\<lambda>_. Some ''position book is closed''"
            and ?m3.0 = "''position book is closed''"
            and fr = push and e = "Exception ''no strategy for this tick''"
            and fs = "[garbled]" and gs = "[ack]" and cause = None and env = healthy
            and frames = "[garbled, push, undecodable, order_push]"]
  have d: "dict_get [(''type'', JStr ''market_data''), (''data'', JObj [])] ''type'' JNull
             = JStr ''market_data''"
    "dict_get [(''type'', JStr ''order_update''), (''data'', JObj [(''order_id'', JStr ''A1'')])]
        ''type'' JNull = JStr ''order_update''"
    "dict_get [(''type'', JStr ''position_update'')] ''type'' JNull = JStr ''position_update''"
    by (simp_all add: dict_get_def)
  have l: "logged (handle_message push ready_raising) =
       [(ERROR, ''Error handling message: '', [AStr ''no strategy for this tick''])]"
    using w n d by (simp add: p push_def)
  show ?thesis
    using w n d t1 t2 l
    by (simp add: p undecodable_def push_def order_push_def position_push_def)
qed
subsection \<open>Calls that return without a request\<close>

text \<open>
  C10. \<^verbatim>\<open>subscribe\<close> on a symbol that is in the subscription set returns
  \<^verbatim>\<open>{"status": "already_subscribed", "symbol": symbol}\<close>, and \<^verbatim>\<open>unsubscribe\<close> on a
  symbol that is not in it returns \<^verbatim>\<open>{"status": "not_subscribed", "symbol": symbol}\<close>.
  Either way the client is left exactly as it was: nothing is sent, no request id is
  drawn, no pending request is registered, the set is the same.
\<close>

theorem early_return_without_send:
  "(symb |\<in>| subscriptions c \<longrightarrow>
      subscribe symb now so es c =
        (Returns (JObj [(''status'', JStr ''already_subscribed''), (''symbol'', JStr symb)]), c))
   \<and> (symb |\<notin>| subscriptions c \<longrightarrow>
      unsubscribe symb now so es c =
        (Returns (JObj [(''status'', JStr ''not_subscribed''), (''symbol'', JStr symb)]), c))"
  by (simp add: subscribe_def subscribe_start_def unsubscribe_def unsubscribe_start_def)

theorem early_return_without_send_witness:
  "''MES'' |\<in>| subscriptions (ready\<lparr>subscriptions := {|''MES''|}\<rparr>)
   \<and> subscribe ''MES'' 1700000000000 (Completes None) [] (ready\<lparr>subscriptions := {|''MES''|}\<rparr>) =
       (Returns (JObj [(''status'', JStr ''already_subscribed''), (''symbol'', JStr ''MES'')]),
        ready\<lparr>subscriptions := {|''MES''|}\<rparr>)
   \<and> ''ES'' |\<notin>| subscriptions (ready\<lparr>subscriptions := {|''MES''|}\<rparr>)
   \<and> unsubscribe ''ES'' 1700000000000 (Completes None) [] (ready\<lparr>subscriptions := {|''MES''|}\<rparr>) =
       (Returns (JObj [(''status'', JStr ''not_subscribed''), (''symbol'', JStr ''ES'')]),
        ready\<lparr>subscriptions := {|''MES''|}\<rparr>)"
  using early_return_without_send
          [of "''MES''" "ready\<lparr>subscriptions := {|''MES''|}\<rparr>" 1700000000000 "Completes None" "[]"]
        early_return_without_send
          [of "''ES''" "ready\<lparr>subscriptions := {|''MES''|}\<rparr>" 1700000000000 "Completes None" "[]"]
  by simp

subsection \<open>Losing the connection\<close>

lemma waiting_pending: "pending_requests waiting = [(''req_1_1700000000000'', 0)]"
  by (simp add: waiting_def subscribe_start_def get_request_id_eq register_sent
      ready_def fresh_def init_def is_connected_def request_id_text_def str_int_def
      str_nat.simps digit_char_def)

lemma waiting_future: "futures waiting 0 = Pending"
  by (simp add: waiting_def subscribe_start_def get_request_id_eq register_sent
      ready_def fresh_def init_def is_connected_def)


text \<open>
  C1. When the session leaves the connected state, every pending request is to be failed
  with a connection-lost exception, so that none stays pending. \<^verbatim>\<open>disconnect\<close> does
  so (lines 102-106). The read loop does not: the \<^verbatim>\<open>finally\<close> clause of \<^verbatim>\<open>listen\<close>
  clears the connected flag and reconnects, and touches neither the table nor a future.
  Here a connected client has sent one subscribe request and waits; the socket closes;
  after \<^verbatim>\<open>listen\<close> has ended the client is not connected, the request is still in
  the table and its future is still pending.
\<close>

theorem loss_leaves_request_pending:
  "connected waiting
   \<and> pending_requests waiting = [(''req_1_1700000000000'', 0)]
   \<and> futures waiting 0 = Pending
   \<and> \<not> connected (listen [] (Some (ConnectionClosed ''no close frame received'')) healthy waiting)
   \<and> pending_requests (listen [] (Some (ConnectionClosed ''no close frame received'')) healthy waiting)
       = [(''req_1_1700000000000'', 0)]
   \<and> futures (listen [] (Some (ConnectionClosed ''no close frame received'')) healthy waiting) 0
       = Pending"
proof -
  have "connected waiting"
    by (simp add: waiting_def subscribe_start_def get_request_id_eq register_sent
        ready_def fresh_def init_def is_connected_def)
  then show ?thesis by (simp add: listen_def waiting_pending waiting_future)
qed


text \<open>What \<^verbatim>\<open>disconnect\<close> does, and \<^verbatim>\<open>listen\<close> does not.\<close>

lemma disconnect_fails_all:
  "pending_requests (snd (disconnect co c)) = []"
  "a \<in> snd ` set (pending_requests c) \<Longrightarrow> fut_done (futures (snd (disconnect co c)) a)"
  by (simp_all add: disconnect_futures fut_done_def)

lemma listen_fails_none:
  "pending_requests (listen_end cause env c) = pending_requests c"
  "futures (listen_end cause env c) = futures c"
  by simp_all

subsection \<open>Reconnecting\<close>

text \<open>
  \<^verbatim>\<open>connect\<close> never connects. \<^verbatim>\<open>authenticate\<close> goes through \<^verbatim>\<open>send\<close>, which
  raises unless the connected flag is set, and the flag is set only after
  \<^verbatim>\<open>authenticate\<close> has returned (line 75). So every pass of the loop ends in the
  \<^verbatim>\<open>except\<close> clause, whatever the transport does, and nothing is written to the socket.
\<close>

lemma connect_attempt_always_fails:
  "\<not> connected c \<Longrightarrow>
   \<exists>e. connect_attempt att c =
     connect_failed e
       ((log_msg INFO ''Connecting to Ironbeam WebSocket: '' [AStr (base_url c)] c)
          \<lparr>ws := (case fst att of Inl m \<Rightarrow> ws c | Inr sock \<Rightarrow> Some sock)\<rparr>)"
  by (cases att)
     (auto simp: authenticate_def send_def is_connected_def log_msg_def split: sum.splits)

lemma connect_never_connects: "\<not> connected c \<Longrightarrow> \<not> connected (connect env c)"
  by simp

text \<open>The delays of the retries: five seconds more each time, sixty at most.\<close>

lemma connect_backoff:
  "\<not> connected c \<Longrightarrow>
   slept (connect env c) =
     slept c @ map (\<lambda>n. min (5 * n) 60) [reconnect_attempts c + 1 .. max_reconnect_attempts c]"
  by (simp add: connect_def Let_def connect_loop_keeps connect_loop_slept)

lemma connect_exhausts:
  "\<not> connected c \<Longrightarrow>
   reconnect_attempts (connect env c) = max (reconnect_attempts c) (max_reconnect_attempts c)"
  by (simp add: connect_def Let_def connect_loop_keeps connect_loop_attempts)

text \<open>
  C5. The retry policy: a delay that grows by five seconds per attempt and is capped at
  sixty, at most \<^verbatim>\<open>max_reconnect_attempts\<close> attempts, then an ERROR record and no
  further attempt; and a successful reconnect resets the attempt counter. The first part
  holds (\<open>connect_backoff\<close>, \<open>connect_exhausts\<close>). The last cannot: there is no
  successful reconnect. Here a client fresh from \<^verbatim>\<open>__init__\<close> connects to a transport
  in good health. All ten attempts fail, with delays of 5 to 50 seconds, nothing reaches
  the socket, no \<^verbatim>\<open>listen\<close> task is created, and the client ends not connected with its
  counter at ten.
\<close>

theorem healthy_broker_never_connects:
  "\<not> connected (connect healthy fresh)
   \<and> reconnect_attempts (connect healthy fresh) = 10
   \<and> slept (connect healthy fresh) = [5, 10, 15, 20, 25, 30, 35, 40, 45, 50]
   \<and> wire (connect healthy fresh) = []
   \<and> listen_tasks (connect healthy fresh) = 0"
proof -
  have nc: "\<not> connected fresh" by (simp add: fresh_def init_def)
  have "reconnect_attempts (connect healthy fresh) = 10"
    using nc by (simp add: connect_def Let_def connect_loop_keeps connect_loop_attempts)
                (simp add: fresh_def init_def)
  moreover have "slept (connect healthy fresh) = [5, 10, 15, 20, 25, 30, 35, 40, 45, 50]"
    using nc by (simp add: connect_def Let_def connect_loop_keeps connect_loop_slept)
                (simp add: fresh_def init_def upto.simps)
  ultimately show ?thesis using nc by (simp add: fresh_def init_def)
qed


subsection \<open>Steps\<close>

lemma step_rel_refl [simp]: "step_rel c c"
  by (simp add: step_rel_def)

lemma step_rel_log [simp]: "step_rel c (log_msg l t as c') = step_rel c c'"
  by (simp add: step_rel_def)

lemma step_rel_subscriptions [simp]: "step_rel c (c'\<lparr>subscriptions := S\<rparr>) = step_rel c c'"
  by (simp add: step_rel_def)

lemma handle_decoded_table:
  "fst ` set (pending_requests (snd (handle_decoded data c))) \<subseteq> fst ` set (pending_requests c)"
  using AList.dom_delete_subset [of _ "pending_requests c"]
  by (auto simp: handle_decoded_def Let_def split: json.splits option.splits)

lemma handle_decoded_done:
  "fut_done (futures c a) \<Longrightarrow> futures (snd (handle_decoded data c)) a = futures c a"
  by (auto simp: handle_decoded_def Let_def split: json.splits option.splits)

lemma handle_message_table:
  "fst ` set (pending_requests (handle_message fr c)) \<subseteq> fst ` set (pending_requests c)"
  using handle_decoded_table by (simp add: handle_message_eq split: sum.splits option.splits exn.splits)

lemma handle_message_done:
  "fut_done (futures c a) \<Longrightarrow> futures (handle_message fr c) a = futures c a"
  by (simp add: handle_message_eq handle_decoded_done split: sum.splits option.splits exn.splits)

lemma step_rel_handle_message: "step_rel c (handle_message fr c)"
  using handle_message_table [of fr c] by (auto simp: step_rel_def handle_message_done)

lemma step_rel_disconnect: "step_rel c (snd (disconnect co c))"
  by (auto simp: step_rel_def disconnect_futures fut_done_def)

lemma step_rel_connect: "step_rel c (connect env c)"
  by (simp add: step_rel_def)

lemma step_rel_listen_end: "step_rel c (listen_end cause env c)"
  by (simp add: step_rel_def)


lemma step_rel_await: "step_rel c (snd (send_with_response_await rid a t c))"
  using AList.dom_delete_subset [of rid "pending_requests c"]
  by (auto simp: step_rel_def await_futures await_pending fut_done_def split: future.splits)

lemma step_rel_issue:
  "step_rel c
     (snd (send_with_response_register message (request_id_text (request_id c + 1) now) tr
        (c\<lparr>request_id := request_id c + 1\<rparr>)))"
proof -
  have sub: "fst ` set (AList.delete (request_id_text (request_id c + 1) now) (pending_requests c))
               \<subseteq> fst ` set (pending_requests c)"
    by (rule AList.dom_delete_subset)
  show ?thesis
    by (rule register_cases
              [of "c\<lparr>request_id := request_id c + 1\<rparr>" message
                  "request_id_text (request_id c + 1) now" tr])
       (use sub in \<open>auto simp: step_rel_def AList.dom_update\<close>)
qed


lemma subscribe_start_state:
  "snd (subscribe_start symb now tr c) = c \<or>
   (\<exists>message.
      snd (subscribe_start symb now tr c) =
        snd (send_with_response_register message (request_id_text (request_id c + 1) now) tr
               (c\<lparr>request_id := request_id c + 1\<rparr>)) \<or>
      (\<exists>l t as. snd (subscribe_start symb now tr c) =
        log_msg l t as
          (snd (send_with_response_register message (request_id_text (request_id c + 1) now) tr
               (c\<lparr>request_id := request_id c + 1\<rparr>)))))"
  by (auto simp: subscribe_start_def get_request_id_eq split: prod.splits registered.splits)
     (metis snd_conv)+

lemma unsubscribe_start_state:
  "snd (unsubscribe_start symb now tr c) = c \<or>
   (\<exists>message.
      snd (unsubscribe_start symb now tr c) =
        snd (send_with_response_register message (request_id_text (request_id c + 1) now) tr
               (c\<lparr>request_id := request_id c + 1\<rparr>)) \<or>
      (\<exists>l t as. snd (unsubscribe_start symb now tr c) =
        log_msg l t as
          (snd (send_with_response_register message (request_id_text (request_id c + 1) now) tr
               (c\<lparr>request_id := request_id c + 1\<rparr>)))))"
  by (auto simp: unsubscribe_start_def get_request_id_eq split: prod.splits registered.splits)
     (metis snd_conv)+

lemma request_start_state:
  "\<exists>message.
      snd (request_start msg failure now tr c) =
        snd (send_with_response_register message (request_id_text (request_id c + 1) now) tr
               (c\<lparr>request_id := request_id c + 1\<rparr>)) \<or>
      (\<exists>l t as. snd (request_start msg failure now tr c) =
        log_msg l t as
          (snd (send_with_response_register message (request_id_text (request_id c + 1) now) tr
               (c\<lparr>request_id := request_id c + 1\<rparr>))))"
  by (auto simp: request_start_def get_request_id_eq split: prod.splits registered.splits)
     (metis snd_conv)+


lemma step_rel_subscribe_start: "step_rel c (snd (subscribe_start symb now tr c))"
  using subscribe_start_state [of symb now tr c] step_rel_issue [of c _ now tr]
  by (auto simp del: step_rel_log) (simp_all)

lemma step_rel_unsubscribe_start: "step_rel c (snd (unsubscribe_start symb now tr c))"
  using unsubscribe_start_state [of symb now tr c] step_rel_issue [of c _ now tr]
  by (auto simp del: step_rel_log) (simp_all)

lemma step_rel_request_start: "step_rel c (snd (request_start msg failure now tr c))"
  using request_start_state [of msg failure now tr c] step_rel_issue [of c _ now tr]
  by (auto simp del: step_rel_log) (simp_all)

lemma step_rel_subscribe_finish: "step_rel c (snd (subscribe_finish symb rid a c))"
proof -
  obtain r w where w: "send_with_response_await rid a 5 c = (r, w)" by force
  then have "step_rel c w" using step_rel_await [of c rid a 5] by simp
  then show ?thesis by (cases r) (simp_all add: subscribe_finish_def w)
qed

lemma step_rel_unsubscribe_finish: "step_rel c (snd (unsubscribe_finish symb rid a c))"
proof -
  obtain r w where w: "send_with_response_await rid a 5 c = (r, w)" by force
  then have "step_rel c w" using step_rel_await [of c rid a 5] by simp
  then show ?thesis by (cases r) (simp_all add: unsubscribe_finish_def w)
qed

lemma step_rel_request_finish: "step_rel c (snd (request_finish success failure rid a c))"
proof -
  obtain r w where w: "send_with_response_await rid a 10 c = (r, w)" by force
  then have "step_rel c w" using step_rel_await [of c rid a 10] by simp
  then show ?thesis by (cases r) (simp_all add: request_finish_def w split: option.splits)
qed

lemma step_rel_exec: "step_rel c (exec s c)"
  by (cases s)
     (simp_all add: step_rel_handle_message step_rel_listen_end step_rel_connect
        step_rel_disconnect step_rel_subscribe_start step_rel_subscribe_finish
        step_rel_unsubscribe_start step_rel_unsubscribe_finish
        step_rel_request_start step_rel_request_finish
        place_order_start_def place_order_finish_def cancel_order_start_def
        cancel_order_finish_def get_positions_start_def get_positions_finish_def
        get_account_info_start_def get_account_info_finish_def)

lemma run_rel_refl: "run_rel c c"
  by (simp add: run_rel_def)

lemma step_rel_done:
  "step_rel c c' \<Longrightarrow> a < next_future c \<Longrightarrow> fut_done (futures c a) \<Longrightarrow>
   futures c' a = futures c a \<and> a < next_future c' \<and> fut_done (futures c' a)"
  by (auto simp: step_rel_def)

lemma step_rel_key:
  "step_rel c c' \<Longrightarrow> k \<in> fst ` set (pending_requests c') \<Longrightarrow>
   k \<in> fst ` set (pending_requests c) \<or>
   (\<exists>now. k = request_id_text (request_id c + 1) now \<and> request_id c' = request_id c + 1)"
  unfolding step_rel_def by blast

lemma step_rel_counter: "step_rel c c' \<Longrightarrow> request_id c \<le> request_id c'"
  by (auto simp: step_rel_def)

lemma run_rel_step:
  assumes s: "step_rel c c1" and r: "run_rel c1 c2"
  shows "run_rel c c2"
  unfolding run_rel_def
proof (intro conjI allI impI ballI)
  show "next_future c \<le> next_future c2" using s r by (auto simp: step_rel_def run_rel_def)
  show "request_id c \<le> request_id c2" using s r by (auto simp: step_rel_def run_rel_def)
next
  fix a assume "a < next_future c" "fut_done (futures c a)"
  with step_rel_done [OF s] have "futures c1 a = futures c a" "a < next_future c1"
    "fut_done (futures c1 a)" by simp_all
  with r show "futures c2 a = futures c a" by (simp add: run_rel_def)
next
  fix k assume "k \<in> fst ` set (pending_requests c2)"
  with r consider "k \<in> fst ` set (pending_requests c1)"
    | n now where "request_id c1 < n" "n \<le> request_id c2" "k = request_id_text n now"
    unfolding run_rel_def by blast
  then show "k \<in> fst ` set (pending_requests c) \<or>
             (\<exists>n now. request_id c < n \<and> n \<le> request_id c2 \<and> k = request_id_text n now)"
  proof cases
    case 1
    from step_rel_key [OF s 1] show ?thesis
    proof
      assume "k \<in> fst ` set (pending_requests c)" then show ?thesis ..
    next
      assume "\<exists>now. k = request_id_text (request_id c + 1) now \<and> request_id c1 = request_id c + 1"
      then obtain now where "k = request_id_text (request_id c + 1) now"
        "request_id c1 = request_id c + 1" by blast
      moreover have "request_id c1 \<le> request_id c2" using r by (simp add: run_rel_def)
      ultimately have "request_id c < request_id c + 1 \<and> request_id c + 1 \<le> request_id c2 \<and>
                       k = request_id_text (request_id c + 1) now" by simp
      then show ?thesis by blast
    qed
  next
    case 2
    with step_rel_counter [OF s] have "request_id c < n" by simp
    with 2 show ?thesis by blast
  qed
qed

lemma run_rel_fold: "run_rel c (fold exec es c)"
proof (induction es arbitrary: c)
  case Nil
  show ?case by (simp add: run_rel_refl)
next
  case (Cons s es)
  have "run_rel c (fold exec es (exec s c))"
    using step_rel_exec [of c s] Cons [of "exec s c"] by (rule run_rel_step)
  then show ?case by simp
qed

subsection \<open>Request ids\<close>

text \<open>
  C9. A request id is the text \<^verbatim>\<open>req_<counter>_<milliseconds>\<close>, the counter having
  been incremented first. No step of any task lowers the counter, and the text
  determines the counter, so two calls of \<^verbatim>\<open>_get_request_id\<close> in one session give
  different ids whatever the clock says and whatever happens in between. And in a session
  that started with an empty table, after any steps of any tasks, the id that
  \<^verbatim>\<open>_get_request_id\<close> gives next is not a key of the pending-request table: a request
  never takes the key of one that is still pending.
\<close>

theorem request_ids_unique:
  "fst (get_request_id now c) = request_id_text (request_id c + 1) now
   \<and> request_id (snd (get_request_id now c)) = request_id c + 1
   \<and> fst (get_request_id now1 c)
     \<noteq> fst (get_request_id now2 (fold exec es (snd (get_request_id now1 c))))
   \<and> (pending_requests c = [] \<longrightarrow>
        fst (get_request_id now (fold exec es c))
          \<notin> fst ` set (pending_requests (fold exec es c)))"
proof (intro conjI)
  show "fst (get_request_id now c) = request_id_text (request_id c + 1) now"
    and "request_id (snd (get_request_id now c)) = request_id c + 1"
    by (simp_all add: get_request_id_eq)
next
  let ?c1 = "snd (get_request_id now1 c)"
  have "request_id ?c1 \<le> request_id (fold exec es ?c1)"
    using run_rel_fold [of ?c1 es] by (simp add: run_rel_def)
  then have ne: "request_id c + 1 \<noteq> request_id (fold exec es ?c1) + 1"
    by (simp add: get_request_id_eq)
  show "fst (get_request_id now1 c) \<noteq> fst (get_request_id now2 (fold exec es ?c1))"
  proof
    assume "fst (get_request_id now1 c) = fst (get_request_id now2 (fold exec es ?c1))"
    then have "request_id_text (request_id c + 1) now1 =
               request_id_text (request_id (fold exec es ?c1) + 1) now2"
      by (simp add: get_request_id_eq)
    from request_id_text_inj [OF this] ne show False by simp
  qed
next
  show "pending_requests c = [] \<longrightarrow>
        fst (get_request_id now (fold exec es c))
          \<notin> fst ` set (pending_requests (fold exec es c))"
  proof (intro impI notI)
    assume e: "pending_requests c = []"
      and "fst (get_request_id now (fold exec es c)) \<in> fst ` set (pending_requests (fold exec es c))"
    then have "request_id_text (request_id (fold exec es c) + 1) now
                 \<in> fst ` set (pending_requests (fold exec es c))"
      by (simp add: get_request_id_eq)
    with run_rel_fold [of c es] e obtain n now'
      where "n \<le> request_id (fold exec es c)"
        and "request_id_text (request_id (fold exec es c) + 1) now = request_id_text n now'"
      unfolding run_rel_def by auto
    then show False using request_id_text_inj by fastforce
  qed
qed

theorem request_ids_unique_witness:
  "pending_requests ready = []
   \<and> fst (get_request_id 1700000000001 (fold exec [Subscribe_start ''MES'' 1700000000000 (Completes None)] ready))
       \<notin> fst ` set (pending_requests (fold exec [Subscribe_start ''MES'' 1700000000000 (Completes None)] ready))
   \<and> pending_requests (fold exec [Subscribe_start ''MES'' 1700000000000 (Completes None)] ready) \<noteq> []"
  using request_ids_unique
          [where c = ready and now = 1700000000001
             and es = "[Subscribe_start ''MES'' 1700000000000 (Completes None)]"]
        waiting_pending
  by (simp add: waiting_def) (simp add: ready_def fresh_def init_def)

subsection \<open>A pending request is resolved once\<close>

lemma dispatch_not_invalid_state: "fst (dispatch t d c) \<noteq> Some (InvalidStateError m)"
  by (simp add: dispatch_def call_handler_def split: option.splits)

lemma handle_decoded_not_invalid_state:
  "fst (handle_decoded data c) \<noteq> Some (InvalidStateError m)"
  by (simp add: handle_decoded_def Let_def dispatch_not_invalid_state
        split: json.splits option.splits)

lemma handle_message_resolves:
  "map_of (pending_requests c) rid = Some a \<Longrightarrow> rid \<noteq> [] \<Longrightarrow>
   dict_get d ''request_id'' JNull = JStr rid \<Longrightarrow>
   handle_message (raw, Inr (JObj d)) c = snd (resolve rid a (JObj d) c)"
  by (simp add: handle_message_eq handle_decoded_def)

lemma waiting_next: "next_future waiting = 1"
  by (simp add: waiting_def subscribe_start_def get_request_id_eq register_sent
      ready_def fresh_def init_def is_connected_def)

lemma answered_future:
  "futures answered 0 =
     Finished (JObj [(''request_id'', JStr ''req_1_1700000000000''), (''status'', JStr ''ok'')])"
  by (simp add: answered_def ack_def handle_message_eq handle_decoded_def dict_get_def
        waiting_pending waiting_future fut_done_def)

lemma answered_next: "next_future answered = 1"
  by (simp add: answered_def waiting_next)


text \<open>
  C4. A response, a failure and a timeout exclude one another, and whichever comes first
  wins. Once a future is done, no step of any task, in any number and order, changes it:
  a second response, a disconnect, the caller's timeout are without effect on it. The
  first one writes: a response for a request id of the table takes the id out of the
  table and gives the pending future the frame as its result; \<^verbatim>\<open>disconnect\<close> gives a
  pending future of the table the exception \<^verbatim>\<open>Connection closed\<close>; the timeout cancels
  a pending future. None of them raises: every \<^verbatim>\<open>set_result\<close> and
  \<^verbatim>\<open>set_exception\<close> is behind \<^verbatim>\<open>if not future.done()\<close>, so
  \<^verbatim>\<open>InvalidStateError\<close> does not occur.
\<close>

theorem resolved_once:
  "(a < next_future c \<longrightarrow> fut_done (futures c a) \<longrightarrow>
      futures (fold exec es c) a = futures c a)
   \<and> (map_of (pending_requests c) rid = Some a \<longrightarrow> rid \<noteq> [] \<longrightarrow>
        dict_get d ''request_id'' JNull = JStr rid \<longrightarrow>
        handle_message (raw, Inr (JObj d)) c = snd (resolve rid a (JObj d) c))
   \<and> (futures c a = Pending \<longrightarrow> futures (snd (resolve rid a data c)) a = Finished data)
   \<and> rid \<notin> fst ` set (pending_requests (snd (resolve rid a data c)))
   \<and> (futures c a = Pending \<longrightarrow> a \<in> snd ` set (pending_requests c) \<longrightarrow>
        futures (snd (disconnect co c)) a = Failed (Exception ''Connection closed''))
   \<and> (futures c a = Pending \<longrightarrow>
        futures (snd (send_with_response_await rid a t c)) a = Cancelled)
   \<and> fst (resolve rid a data c) = None
   \<and> fst (disconnect co c) = None
   \<and> fst (handle_decoded data c) \<noteq> Some (InvalidStateError m)"
proof -
  have "futures (fold exec es c) a = futures c a" if "a < next_future c" "fut_done (futures c a)"
    using run_rel_fold [of c es] that by (simp add: run_rel_def)
  then show ?thesis
    by (simp add: handle_message_resolves fut_done_def AList.delete_notin_dom disconnect_futures
          await_futures handle_decoded_not_invalid_state)
qed



theorem resolved_once_witness:
  "0 < next_future answered \<and> fut_done (futures answered 0)
   \<and> futures (fold exec [Frame ack, Disconnect None,
                          Subscribe_finish ''MES'' ''req_1_1700000000000'' 0] answered) 0
       = futures answered 0
   \<and> map_of (pending_requests waiting) ''req_1_1700000000000'' = Some 0
   \<and> dict_get [(''request_id'', JStr ''req_1_1700000000000''), (''status'', JStr ''ok'')]
        ''request_id'' JNull = JStr ''req_1_1700000000000''
   \<and> handle_message ack waiting =
       snd (resolve ''req_1_1700000000000'' 0
              (JObj [(''request_id'', JStr ''req_1_1700000000000''), (''status'', JStr ''ok'')])
              waiting)
   \<and> futures waiting 0 = Pending
   \<and> futures (snd (resolve ''req_1_1700000000000'' 0 (JObj []) waiting)) 0 = Finished (JObj [])
   \<and> 0 \<in> snd ` set (pending_requests waiting)
   \<and> futures (snd (disconnect None waiting)) 0 = Failed (Exception ''Connection closed'')
   \<and> futures (snd (send_with_response_await ''req_1_1700000000000'' 0 5 waiting)) 0 = Cancelled"
  using resolved_once
          [where c = answered and a = 0
             and es = "[Frame ack, Disconnect None,
                        Subscribe_finish ''MES'' ''req_1_1700000000000'' 0]"]
        resolved_once
          [where c = waiting and a = 0 and rid = "''req_1_1700000000000''" and raw = "''ack''"
             and d = "[(''request_id'', JStr ''req_1_1700000000000''), (''status'', JStr ''ok'')]"
             and data = "JObj []" and co = None and t = 5]
  by (simp add: answered_future answered_next waiting_pending waiting_future fut_done_def
        ack_def dict_get_def)

subsection \<open>Waiting for a response\<close>

lemma handle_decoded_futures:
  "futures (snd (handle_decoded data c)) a = futures c a \<or>
   (\<exists>d. futures (snd (handle_decoded data c)) a = Finished d)"
  by (auto simp: handle_decoded_def Let_def split: json.splits option.splits)

lemma handle_message_futures:
  "futures (handle_message fr c) a = futures c a \<or>
   (\<exists>d. futures (handle_message fr c) a = Finished d)"
  using handle_decoded_futures
  by (simp add: handle_message_eq split: sum.splits option.splits exn.splits)

lemma env_step_not_cancelled:
  "env_step s \<Longrightarrow> futures c a \<noteq> Cancelled \<Longrightarrow> futures (exec s c) a \<noteq> Cancelled"
proof (cases s)
  case (Frame fr)
  assume "futures c a \<noteq> Cancelled"
  with handle_message_futures [of fr c a] Frame show ?thesis by auto
qed (auto simp: disconnect_futures)

lemma env_steps_not_cancelled:
  "list_all env_step es \<Longrightarrow> futures c a \<noteq> Cancelled \<Longrightarrow> futures (fold exec es c) a \<noteq> Cancelled"
  by (induction es arbitrary: c) (simp_all add: env_step_not_cancelled)

lemma await_outcome:
  "fst (send_with_response_await rid a t c) =
     (case futures c a of
        Finished d \<Rightarrow> Returns d
      | Failed e \<Rightarrow> Raises e
      | Pending \<Rightarrow> Raises (timed_out rid t)
      | Cancelled \<Rightarrow> Cancels)"
  by (simp add: send_with_response_await_def split: future.splits)

lemma await_raises_pops:
  "fst (send_with_response_await rid a t c) = Raises e \<Longrightarrow>
   rid \<notin> fst ` set (pending_requests (snd (send_with_response_await rid a t c)))"
  by (auto simp: await_outcome await_pending AList.delete_notin_dom split: future.splits)

lemma late_response_ignored:
  "rid \<notin> fst ` set (pending_requests c) \<Longrightarrow> answers rid fr \<Longrightarrow>
   futures (handle_message fr c) = futures c \<and>
   pending_requests (handle_message fr c) = pending_requests c"
proof -
  assume k: "rid \<notin> fst ` set (pending_requests c)" and "answers rid fr"
  then obtain d where fr: "snd fr = Inr (JObj d)" and r: "dict_get d ''request_id'' JNull = JStr rid"
    by (auto simp: answers_def split: sum.splits json.splits)
  from k have "map_of (pending_requests c) rid = None" by (simp add: map_of_eq_None_iff)
  then have "handle_decoded (JObj d) c = dispatch (dict_get d ''type'' JNull) d c"
    using r by (simp add: handle_decoded_def Let_def)
  then show ?thesis using fr by (simp add: handle_message_eq split: option.splits)
qed


lemma update_set: "p \<in> set (AList.update k v al) \<Longrightarrow> p = (k, v) \<or> p \<in> set al"
  by (induction al) (auto split: if_splits)

lemma delete_set: "p \<in> set (AList.delete k al) \<Longrightarrow> p \<in> set al"
  by (simp add: AList.delete_eq)


lemma fold_frames: "fold exec (map Frame fs) c = fold handle_message fs c"
  by (induction fs arbitrary: c) simp_all

lemma done_stays:
  "a < next_future c \<Longrightarrow> fut_done (futures c a) \<Longrightarrow> futures (fold exec es c) a = futures c a"
  using run_rel_fold [of c es] by (simp add: run_rel_def)

text \<open>
  A frame that is not a response to \<open>rid\<close> leaves the request \<open>rid\<close> live; the frames
  before the response do, then.
\<close>

lemma live_silent_frame:
  assumes l: "live rid a c" and na: "\<not> answers rid fr"
  shows "live rid a (handle_message fr c)"
proof (cases fr)
  case (Pair raw r)
  show ?thesis
  proof (cases r)
    case (Inl e)
    with Pair l show ?thesis
      by (cases e) (simp_all add: handle_message_undecoded live_def)
  next
    case (Inr data)
    have "live rid a (snd (handle_decoded data c))"
    proof (cases data)
      case (JObj d)
      have ev: "live rid a (snd (dispatch t d c))" for t
        using l by (simp add: live_def)
      show ?thesis
      proof (cases "dict_get d ''request_id'' JNull")
        case (JStr s)
        with na Pair Inr JObj have ne: "s \<noteq> rid" by (simp add: answers_def)
        show ?thesis
        proof (cases "map_of (pending_requests c) s")
          case None
          with JObj JStr ev show ?thesis by (simp add: handle_decoded_def Let_def)
        next
          case (Some b)
          then have "(s, b) \<in> set (pending_requests c)" by (rule map_of_SomeD)
          with l ne have ba: "b \<noteq> a" by (auto simp: live_def list_all_iff)
          have "live rid a (snd (resolve s b (JObj d) c))"
            using l ne ba
            by (auto simp: live_def list_all_iff AList.delete_conv dest: delete_set)
          with JObj JStr Some ev show ?thesis by (simp add: handle_decoded_def Let_def)
        qed
      qed (use JObj ev l in \<open>simp_all add: handle_decoded_def Let_def\<close>)
    qed (use l in \<open>simp_all add: handle_decoded_def\<close>)
    with Pair Inr show ?thesis
      by (simp add: handle_message_decoded live_def split: option.splits)
  qed
qed

lemma live_silent_frames:
  "live rid a c \<Longrightarrow> list_all (\<lambda>fr. \<not> answers rid fr) fs \<Longrightarrow>
   live rid a (fold handle_message fs c)"
  by (induction fs arbitrary: c) (simp_all add: live_silent_frame)

lemma live_registered:
  assumes "is_connected c" and "table_ok c"
  shows "live rid (next_future c)
           (snd (send_with_response_register (JObj m) rid (Completes None) c))"
proof -
  have "snd p = next_future c \<longrightarrow> fst p = rid"
    if "p \<in> set (AList.update rid (next_future c) (pending_requests c))" for p
  proof -
    from that have "p = (rid, next_future c) \<or> p \<in> set (pending_requests c)"
      by (rule update_set)
    moreover have "snd p < next_future c" if "p \<in> set (pending_requests c)"
      using assms(2) that by (auto simp: table_ok_def list_all_iff)
    ultimately show ?thesis by auto
  qed
  then show ?thesis
    using assms(1) by (simp add: register_sent live_def list_all_iff update_conv')
qed

lemma live_answered:
  assumes "live rid a c" and "rid \<noteq> []" and "dict_get d ''request_id'' JNull = JStr rid"
  shows "futures (handle_message (raw, Inr (JObj d)) c) a = Finished (JObj d)"
    and "a < next_future (handle_message (raw, Inr (JObj d)) c)"
proof -
  have "handle_message (raw, Inr (JObj d)) c = snd (resolve rid a (JObj d) c)"
    using assms by (intro handle_message_resolves) (simp_all add: live_def)
  then show "futures (handle_message (raw, Inr (JObj d)) c) a = Finished (JObj d)"
    and "a < next_future (handle_message (raw, Inr (JObj d)) c)"
    using assms(1) by (simp_all add: live_def fut_done_def)
qed

lemma live_disconnected:
  assumes "live rid a c"
  shows "futures (snd (disconnect co c)) a = Failed (Exception ''Connection closed'')"
    and "a < next_future (snd (disconnect co c))"
proof -
  from assms have "(rid, a) \<in> set (pending_requests c)"
    by (auto simp: live_def dest: map_of_SomeD)
  then have "a \<in> snd ` set (pending_requests c)" by force
  then show "futures (snd (disconnect co c)) a = Failed (Exception ''Connection closed'')"
    using assms by (simp add: disconnect_futures live_def)
  show "a < next_future (snd (disconnect co c))" using assms by (simp add: live_def)
qed

text \<open>The future of a live request, after what the other tasks do while the caller waits.\<close>

lemma wait_silent:
  assumes "live rid a c" and "list_all (\<lambda>fr. \<not> answers rid fr) fs"
  shows "futures (fold exec (map Frame fs) c) a = Pending"
  using live_silent_frames [OF assms] by (simp add: fold_frames live_def)

lemma wait_answered:
  assumes "live rid a c" and "list_all (\<lambda>fr. \<not> answers rid fr) fs"
    and "rid \<noteq> []" and "dict_get d ''request_id'' JNull = JStr rid"
  shows "futures (fold exec (map Frame fs @ Frame (raw, Inr (JObj d)) # gs) c) a = Finished (JObj d)"
proof -
  let ?c2 = "fold handle_message fs c"
  let ?c3 = "handle_message (raw, Inr (JObj d)) ?c2"
  have l: "live rid a ?c2" using assms(1,2) by (rule live_silent_frames)
  have "futures (fold exec gs ?c3) a = futures ?c3 a"
    using live_answered [OF l assms(3,4), of raw] by (intro done_stays) (simp_all add: fut_done_def)
  then show ?thesis using live_answered(1) [OF l assms(3,4), of raw] by (simp add: fold_frames)
qed

lemma wait_disconnected:
  assumes "live rid a c" and "list_all (\<lambda>fr. \<not> answers rid fr) fs"
  shows "futures (fold exec (map Frame fs @ Disconnect co # gs) c) a
           = Failed (Exception ''Connection closed'')"
proof -
  let ?c2 = "fold handle_message fs c"
  let ?c3 = "snd (disconnect co ?c2)"
  have l: "live rid a ?c2" using assms(1,2) by (rule live_silent_frames)
  have "futures (fold exec gs ?c3) a = futures ?c3 a"
    using live_disconnected [OF l, of co] by (intro done_stays) (simp_all add: fut_done_def)
  then show ?thesis using live_disconnected(1) [OF l, of co] by (simp add: fold_frames)
qed

lemma send_with_response_sent:
  "is_connected c \<Longrightarrow>
   send_with_response (JObj m) rid t (Completes None) es c =
     send_with_response_await rid (next_future c) t
       (fold exec es (snd (send_with_response_register (JObj m) rid (Completes None) c)))"
  by (simp add: send_with_response_def register_sent)

text \<open>The ways in which \<^verbatim>\<open>send_with_response\<close> ends, one by one.\<close>

lemma send_with_response_returns_or_raises:
  assumes env: "list_all env_step es"
  shows "(\<exists>d. fst (send_with_response message rid t (Completes so) es c) = Returns d) \<or>
         (\<exists>e. fst (send_with_response message rid t (Completes so) es c) = Raises e)"
proof (cases rule: register_cases [of c message rid "Completes so"])
  case offline
  then show ?thesis by (simp add: send_with_response_def)
next
  case (sent d)
  let ?c1 = "snd (send_with_response_register message rid (Completes so) c)"
  have "futures ?c1 (next_future c) = Pending" using sent by simp
  then have "futures (fold exec es ?c1) (next_future c) \<noteq> Cancelled"
    using env by (intro env_steps_not_cancelled) simp_all
  moreover have "send_with_response message rid t (Completes so) es c =
                 send_with_response_await rid (next_future c) t (fold exec es ?c1)"
    using sent by (simp add: send_with_response_def)
  ultimately show ?thesis by (simp add: await_outcome split: future.splits)
next
  case refused
  then show ?thesis by (simp add: send_with_response_def)
next
  case (failed m)
  then show ?thesis by (simp add: send_with_response_def)
next
  case stalled
  then show ?thesis by simp
qed

lemma send_with_response_answered:
  assumes "is_connected c" and "table_ok c" and "rid \<noteq> []"
    and "list_all (\<lambda>fr. \<not> answers rid fr) fs"
    and "dict_get d ''request_id'' JNull = JStr rid"
  shows "fst (send_with_response (JObj m) rid t (Completes None)
                (map Frame fs @ Frame (raw, Inr (JObj d)) # gs) c) = Returns (JObj d)"
proof -
  have "live rid (next_future c)
          (snd (send_with_response_register (JObj m) rid (Completes None) c))"
    using assms(1,2) by (rule live_registered)
  from wait_answered [OF this assms(4,3,5), where raw = raw and gs = gs] assms(1)
  show ?thesis by (simp add: send_with_response_sent await_outcome)
qed

lemma send_with_response_times_out:
  assumes "is_connected c" and "table_ok c" and "list_all (\<lambda>fr. \<not> answers rid fr) fs"
  shows "fst (send_with_response (JObj m) rid t (Completes None) (map Frame fs) c)
           = Raises (timed_out rid t)"
    and "rid \<notin> fst ` set (pending_requests
           (snd (send_with_response (JObj m) rid t (Completes None) (map Frame fs) c)))"
proof -
  have "live rid (next_future c)
          (snd (send_with_response_register (JObj m) rid (Completes None) c))"
    using assms(1,2) by (rule live_registered)
  from wait_silent [OF this assms(3)] assms(1)
  show r: "fst (send_with_response (JObj m) rid t (Completes None) (map Frame fs) c)
           = Raises (timed_out rid t)"
    by (simp add: send_with_response_sent await_outcome)
  then show "rid \<notin> fst ` set (pending_requests
           (snd (send_with_response (JObj m) rid t (Completes None) (map Frame fs) c)))"
    using assms(1) await_raises_pops by (simp add: send_with_response_sent)
qed

lemma send_with_response_disconnected:
  assumes "is_connected c" and "table_ok c" and "list_all (\<lambda>fr. \<not> answers rid fr) fs"
  shows "fst (send_with_response (JObj m) rid t (Completes None)
                (map Frame fs @ Disconnect co # gs) c) = Raises (Exception ''Connection closed'')"
proof -
  have "live rid (next_future c)
          (snd (send_with_response_register (JObj m) rid (Completes None) c))"
    using assms(1,2) by (rule live_registered)
  from wait_disconnected [OF this assms(3), where co = co and gs = gs] assms(1)
  show ?thesis by (simp add: send_with_response_sent await_outcome)
qed

lemma send_with_response_offline:
  "\<not> is_connected c \<Longrightarrow>
   send_with_response message rid t tr es c = (Raises (Exception ''WebSocket not connected''), c)"
  by (simp add: send_with_response_def register_not_connected)

lemma send_with_response_send_fails:
  assumes "is_connected c"
  shows "fst (send_with_response message rid t (Completes (Some x)) es c) = Raises (Exception x)"
    and "rid \<notin> fst ` set (pending_requests
           (snd (send_with_response message rid t (Completes (Some x)) es c)))"
    and "\<not> connected (snd (send_with_response message rid t (Completes (Some x)) es c))"
    and "wire (snd (send_with_response message rid t (Completes (Some x)) es c)) = wire c"
  using assms
  by (simp_all add: send_with_response_def register_send_failed AList.delete_notin_dom)

lemma send_with_response_refused:
  assumes "is_connected c" and "\<forall>d. message \<noteq> JObj d"
  shows "fst (send_with_response message rid t (Completes None) es c) =
           Raises (AttributeError (quoted (type_name message) @ '' object has no attribute ''
                                     @ quoted ''get''))"
    and "rid \<notin> fst ` set (pending_requests
           (snd (send_with_response message rid t (Completes None) es c)))"
    and "\<not> connected (snd (send_with_response message rid t (Completes None) es c))"
    and "wire (snd (send_with_response message rid t (Completes None) es c)) = wire c @ [message]"
  using assms
  by (simp_all add: send_with_response_def register_refused AList.delete_notin_dom)

lemma send_with_response_stalls:
  assumes "is_connected c"
  shows "fst (send_with_response message rid t Stalls es c) = Hangs"
  using assms by (simp add: send_with_response_def register_stalled)

text \<open>
  C3, as the claim states it: whoever awaits \<^verbatim>\<open>send_with_response\<close> has the response, a
  timeout or a failure within the timeout, whatever the transport does. The timeout
  covers \<^verbatim>\<open>wait_for\<close> only. Line 298 awaits \<^verbatim>\<open>self.send\<close>, which awaits \<^verbatim>\<open>ws.send\<close>,
  before it, under no deadline. Here a connected client asks for the positions with a
  timeout of ten seconds over a socket whose \<^verbatim>\<open>ws.send\<close> does not complete; two market
  data frames arrive meanwhile. When the ten seconds are over the call has neither
  returned nor raised: it is suspended in \<^verbatim>\<open>ws.send\<close>, its request id is in the table,
  its future is pending and nothing has been written.
\<close>

theorem stalled_send_outlasts_timeout:
  "is_connected ready
   \<and> fst (send_with_response positions_request ''req_1_1700000000000'' 10 Stalls
            [Frame push, Frame push] ready) = Hangs
   \<and> pending_requests (snd (send_with_response positions_request ''req_1_1700000000000'' 10 Stalls
            [Frame push, Frame push] ready)) = [(''req_1_1700000000000'', 0)]
   \<and> futures (snd (send_with_response positions_request ''req_1_1700000000000'' 10 Stalls
            [Frame push, Frame push] ready)) 0 = Pending
   \<and> wire (snd (send_with_response positions_request ''req_1_1700000000000'' 10 Stalls
            [Frame push, Frame push] ready)) = []"
proof -
  have ic: "is_connected ready" by (simp add: ready_def fresh_def init_def is_connected_def)
  have f: "futures (handle_message push c) = futures c"
    "pending_requests (handle_message push c) = pending_requests c" for c
    by (simp_all add: handle_message_decoded push_def handle_decoded_def dict_get_def
          split: option.splits)
  show ?thesis
    using ic by (simp add: send_with_response_def register_stalled f)
                (simp add: ready_def fresh_def init_def)
qed

text \<open>
  C3, amended: once \<^verbatim>\<open>ws.send\<close> has completed, the call ends by the time the timeout
  runs out, and how it ends is determined. Whatever the read loop and the owner do
  meanwhile, it returns or raises. If a frame carrying the request id arrives, after any
  frames that do not, the call returns that frame, whatever any task does afterwards. If
  no such frame arrives it raises \<^verbatim>\<open>Request ... timed out after ...s\<close> and the request
  id is out of the table; if \<^verbatim>\<open>disconnect\<close> is called while it waits it raises
  \<^verbatim>\<open>Connection closed\<close>. Without a connection it raises \<^verbatim>\<open>WebSocket not connected\<close>
  and leaves the client as it was. If \<^verbatim>\<open>ws.send\<close> raises it raises the same, and if the
  message is not a dict it raises the \<^verbatim>\<open>AttributeError\<close> of line 320; either way the
  request id is out of the table. Every wait that ends in an exception leaves the
  request id out of the table, and a response that arrives for an id that is not in the
  table changes neither a future nor the table.
\<close>

theorem send_with_response_outcomes:
  "(list_all env_step es \<longrightarrow>
      (\<exists>d. fst (send_with_response message rid t (Completes so) es c) = Returns d) \<or>
      (\<exists>e. fst (send_with_response message rid t (Completes so) es c) = Raises e))
   \<and> (is_connected c \<longrightarrow> table_ok c \<longrightarrow> rid \<noteq> [] \<longrightarrow>
        list_all (\<lambda>fr. \<not> answers rid fr) fs \<longrightarrow>
        dict_get d ''request_id'' JNull = JStr rid \<longrightarrow>
        fst (send_with_response (JObj m) rid t (Completes None)
               (map Frame fs @ Frame (raw, Inr (JObj d)) # gs) c) = Returns (JObj d))
   \<and> (is_connected c \<longrightarrow> table_ok c \<longrightarrow> list_all (\<lambda>fr. \<not> answers rid fr) fs \<longrightarrow>
        fst (send_with_response (JObj m) rid t (Completes None) (map Frame fs) c)
          = Raises (timed_out rid t)
        \<and> rid \<notin> fst ` set (pending_requests
            (snd (send_with_response (JObj m) rid t (Completes None) (map Frame fs) c)))
        \<and> fst (send_with_response (JObj m) rid t (Completes None)
                 (map Frame fs @ Disconnect co # gs) c) = Raises (Exception ''Connection closed''))
   \<and> (\<not> is_connected c0 \<longrightarrow>
        send_with_response message rid t tr es c0 =
          (Raises (Exception ''WebSocket not connected''), c0))
   \<and> (is_connected c \<longrightarrow>
        fst (send_with_response message rid t (Completes (Some x)) es c) = Raises (Exception x)
        \<and> rid \<notin> fst ` set (pending_requests
            (snd (send_with_response message rid t (Completes (Some x)) es c))))
   \<and> (is_connected c \<longrightarrow> (\<forall>d. message \<noteq> JObj d) \<longrightarrow>
        fst (send_with_response message rid t (Completes None) es c) =
          Raises (AttributeError (quoted (type_name message) @ '' object has no attribute ''
                                    @ quoted ''get''))
        \<and> rid \<notin> fst ` set (pending_requests
            (snd (send_with_response message rid t (Completes None) es c))))
   \<and> (fst (send_with_response_await rid a t w1) = Raises e \<longrightarrow>
        rid \<notin> fst ` set (pending_requests (snd (send_with_response_await rid a t w1))))
   \<and> (rid \<notin> fst ` set (pending_requests w2) \<longrightarrow> answers rid fr \<longrightarrow>
        futures (handle_message fr w2) = futures w2
        \<and> pending_requests (handle_message fr w2) = pending_requests w2)"
  apply (intro conjI impI)
             apply (erule send_with_response_returns_or_raises)
            apply (rule send_with_response_answered; assumption)
           apply (rule send_with_response_times_out(1); assumption)
          apply (rule send_with_response_times_out(2); assumption)
         apply (rule send_with_response_disconnected; assumption)
        apply (erule send_with_response_offline)
       apply (erule send_with_response_send_fails(1))
      apply (erule send_with_response_send_fails(2))
     apply (rule send_with_response_refused(1); assumption)
    apply (rule send_with_response_refused(2); assumption)
    apply (erule await_raises_pops)
   apply (blast dest: late_response_ignored)
  apply (blast dest: late_response_ignored)
  done

theorem send_with_response_outcomes_witness:
  "list_all env_step [Frame push]
   \<and> ((\<exists>d. fst (send_with_response (JList []) ''req_1_1700000000000'' 10 (Completes None)
               [Frame push] ready) = Returns d) \<or>
      (\<exists>e. fst (send_with_response (JList []) ''req_1_1700000000000'' 10 (Completes None)
               [Frame push] ready) = Raises e))
   \<and> is_connected ready \<and> table_ok ready
   \<and> list_all (\<lambda>fr. \<not> answers ''req_1_1700000000000'' fr) [push]
   \<and> dict_get [(''request_id'', JStr ''req_1_1700000000000''), (''positions'', JList [])]
        ''request_id'' JNull = JStr ''req_1_1700000000000''
   \<and> fst (send_with_response positions_request ''req_1_1700000000000'' 10 (Completes None)
            (map Frame [push] @ Frame positions # [Disconnect None]) ready)
       = Returns (JObj [(''request_id'', JStr ''req_1_1700000000000''), (''positions'', JList [])])
   \<and> fst (send_with_response positions_request ''req_1_1700000000000'' 10 (Completes None)
            (map Frame [push]) ready) = Raises (timed_out ''req_1_1700000000000'' 10)
   \<and> ''req_1_1700000000000'' \<notin> fst ` set (pending_requests
        (snd (send_with_response positions_request ''req_1_1700000000000'' 10 (Completes None)
            (map Frame [push]) ready)))
   \<and> fst (send_with_response positions_request ''req_1_1700000000000'' 10 (Completes None)
            (map Frame [push] @ Disconnect None # [Disconnect None]) ready)
       = Raises (Exception ''Connection closed'')
   \<and> \<not> is_connected fresh
   \<and> send_with_response (JList []) ''req_1_1700000000000'' 10 Stalls [Frame push] fresh =
       (Raises (Exception ''WebSocket not connected''), fresh)
   \<and> fst (send_with_response (JList []) ''req_1_1700000000000'' 10
            (Completes (Some ''broken pipe'')) [Frame push] ready) = Raises (Exception ''broken pipe'')
   \<and> (\<forall>d. JList [] \<noteq> JObj d)
   \<and> fst (send_with_response (JList []) ''req_1_1700000000000'' 10 (Completes None)
            [Frame push] ready) =
       Raises (AttributeError (quoted ''list'' @ '' object has no attribute '' @ quoted ''get''))
   \<and> fst (send_with_response_await ''req_1_1700000000000'' 0 10 waiting)
       = Raises (timed_out ''req_1_1700000000000'' 10)
   \<and> ''req_1_1700000000000'' \<notin> fst ` set (pending_requests
        (snd (send_with_response_await ''req_1_1700000000000'' 0 10 waiting)))
   \<and> answers ''req_1_1700000000000'' ack
   \<and> futures (handle_message ack (snd (send_with_response_await ''req_1_1700000000000'' 0 10 waiting)))
       = futures (snd (send_with_response_await ''req_1_1700000000000'' 0 10 waiting))"
proof -
  have pr: "positions_request =
              JObj [(''action'', JStr ''get_positions''), (''request_id'', JStr ''req_1_1700000000000''),
                    (''timestamp'', JStr ''2026-01-01T00:00:00'')]"
    by (simp add: positions_request_def get_positions_message_def)
  have po: "positions = (''positions'', Inr (JObj [(''request_id'', JStr ''req_1_1700000000000''),
                                                   (''positions'', JList [])]))"
    by (simp add: positions_def)
  have h: "list_all env_step [Frame push]" "is_connected ready" "table_ok ready"
    "list_all (\<lambda>fr. \<not> answers ''req_1_1700000000000'' fr) [push]"
    "dict_get [(''request_id'', JStr ''req_1_1700000000000''), (''positions'', JList [])]
        ''request_id'' JNull = JStr ''req_1_1700000000000''"
    "\<not> is_connected fresh" "\<forall>d. JList [] \<noteq> JObj d" "answers ''req_1_1700000000000'' ack"
    "''req_1_1700000000000'' \<noteq> []" "\<not> answers ''req_1_1700000000000'' push"
    by (simp_all add: ready_def fresh_def init_def is_connected_def table_ok_def answers_def
          push_def ack_def dict_get_def)
  have w: "fst (send_with_response_await ''req_1_1700000000000'' 0 10 waiting)
             = Raises (timed_out ''req_1_1700000000000'' 10)"
    by (simp add: await_outcome waiting_future)
  note t1 = send_with_response_outcomes
      [where es = "[Frame push]" and message = "JList []" and rid = "''req_1_1700000000000''"
         and t = 10 and so = None and c = ready and fs = "[push]"
         and d = "[(''request_id'', JStr ''req_1_1700000000000''), (''positions'', JList [])]"
         and m = "[(''action'', JStr ''get_positions''), (''request_id'', JStr ''req_1_1700000000000''),
                   (''timestamp'', JStr ''2026-01-01T00:00:00'')]"
         and raw = "''positions''" and gs = "[Disconnect None]" and co = None
         and ?c0.0 = fresh and tr = Stalls and x = "''broken pipe''"
         and a = 0 and ?w1.0 = waiting and e = "timed_out ''req_1_1700000000000'' 10"
         and ?w2.0 = "snd (send_with_response_await ''req_1_1700000000000'' 0 10 waiting)"
         and fr = ack]
  show ?thesis
    unfolding pr po using t1 w by (simp add: h)
qed
subsection \<open>The subscription set\<close>

lemma env_step_subscriptions: "env_step s \<Longrightarrow> subscriptions (exec s c) = subscriptions c"
  by (cases s) simp_all

lemma env_steps_subscriptions:
  "list_all env_step es \<Longrightarrow> subscriptions (fold exec es c) = subscriptions c"
  by (induction es arbitrary: c) (simp_all add: env_step_subscriptions)

lemma subscribe_start_cases:
  obtains (early) "symb |\<in>| subscriptions c"
      "subscribe_start symb now tr c =
         (Done (JObj [(''status'', JStr ''already_subscribed''), (''symbol'', JStr symb)]), c)"
  | (error) e w where "symb |\<notin>| subscriptions c"
      "send_with_response_register
         (JObj [(''action'', JStr ''subscribe''),
                (''request_id'', JStr (request_id_text (request_id c + 1) now)),
                (''symbol'', JStr symb)])
         (request_id_text (request_id c + 1) now) tr (c\<lparr>request_id := request_id c + 1\<rparr>)
       = (Raised e, w)"
      "subscribe_start symb now tr c =
         (Done (error_result e [(''symbol'', JStr symb)]),
          log_msg ERROR ''Failed to subscribe to : '' [AStr symb, AStr (str_exn e)] w)"
  | (waits) a w where "symb |\<notin>| subscriptions c"
      "send_with_response_register
         (JObj [(''action'', JStr ''subscribe''),
                (''request_id'', JStr (request_id_text (request_id c + 1) now)),
                (''symbol'', JStr symb)])
         (request_id_text (request_id c + 1) now) tr (c\<lparr>request_id := request_id c + 1\<rparr>)
       = (Awaits a, w)"
      "subscribe_start symb now tr c = (Waiting (request_id_text (request_id c + 1) now) a, w)"
  | (stuck) w where "symb |\<notin>| subscriptions c"
      "send_with_response_register
         (JObj [(''action'', JStr ''subscribe''),
                (''request_id'', JStr (request_id_text (request_id c + 1) now)),
                (''symbol'', JStr symb)])
         (request_id_text (request_id c + 1) now) tr (c\<lparr>request_id := request_id c + 1\<rparr>)
       = (Stalled, w)"
      "subscribe_start symb now tr c = (Stuck, w)"
proof (cases "symb |\<in>| subscriptions c")
  case True
  then show ?thesis using early by (simp add: subscribe_start_def)
next
  case False
  obtain r w where rw:
    "send_with_response_register
         (JObj [(''action'', JStr ''subscribe''),
                (''request_id'', JStr (request_id_text (request_id c + 1) now)),
                (''symbol'', JStr symb)])
         (request_id_text (request_id c + 1) now) tr (c\<lparr>request_id := request_id c + 1\<rparr>)
       = (r, w)" by force
  show ?thesis
  proof (cases r)
    case (Raised e)
    with False rw show ?thesis
      using error [of e w] by (simp add: subscribe_start_def get_request_id_eq)
  next
    case (Awaits a)
    with False rw show ?thesis
      using waits [of a w] by (simp add: subscribe_start_def get_request_id_eq)
  next
    case Stalled
    with False rw show ?thesis
      using stuck [of w] by (simp add: subscribe_start_def get_request_id_eq)
  qed
qed

lemma unsubscribe_start_cases:
  obtains (early) "symb |\<notin>| subscriptions c"
      "unsubscribe_start symb now tr c =
         (Done (JObj [(''status'', JStr ''not_subscribed''), (''symbol'', JStr symb)]), c)"
  | (error) e w where "symb |\<in>| subscriptions c"
      "send_with_response_register
         (JObj [(''action'', JStr ''unsubscribe''),
                (''request_id'', JStr (request_id_text (request_id c + 1) now)),
                (''symbol'', JStr symb)])
         (request_id_text (request_id c + 1) now) tr (c\<lparr>request_id := request_id c + 1\<rparr>)
       = (Raised e, w)"
      "unsubscribe_start symb now tr c =
         (Done (error_result e [(''symbol'', JStr symb)]),
          log_msg ERROR ''Failed to unsubscribe from : '' [AStr symb, AStr (str_exn e)] w)"
  | (waits) a w where "symb |\<in>| subscriptions c"
      "send_with_response_register
         (JObj [(''action'', JStr ''unsubscribe''),
                (''request_id'', JStr (request_id_text (request_id c + 1) now)),
                (''symbol'', JStr symb)])
         (request_id_text (request_id c + 1) now) tr (c\<lparr>request_id := request_id c + 1\<rparr>)
       = (Awaits a, w)"
      "unsubscribe_start symb now tr c = (Waiting (request_id_text (request_id c + 1) now) a, w)"
  | (stuck) w where "symb |\<in>| subscriptions c"
      "send_with_response_register
         (JObj [(''action'', JStr ''unsubscribe''),
                (''request_id'', JStr (request_id_text (request_id c + 1) now)),
                (''symbol'', JStr symb)])
         (request_id_text (request_id c + 1) now) tr (c\<lparr>request_id := request_id c + 1\<rparr>)
       = (Stalled, w)"
      "unsubscribe_start symb now tr c = (Stuck, w)"
proof (cases "symb |\<notin>| subscriptions c")
  case True
  then show ?thesis using early by (simp add: unsubscribe_start_def)
next
  case False
  obtain r w where rw:
    "send_with_response_register
         (JObj [(''action'', JStr ''unsubscribe''),
                (''request_id'', JStr (request_id_text (request_id c + 1) now)),
                (''symbol'', JStr symb)])
         (request_id_text (request_id c + 1) now) tr (c\<lparr>request_id := request_id c + 1\<rparr>)
       = (r, w)" by force
  show ?thesis
  proof (cases r)
    case (Raised e)
    with False rw show ?thesis
      using error [of e w] by (simp add: unsubscribe_start_def get_request_id_eq)
  next
    case (Awaits a)
    with False rw show ?thesis
      using waits [of a w] by (simp add: unsubscribe_start_def get_request_id_eq)
  next
    case Stalled
    with False rw show ?thesis
      using stuck [of w] by (simp add: unsubscribe_start_def get_request_id_eq)
  qed
qed

lemma register_subscriptions:
  "send_with_response_register message rid tr c = (r, w) \<Longrightarrow> subscriptions w = subscriptions c"
  using register_fields(1) [of message rid tr c] by simp

lemma subscribe_start_subscriptions [simp]:
  "subscriptions (snd (subscribe_start symb now tr c)) = subscriptions c"
  by (rule subscribe_start_cases [of symb c now tr]) (auto dest: register_subscriptions)

lemma unsubscribe_start_subscriptions [simp]:
  "subscriptions (snd (unsubscribe_start symb now tr c)) = subscriptions c"
  by (rule unsubscribe_start_cases [of symb c now tr]) (auto dest: register_subscriptions)

lemma status_of_simps [simp]:
  "status_of (Returns (JObj ((''status'', JStr s) # d))) = s"
  "status_of (Returns (error_result e extra)) = ''error''"
  "status_of (Raises e) = []"
  "status_of Cancels = []"
  "status_of Hangs = []"
  by (simp_all add: status_of_def dict_get_def error_result_def)

lemma subscribe_finish_registry:
  "subscriptions (snd (subscribe_finish symb rid a c)) =
     (if status_of (fst (subscribe_finish symb rid a c)) = ''subscribed''
      then finsert symb (subscriptions c) else subscriptions c)"
proof -
  obtain r w where w: "send_with_response_await rid a 5 c = (r, w)" by force
  then have "subscriptions w = subscriptions c" using await_fields(1) [of rid a 5 c] by simp
  then show ?thesis by (cases r) (simp_all add: subscribe_finish_def w)
qed

lemma unsubscribe_finish_registry:
  "subscriptions (snd (unsubscribe_finish symb rid a c)) =
     (if status_of (fst (unsubscribe_finish symb rid a c)) = ''unsubscribed''
      then subscriptions c |-| {|symb|} else subscriptions c)"
proof -
  obtain r w where w: "send_with_response_await rid a 5 c = (r, w)" by force
  then have "subscriptions w = subscriptions c" using await_fields(1) [of rid a 5 c] by simp
  then show ?thesis by (cases r) (simp_all add: unsubscribe_finish_def w)
qed


lemma waiting_start:
  "subscribe_start ''MES'' 1700000000000 (Completes None) ready = (Waiting ''req_1_1700000000000'' 0, waiting)"
proof -
  have "fst (subscribe_start ''MES'' 1700000000000 (Completes None) ready) = Waiting ''req_1_1700000000000'' 0"
    by (simp add: subscribe_start_def get_request_id_eq register_sent
      ready_def fresh_def init_def is_connected_def request_id_text_def str_int_def
      str_nat.simps digit_char_def)
  then show ?thesis by (simp add: waiting_def prod_eq_iff)
qed

lemma waiting_subscriptions: "subscriptions waiting = {||}"
  by (simp add: waiting_def) (simp add: ready_def fresh_def init_def)

lemma subscribe_answered:
  assumes "dict_get d ''request_id'' JNull = JStr ''req_1_1700000000000''"
  shows "fst (subscribe ''MES'' 1700000000000 (Completes None) [Frame (raw, Inr (JObj d))] ready) =
           Returns (JObj [(''status'', JStr ''subscribed''), (''symbol'', JStr ''MES''),
                          (''data'', JObj d)])"
    and "subscriptions (snd (subscribe ''MES'' 1700000000000 (Completes None) [Frame (raw, Inr (JObj d))] ready))
           = {|''MES''|}"
proof -
  have "handle_message (raw, Inr (JObj d)) waiting =
          snd (resolve ''req_1_1700000000000'' 0 (JObj d) waiting)"
    using assms by (intro handle_message_resolves) (simp_all add: waiting_pending)
  then have f: "futures (handle_message (raw, Inr (JObj d)) waiting) 0 = Finished (JObj d)"
    by (simp add: waiting_future fut_done_def)
  have s: "subscriptions (handle_message (raw, Inr (JObj d)) waiting) = {||}"
    by (simp add: waiting_subscriptions)
  show "fst (subscribe ''MES'' 1700000000000 (Completes None) [Frame (raw, Inr (JObj d))] ready) =
           Returns (JObj [(''status'', JStr ''subscribed''), (''symbol'', JStr ''MES''),
                          (''data'', JObj d)])"
    and "subscriptions (snd (subscribe ''MES'' 1700000000000 (Completes None) [Frame (raw, Inr (JObj d))] ready))
           = {|''MES''|}"
    using f s by (simp_all add: subscribe_def waiting_start subscribe_finish_def
                    send_with_response_await_def)
qed



lemma env_frames [simp]: "list_all env_step (map Frame fs)"
  by (induction fs) simp_all

lemma request_id_text_not_Nil [simp]: "request_id_text n now \<noteq> []"
  by (simp add: request_id_text_def)

lemma issue_live:
  assumes "is_connected c" and "table_ok c"
  shows "live (request_id_text (request_id c + 1) now) (next_future c)
           (snd (send_with_response_register (JObj m) (request_id_text (request_id c + 1) now)
                   (Completes None) (c\<lparr>request_id := request_id c + 1\<rparr>)))"
proof -
  have "is_connected (c\<lparr>request_id := request_id c + 1\<rparr>)"
    "table_ok (c\<lparr>request_id := request_id c + 1\<rparr>)"
    using assms by (simp_all add: is_connected_def table_ok_def)
  from live_registered [OF this, of "request_id_text (request_id c + 1) now" m]
  show ?thesis by simp
qed

text \<open>\<^verbatim>\<open>subscribe\<close>, from the future it waits for.\<close>

lemma subscribe_finish_eq:
  "futures c a = Finished d \<Longrightarrow>
   subscribe_finish symb rid a c =
     (Returns (JObj [(''status'', JStr ''subscribed''), (''symbol'', JStr symb), (''data'', d)]),
      log_msg INFO ''Subscribed to market data: '' [AStr symb] (c\<lparr>subscriptions := finsert symb (subscriptions c)\<rparr>))"
  "futures c a = Failed e \<Longrightarrow>
   subscribe_finish symb rid a c =
     (Returns (error_result e [(''symbol'', JStr symb)]),
      log_msg ERROR ''Failed to subscribe to : '' [AStr symb, AStr (str_exn e)] (pop_pending rid c))"
  "futures c a = Pending \<Longrightarrow>
   subscribe_finish symb rid a c =
     (Returns (error_result (timed_out rid 5) [(''symbol'', JStr symb)]),
      log_msg ERROR ''Failed to subscribe to : '' [AStr symb, AStr (str_exn (timed_out rid 5))]
        (pop_pending rid (c\<lparr>futures := (futures c)(a := Cancelled)\<rparr>)))"
  "futures c a = Cancelled \<Longrightarrow> subscribe_finish symb rid a c = (Cancels, c)"
  by (simp_all add: subscribe_finish_def send_with_response_await_def)

lemma subscribe_finish_set:
  "subscriptions (snd (subscribe_finish symb rid a c)) =
     (if \<exists>d. futures c a = Finished d then finsert symb (subscriptions c) else subscriptions c)"
  "status_of (fst (subscribe_finish symb rid a c)) = ''subscribed'' \<longleftrightarrow> (\<exists>d. futures c a = Finished d)"
  by (cases "futures c a"; simp add: subscribe_finish_eq)+

lemma subscribe_waits:
  assumes "is_connected c" and "symb |\<notin>| subscriptions c"
  shows "subscribe symb now (Completes None) es c =
           subscribe_finish symb (request_id_text (request_id c + 1) now) (next_future c)
             (fold exec es
               (snd (send_with_response_register
                  (JObj [(''action'', JStr ''subscribe''),
                         (''request_id'', JStr (request_id_text (request_id c + 1) now)),
                         (''symbol'', JStr symb)])
                  (request_id_text (request_id c + 1) now) (Completes None)
                  (c\<lparr>request_id := request_id c + 1\<rparr>))))"
proof -
  have "is_connected (c\<lparr>request_id := request_id c + 1\<rparr>)"
    using assms(1) by (simp add: is_connected_def)
  then show ?thesis
    using assms(2) by (simp add: subscribe_def subscribe_start_def get_request_id_eq register_sent)
qed

lemma subscribe_timeout:
  assumes "is_connected c" and "table_ok c" and "symb |\<notin>| subscriptions c"
    and "list_all (\<lambda>fr. \<not> answers (request_id_text (request_id c + 1) now) fr) fs"
  shows "fst (subscribe symb now (Completes None) (map Frame fs) c) =
           Returns (error_result (timed_out (request_id_text (request_id c + 1) now) 5)
                      [(''symbol'', JStr symb)])"
    and "subscriptions (snd (subscribe symb now (Completes None) (map Frame fs) c)) = subscriptions c"
proof -
  let ?m = "[(''action'', JStr ''subscribe''),
             (''request_id'', JStr (request_id_text (request_id c + 1) now)),
             (''symbol'', JStr symb)]"
  let ?c1 = "snd (send_with_response_register (JObj ?m) (request_id_text (request_id c + 1) now)
                    (Completes None) (c\<lparr>request_id := request_id c + 1\<rparr>))"
  have l: "live (request_id_text (request_id c + 1) now) (next_future c) ?c1"
    using assms(1,2) by (rule issue_live)
  have f: "futures (fold exec (map Frame fs) ?c1) (next_future c) = Pending"
    using l assms(4) by (rule wait_silent)
  have s: "subscriptions (fold exec (map Frame fs) ?c1) = subscriptions c"
    by (simp add: env_steps_subscriptions)
  show "fst (subscribe symb now (Completes None) (map Frame fs) c) =
           Returns (error_result (timed_out (request_id_text (request_id c + 1) now) 5)
                      [(''symbol'', JStr symb)])"
    by (simp add: subscribe_waits [OF assms(1,3)] subscribe_finish_eq(3) [OF f])
  show "subscriptions (snd (subscribe symb now (Completes None) (map Frame fs) c)) = subscriptions c"
    using s by (simp add: subscribe_waits [OF assms(1,3)] subscribe_finish_eq(3) [OF f])
qed

lemma subscribe_disconnected:
  assumes "is_connected c" and "table_ok c" and "symb |\<notin>| subscriptions c"
    and "list_all (\<lambda>fr. \<not> answers (request_id_text (request_id c + 1) now) fr) fs"
    and "list_all env_step gs"
  shows "fst (subscribe symb now (Completes None) (map Frame fs @ Disconnect co # gs) c) =
           Returns (error_result (Exception ''Connection closed'') [(''symbol'', JStr symb)])"
    and "subscriptions (snd (subscribe symb now (Completes None) (map Frame fs @ Disconnect co # gs) c))
           = subscriptions c"
proof -
  let ?m = "[(''action'', JStr ''subscribe''),
             (''request_id'', JStr (request_id_text (request_id c + 1) now)),
             (''symbol'', JStr symb)]"
  let ?c1 = "snd (send_with_response_register (JObj ?m) (request_id_text (request_id c + 1) now)
                    (Completes None) (c\<lparr>request_id := request_id c + 1\<rparr>))"
  let ?es = "map Frame fs @ Disconnect co # gs"
  have l: "live (request_id_text (request_id c + 1) now) (next_future c) ?c1"
    using assms(1,2) by (rule issue_live)
  have f: "futures (fold exec ?es ?c1) (next_future c) = Failed (Exception ''Connection closed'')"
    using l assms(4) by (rule wait_disconnected)
  have "list_all env_step ?es" using assms(5) by simp
  then have s: "subscriptions (fold exec ?es ?c1) = subscriptions c"
    by (simp only: env_steps_subscriptions register_fields simp_thms) simp
  show "fst (subscribe symb now (Completes None) ?es c) =
           Returns (error_result (Exception ''Connection closed'') [(''symbol'', JStr symb)])"
    by (simp only: subscribe_waits [OF assms(1,3)] subscribe_finish_eq(2) [OF f] fst_conv)
  show "subscriptions (snd (subscribe symb now (Completes None) ?es c)) = subscriptions c"
    using s by (simp only: subscribe_waits [OF assms(1,3)] subscribe_finish_eq(2) [OF f] snd_conv)
               simp
qed

lemma subscribe_acknowledged:
  assumes "is_connected c" and "table_ok c" and "symb |\<notin>| subscriptions c"
    and "list_all (\<lambda>fr. \<not> answers (request_id_text (request_id c + 1) now) fr) fs"
    and "list_all env_step gs"
    and "dict_get d ''request_id'' JNull = JStr (request_id_text (request_id c + 1) now)"
  shows "fst (subscribe symb now (Completes None) (map Frame fs @ Frame (raw, Inr (JObj d)) # gs) c) =
           Returns (JObj [(''status'', JStr ''subscribed''), (''symbol'', JStr symb),
                          (''data'', JObj d)])"
    and "subscriptions (snd (subscribe symb now (Completes None)
                               (map Frame fs @ Frame (raw, Inr (JObj d)) # gs) c))
           = finsert symb (subscriptions c)"
proof -
  let ?m = "[(''action'', JStr ''subscribe''),
             (''request_id'', JStr (request_id_text (request_id c + 1) now)),
             (''symbol'', JStr symb)]"
  let ?c1 = "snd (send_with_response_register (JObj ?m) (request_id_text (request_id c + 1) now)
                    (Completes None) (c\<lparr>request_id := request_id c + 1\<rparr>))"
  let ?es = "map Frame fs @ Frame (raw, Inr (JObj d)) # gs"
  have l: "live (request_id_text (request_id c + 1) now) (next_future c) ?c1"
    using assms(1,2) by (rule issue_live)
  have f: "futures (fold exec ?es ?c1) (next_future c) = Finished (JObj d)"
    using l assms(4) request_id_text_not_Nil assms(6) by (rule wait_answered)
  have "list_all env_step ?es" using assms(5) by simp
  then have s: "subscriptions (fold exec ?es ?c1) = subscriptions c"
    by (simp only: env_steps_subscriptions register_fields simp_thms) simp
  show "fst (subscribe symb now (Completes None) ?es c) =
           Returns (JObj [(''status'', JStr ''subscribed''), (''symbol'', JStr symb),
                          (''data'', JObj d)])"
    by (simp only: subscribe_waits [OF assms(1,3)] subscribe_finish_eq(1) [OF f] fst_conv)
  show "subscriptions (snd (subscribe symb now (Completes None) ?es c)) = finsert symb (subscriptions c)"
    using s by (simp only: subscribe_waits [OF assms(1,3)] subscribe_finish_eq(1) [OF f] snd_conv)
               simp
qed

lemma subscribe_offline:
  assumes "\<not> is_connected c" and "symb |\<notin>| subscriptions c"
  shows "fst (subscribe symb now tr es c) =
           Returns (error_result (Exception ''WebSocket not connected'') [(''symbol'', JStr symb)])"
    and "subscriptions (snd (subscribe symb now tr es c)) = subscriptions c"
proof -
  have "\<not> is_connected (c\<lparr>request_id := request_id c + 1\<rparr>)"
    using assms(1) by (simp add: is_connected_def)
  then show "fst (subscribe symb now tr es c) =
           Returns (error_result (Exception ''WebSocket not connected'') [(''symbol'', JStr symb)])"
    and "subscriptions (snd (subscribe symb now tr es c)) = subscriptions c"
    using assms(2)
    by (simp_all add: subscribe_def subscribe_start_def get_request_id_eq register_not_connected)
qed

lemma subscribe_send_fails:
  assumes "is_connected c" and "symb |\<notin>| subscriptions c"
  shows "fst (subscribe symb now (Completes (Some x)) es c) =
           Returns (error_result (Exception x) [(''symbol'', JStr symb)])"
    and "subscriptions (snd (subscribe symb now (Completes (Some x)) es c)) = subscriptions c"
proof -
  have "is_connected (c\<lparr>request_id := request_id c + 1\<rparr>)"
    using assms(1) by (simp add: is_connected_def)
  then show "fst (subscribe symb now (Completes (Some x)) es c) =
           Returns (error_result (Exception x) [(''symbol'', JStr symb)])"
    and "subscriptions (snd (subscribe symb now (Completes (Some x)) es c)) = subscriptions c"
    using assms(2)
    by (simp_all add: subscribe_def subscribe_start_def get_request_id_eq register_send_failed)
qed

lemma subscribe_stalls:
  assumes "is_connected c" and "symb |\<notin>| subscriptions c" and "list_all env_step es"
  shows "fst (subscribe symb now Stalls es c) = Hangs"
    and "subscriptions (snd (subscribe symb now Stalls es c)) = subscriptions c"
proof -
  have "is_connected (c\<lparr>request_id := request_id c + 1\<rparr>)"
    using assms(1) by (simp add: is_connected_def)
  then show "fst (subscribe symb now Stalls es c) = Hangs"
    and "subscriptions (snd (subscribe symb now Stalls es c)) = subscriptions c"
    using assms(2,3)
    by (simp_all add: subscribe_def subscribe_start_def get_request_id_eq register_stalled
          env_steps_subscriptions)
qed

text \<open>\<^verbatim>\<open>unsubscribe\<close>, from the future it waits for.\<close>

lemma unsubscribe_finish_eq:
  "futures c a = Finished d \<Longrightarrow>
   unsubscribe_finish symb rid a c =
     (Returns (JObj [(''status'', JStr ''unsubscribed''), (''symbol'', JStr symb), (''data'', d)]),
      log_msg INFO ''Unsubscribed from: '' [AStr symb] (c\<lparr>subscriptions := subscriptions c |-| {|symb|}\<rparr>))"
  "futures c a = Failed e \<Longrightarrow>
   unsubscribe_finish symb rid a c =
     (Returns (error_result e [(''symbol'', JStr symb)]),
      log_msg ERROR ''Failed to unsubscribe from : '' [AStr symb, AStr (str_exn e)] (pop_pending rid c))"
  "futures c a = Pending \<Longrightarrow>
   unsubscribe_finish symb rid a c =
     (Returns (error_result (timed_out rid 5) [(''symbol'', JStr symb)]),
      log_msg ERROR ''Failed to unsubscribe from : '' [AStr symb, AStr (str_exn (timed_out rid 5))]
        (pop_pending rid (c\<lparr>futures := (futures c)(a := Cancelled)\<rparr>)))"
  "futures c a = Cancelled \<Longrightarrow> unsubscribe_finish symb rid a c = (Cancels, c)"
  by (simp_all add: unsubscribe_finish_def send_with_response_await_def)

lemma unsubscribe_finish_set:
  "subscriptions (snd (unsubscribe_finish symb rid a c)) =
     (if \<exists>d. futures c a = Finished d then subscriptions c |-| {|symb|} else subscriptions c)"
  "status_of (fst (unsubscribe_finish symb rid a c)) = ''unsubscribed'' \<longleftrightarrow> (\<exists>d. futures c a = Finished d)"
  by (cases "futures c a"; simp add: unsubscribe_finish_eq)+

lemma unsubscribe_waits:
  assumes "is_connected c" and "symb |\<in>| subscriptions c"
  shows "unsubscribe symb now (Completes None) es c =
           unsubscribe_finish symb (request_id_text (request_id c + 1) now) (next_future c)
             (fold exec es
               (snd (send_with_response_register
                  (JObj [(''action'', JStr ''unsubscribe''),
                         (''request_id'', JStr (request_id_text (request_id c + 1) now)),
                         (''symbol'', JStr symb)])
                  (request_id_text (request_id c + 1) now) (Completes None)
                  (c\<lparr>request_id := request_id c + 1\<rparr>))))"
proof -
  have "is_connected (c\<lparr>request_id := request_id c + 1\<rparr>)"
    using assms(1) by (simp add: is_connected_def)
  then show ?thesis
    using assms(2) by (simp add: unsubscribe_def unsubscribe_start_def get_request_id_eq register_sent)
qed

lemma unsubscribe_timeout:
  assumes "is_connected c" and "table_ok c" and "symb |\<in>| subscriptions c"
    and "list_all (\<lambda>fr. \<not> answers (request_id_text (request_id c + 1) now) fr) fs"
  shows "fst (unsubscribe symb now (Completes None) (map Frame fs) c) =
           Returns (error_result (timed_out (request_id_text (request_id c + 1) now) 5)
                      [(''symbol'', JStr symb)])"
    and "subscriptions (snd (unsubscribe symb now (Completes None) (map Frame fs) c)) = subscriptions c"
proof -
  let ?m = "[(''action'', JStr ''unsubscribe''),
             (''request_id'', JStr (request_id_text (request_id c + 1) now)),
             (''symbol'', JStr symb)]"
  let ?c1 = "snd (send_with_response_register (JObj ?m) (request_id_text (request_id c + 1) now)
                    (Completes None) (c\<lparr>request_id := request_id c + 1\<rparr>))"
  have l: "live (request_id_text (request_id c + 1) now) (next_future c) ?c1"
    using assms(1,2) by (rule issue_live)
  have f: "futures (fold exec (map Frame fs) ?c1) (next_future c) = Pending"
    using l assms(4) by (rule wait_silent)
  have s: "subscriptions (fold exec (map Frame fs) ?c1) = subscriptions c"
    by (simp add: env_steps_subscriptions)
  show "fst (unsubscribe symb now (Completes None) (map Frame fs) c) =
           Returns (error_result (timed_out (request_id_text (request_id c + 1) now) 5)
                      [(''symbol'', JStr symb)])"
    by (simp add: unsubscribe_waits [OF assms(1,3)] unsubscribe_finish_eq(3) [OF f])
  show "subscriptions (snd (unsubscribe symb now (Completes None) (map Frame fs) c)) = subscriptions c"
    using s by (simp add: unsubscribe_waits [OF assms(1,3)] unsubscribe_finish_eq(3) [OF f])
qed

lemma unsubscribe_disconnected:
  assumes "is_connected c" and "table_ok c" and "symb |\<in>| subscriptions c"
    and "list_all (\<lambda>fr. \<not> answers (request_id_text (request_id c + 1) now) fr) fs"
    and "list_all env_step gs"
  shows "fst (unsubscribe symb now (Completes None) (map Frame fs @ Disconnect co # gs) c) =
           Returns (error_result (Exception ''Connection closed'') [(''symbol'', JStr symb)])"
    and "subscriptions (snd (unsubscribe symb now (Completes None) (map Frame fs @ Disconnect co # gs) c))
           = subscriptions c"
proof -
  let ?m = "[(''action'', JStr ''unsubscribe''),
             (''request_id'', JStr (request_id_text (request_id c + 1) now)),
             (''symbol'', JStr symb)]"
  let ?c1 = "snd (send_with_response_register (JObj ?m) (request_id_text (request_id c + 1) now)
                    (Completes None) (c\<lparr>request_id := request_id c + 1\<rparr>))"
  let ?es = "map Frame fs @ Disconnect co # gs"
  have l: "live (request_id_text (request_id c + 1) now) (next_future c) ?c1"
    using assms(1,2) by (rule issue_live)
  have f: "futures (fold exec ?es ?c1) (next_future c) = Failed (Exception ''Connection closed'')"
    using l assms(4) by (rule wait_disconnected)
  have "list_all env_step ?es" using assms(5) by simp
  then have s: "subscriptions (fold exec ?es ?c1) = subscriptions c"
    by (simp only: env_steps_subscriptions register_fields simp_thms) simp
  show "fst (unsubscribe symb now (Completes None) ?es c) =
           Returns (error_result (Exception ''Connection closed'') [(''symbol'', JStr symb)])"
    by (simp only: unsubscribe_waits [OF assms(1,3)] unsubscribe_finish_eq(2) [OF f] fst_conv)
  show "subscriptions (snd (unsubscribe symb now (Completes None) ?es c)) = subscriptions c"
    using s by (simp only: unsubscribe_waits [OF assms(1,3)] unsubscribe_finish_eq(2) [OF f] snd_conv)
               simp
qed

lemma unsubscribe_acknowledged:
  assumes "is_connected c" and "table_ok c" and "symb |\<in>| subscriptions c"
    and "list_all (\<lambda>fr. \<not> answers (request_id_text (request_id c + 1) now) fr) fs"
    and "list_all env_step gs"
    and "dict_get d ''request_id'' JNull = JStr (request_id_text (request_id c + 1) now)"
  shows "fst (unsubscribe symb now (Completes None) (map Frame fs @ Frame (raw, Inr (JObj d)) # gs) c) =
           Returns (JObj [(''status'', JStr ''unsubscribed''), (''symbol'', JStr symb),
                          (''data'', JObj d)])"
    and "subscriptions (snd (unsubscribe symb now (Completes None)
                               (map Frame fs @ Frame (raw, Inr (JObj d)) # gs) c))
           = subscriptions c |-| {|symb|}"
proof -
  let ?m = "[(''action'', JStr ''unsubscribe''),
             (''request_id'', JStr (request_id_text (request_id c + 1) now)),
             (''symbol'', JStr symb)]"
  let ?c1 = "snd (send_with_response_register (JObj ?m) (request_id_text (request_id c + 1) now)
                    (Completes None) (c\<lparr>request_id := request_id c + 1\<rparr>))"
  let ?es = "map Frame fs @ Frame (raw, Inr (JObj d)) # gs"
  have l: "live (request_id_text (request_id c + 1) now) (next_future c) ?c1"
    using assms(1,2) by (rule issue_live)
  have f: "futures (fold exec ?es ?c1) (next_future c) = Finished (JObj d)"
    using l assms(4) request_id_text_not_Nil assms(6) by (rule wait_answered)
  have "list_all env_step ?es" using assms(5) by simp
  then have s: "subscriptions (fold exec ?es ?c1) = subscriptions c"
    by (simp only: env_steps_subscriptions register_fields simp_thms) simp
  show "fst (unsubscribe symb now (Completes None) ?es c) =
           Returns (JObj [(''status'', JStr ''unsubscribed''), (''symbol'', JStr symb),
                          (''data'', JObj d)])"
    by (simp only: unsubscribe_waits [OF assms(1,3)] unsubscribe_finish_eq(1) [OF f] fst_conv)
  show "subscriptions (snd (unsubscribe symb now (Completes None) ?es c)) = subscriptions c |-| {|symb|}"
    using s by (simp only: unsubscribe_waits [OF assms(1,3)] unsubscribe_finish_eq(1) [OF f] snd_conv)
               simp
qed

lemma unsubscribe_offline:
  assumes "\<not> is_connected c" and "symb |\<in>| subscriptions c"
  shows "fst (unsubscribe symb now tr es c) =
           Returns (error_result (Exception ''WebSocket not connected'') [(''symbol'', JStr symb)])"
    and "subscriptions (snd (unsubscribe symb now tr es c)) = subscriptions c"
proof -
  have "\<not> is_connected (c\<lparr>request_id := request_id c + 1\<rparr>)"
    using assms(1) by (simp add: is_connected_def)
  then show "fst (unsubscribe symb now tr es c) =
           Returns (error_result (Exception ''WebSocket not connected'') [(''symbol'', JStr symb)])"
    and "subscriptions (snd (unsubscribe symb now tr es c)) = subscriptions c"
    using assms(2)
    by (simp_all add: unsubscribe_def unsubscribe_start_def get_request_id_eq register_not_connected)
qed

lemma unsubscribe_send_fails:
  assumes "is_connected c" and "symb |\<in>| subscriptions c"
  shows "fst (unsubscribe symb now (Completes (Some x)) es c) =
           Returns (error_result (Exception x) [(''symbol'', JStr symb)])"
    and "subscriptions (snd (unsubscribe symb now (Completes (Some x)) es c)) = subscriptions c"
proof -
  have "is_connected (c\<lparr>request_id := request_id c + 1\<rparr>)"
    using assms(1) by (simp add: is_connected_def)
  then show "fst (unsubscribe symb now (Completes (Some x)) es c) =
           Returns (error_result (Exception x) [(''symbol'', JStr symb)])"
    and "subscriptions (snd (unsubscribe symb now (Completes (Some x)) es c)) = subscriptions c"
    using assms(2)
    by (simp_all add: unsubscribe_def unsubscribe_start_def get_request_id_eq register_send_failed)
qed

lemma unsubscribe_stalls:
  assumes "is_connected c" and "symb |\<in>| subscriptions c" and "list_all env_step es"
  shows "fst (unsubscribe symb now Stalls es c) = Hangs"
    and "subscriptions (snd (unsubscribe symb now Stalls es c)) = subscriptions c"
proof -
  have "is_connected (c\<lparr>request_id := request_id c + 1\<rparr>)"
    using assms(1) by (simp add: is_connected_def)
  then show "fst (unsubscribe symb now Stalls es c) = Hangs"
    and "subscriptions (snd (unsubscribe symb now Stalls es c)) = subscriptions c"
    using assms(2,3)
    by (simp_all add: unsubscribe_def unsubscribe_start_def get_request_id_eq register_stalled
          env_steps_subscriptions)
qed
text \<open>
  C6, as the claim states it: a subscribe request that fails, be it by a timeout, a send
  failure or a broker error, leaves the subscription set unchanged. With a broker error
  it does not. The client subscribes to \<^verbatim>\<open>"MES"\<close>; the broker answers the request with
  a frame of type \<^verbatim>\<open>error\<close> that carries the request id. \<^verbatim>\<open>handle_message\<close> gives
  the frame to the request's future as its result, \<^verbatim>\<open>send_with_response\<close> returns it,
  and \<^verbatim>\<open>subscribe\<close>, which never looks into a response, adds the symbol and reports
  \<^verbatim>\<open>subscribed\<close>.
\<close>

theorem broker_error_adds_subscription:
  "subscriptions ready = {||}
   \<and> answers ''req_1_1700000000000'' rejection
   \<and> fst (subscribe ''MES'' 1700000000000 (Completes None) [Frame rejection] ready) =
       Returns (JObj [(''status'', JStr ''subscribed''), (''symbol'', JStr ''MES''),
                      (''data'', JObj [(''request_id'', JStr ''req_1_1700000000000''),
                                       (''type'', JStr ''error''),
                                       (''message'', JStr ''Unknown symbol'')])])
   \<and> subscriptions (snd (subscribe ''MES'' 1700000000000 (Completes None) [Frame rejection] ready))
       = {|''MES''|}
   \<and> subscriptions (snd (subscribe ''MES'' 1700000000000 (Completes None) [Frame rejection] ready))
       \<noteq> subscriptions ready"
proof -
  have r: "dict_get [(''request_id'', JStr ''req_1_1700000000000''), (''type'', JStr ''error''),
                     (''message'', JStr ''Unknown symbol'')] ''request_id'' JNull
           = JStr ''req_1_1700000000000''"
    by (simp add: dict_get_def)
  have "subscriptions ready = {||}" by (simp add: ready_def fresh_def init_def)
  moreover have "answers ''req_1_1700000000000'' rejection"
    by (simp add: answers_def rejection_def dict_get_def)
  ultimately show ?thesis
    using subscribe_answered [OF r, of "''rejection''"] by (simp add: rejection_def)
qed


text \<open>
  C6, amended: the subscription set changes when a response to the request has arrived,
  whatever the response says, and only then. A call of \<^verbatim>\<open>subscribe\<close> for a symbol that
  is not in the set returns an \<^verbatim>\<open>error\<close> result and leaves the set as it was when no
  frame carrying its request id arrives before the timeout, when \<^verbatim>\<open>disconnect\<close> is
  called while it waits, when \<^verbatim>\<open>ws.send\<close> raises and when there is no connection; while
  it is stuck in \<^verbatim>\<open>ws.send\<close> the set is as it was. When a frame carrying its request id
  arrives, it returns \<^verbatim>\<open>subscribed\<close> with that frame as data and the set is the old
  one with the symbol added. Seen from the future it waits for: the symbol is added, and
  \<^verbatim>\<open>subscribed\<close> reported, exactly when the future has a result. The same holds of
  \<^verbatim>\<open>unsubscribe\<close> for a symbol that is in the set, with the symbol taken out.
\<close>

theorem registry_changes_on_response_only:
  "(is_connected c \<longrightarrow> table_ok c \<longrightarrow> symb |\<notin>| subscriptions c \<longrightarrow>
      list_all (\<lambda>fr. \<not> answers (request_id_text (request_id c + 1) now) fr) fs \<longrightarrow>
      fst (subscribe symb now (Completes None) (map Frame fs) c) =
        Returns (error_result (timed_out (request_id_text (request_id c + 1) now) 5) [(''symbol'', JStr symb)])
      \<and> subscriptions (snd (subscribe symb now (Completes None) (map Frame fs) c)) = subscriptions c)
   \<and> (is_connected c \<longrightarrow> table_ok c \<longrightarrow> symb |\<notin>| subscriptions c \<longrightarrow>
      list_all (\<lambda>fr. \<not> answers (request_id_text (request_id c + 1) now) fr) fs \<longrightarrow> list_all env_step gs \<longrightarrow>
      fst (subscribe symb now (Completes None) (map Frame fs @ Disconnect co # gs) c) =
        Returns (error_result (Exception ''Connection closed'') [(''symbol'', JStr symb)])
      \<and> subscriptions (snd (subscribe symb now (Completes None) (map Frame fs @ Disconnect co # gs) c))
          = subscriptions c)
   \<and> (is_connected c \<longrightarrow> table_ok c \<longrightarrow> symb |\<notin>| subscriptions c \<longrightarrow>
      list_all (\<lambda>fr. \<not> answers (request_id_text (request_id c + 1) now) fr) fs \<longrightarrow> list_all env_step gs \<longrightarrow>
      dict_get d ''request_id'' JNull = JStr (request_id_text (request_id c + 1) now) \<longrightarrow>
      fst (subscribe symb now (Completes None) (map Frame fs @ Frame (raw, Inr (JObj d)) # gs) c) =
        Returns (JObj [(''status'', JStr ''subscribed''), (''symbol'', JStr symb), (''data'', JObj d)])
      \<and> subscriptions (snd (subscribe symb now (Completes None)
                              (map Frame fs @ Frame (raw, Inr (JObj d)) # gs) c))
          = finsert symb (subscriptions c))
   \<and> (is_connected c \<longrightarrow> symb |\<notin>| subscriptions c \<longrightarrow>
      fst (subscribe symb now (Completes (Some x)) es c) =
        Returns (error_result (Exception x) [(''symbol'', JStr symb)])
      \<and> subscriptions (snd (subscribe symb now (Completes (Some x)) es c)) = subscriptions c)
   \<and> (\<not> is_connected c0 \<longrightarrow> symb |\<notin>| subscriptions c0 \<longrightarrow>
      fst (subscribe symb now tr es c0) =
        Returns (error_result (Exception ''WebSocket not connected'') [(''symbol'', JStr symb)])
      \<and> subscriptions (snd (subscribe symb now tr es c0)) = subscriptions c0)
   \<and> (is_connected c \<longrightarrow> symb |\<notin>| subscriptions c \<longrightarrow> list_all env_step gs \<longrightarrow>
      fst (subscribe symb now Stalls gs c) = Hangs
      \<and> subscriptions (snd (subscribe symb now Stalls gs c)) = subscriptions c)
   \<and> subscriptions (snd (subscribe_finish symb rid a w)) =
       (if \<exists>r. futures w a = Finished r then finsert symb (subscriptions w) else subscriptions w)
   \<and> (status_of (fst (subscribe_finish symb rid a w)) = ''subscribed'' \<longleftrightarrow> (\<exists>r. futures w a = Finished r))
   \<and> (is_connected u \<longrightarrow> table_ok u \<longrightarrow> symb |\<in>| subscriptions u \<longrightarrow>
      list_all (\<lambda>fr. \<not> answers (request_id_text (request_id u + 1) now) fr) fs \<longrightarrow>
      fst (unsubscribe symb now (Completes None) (map Frame fs) u) =
        Returns (error_result (timed_out (request_id_text (request_id u + 1) now) 5) [(''symbol'', JStr symb)])
      \<and> subscriptions (snd (unsubscribe symb now (Completes None) (map Frame fs) u)) = subscriptions u)
   \<and> (is_connected u \<longrightarrow> table_ok u \<longrightarrow> symb |\<in>| subscriptions u \<longrightarrow>
      list_all (\<lambda>fr. \<not> answers (request_id_text (request_id u + 1) now) fr) fs \<longrightarrow> list_all env_step gs \<longrightarrow>
      fst (unsubscribe symb now (Completes None) (map Frame fs @ Disconnect co # gs) u) =
        Returns (error_result (Exception ''Connection closed'') [(''symbol'', JStr symb)])
      \<and> subscriptions (snd (unsubscribe symb now (Completes None) (map Frame fs @ Disconnect co # gs) u))
          = subscriptions u)
   \<and> (is_connected u \<longrightarrow> table_ok u \<longrightarrow> symb |\<in>| subscriptions u \<longrightarrow>
      list_all (\<lambda>fr. \<not> answers (request_id_text (request_id u + 1) now) fr) fs \<longrightarrow> list_all env_step gs \<longrightarrow>
      dict_get du ''request_id'' JNull = JStr (request_id_text (request_id u + 1) now) \<longrightarrow>
      fst (unsubscribe symb now (Completes None) (map Frame fs @ Frame (raw, Inr (JObj du)) # gs) u) =
        Returns (JObj [(''status'', JStr ''unsubscribed''), (''symbol'', JStr symb), (''data'', JObj du)])
      \<and> subscriptions (snd (unsubscribe symb now (Completes None)
                              (map Frame fs @ Frame (raw, Inr (JObj du)) # gs) u))
          = subscriptions u |-| {|symb|})
   \<and> (is_connected u \<longrightarrow> symb |\<in>| subscriptions u \<longrightarrow>
      fst (unsubscribe symb now (Completes (Some x)) es u) =
        Returns (error_result (Exception x) [(''symbol'', JStr symb)])
      \<and> subscriptions (snd (unsubscribe symb now (Completes (Some x)) es u)) = subscriptions u)
   \<and> (\<not> is_connected u0 \<longrightarrow> symb |\<in>| subscriptions u0 \<longrightarrow>
      fst (unsubscribe symb now tr es u0) =
        Returns (error_result (Exception ''WebSocket not connected'') [(''symbol'', JStr symb)])
      \<and> subscriptions (snd (unsubscribe symb now tr es u0)) = subscriptions u0)
   \<and> (is_connected u \<longrightarrow> symb |\<in>| subscriptions u \<longrightarrow> list_all env_step gs \<longrightarrow>
      fst (unsubscribe symb now Stalls gs u) = Hangs
      \<and> subscriptions (snd (unsubscribe symb now Stalls gs u)) = subscriptions u)
   \<and> subscriptions (snd (unsubscribe_finish symb rid a wu)) =
       (if \<exists>r. futures wu a = Finished r then subscriptions wu |-| {|symb|} else subscriptions wu)
   \<and> (status_of (fst (unsubscribe_finish symb rid a wu)) = ''unsubscribed'' \<longleftrightarrow> (\<exists>r. futures wu a = Finished r))"
  apply (intro conjI impI)
                             apply (rule subscribe_timeout(1); assumption)
                            apply (rule subscribe_timeout(2); assumption)
                           apply (rule subscribe_disconnected(1); assumption)
                          apply (rule subscribe_disconnected(2); assumption)
                         apply (rule subscribe_acknowledged(1); assumption)
                        apply (rule subscribe_acknowledged(2); assumption)
                       apply (rule subscribe_send_fails(1); assumption)
                      apply (rule subscribe_send_fails(2); assumption)
                     apply (rule subscribe_offline(1); assumption)
                    apply (rule subscribe_offline(2); assumption)
                   apply (rule subscribe_stalls(1); assumption)
                  apply (rule subscribe_stalls(2); assumption)
                 apply (rule subscribe_finish_set(1))
                apply (rule subscribe_finish_set(2))
               apply (rule unsubscribe_timeout(1); assumption)
              apply (rule unsubscribe_timeout(2); assumption)
             apply (rule unsubscribe_disconnected(1); assumption)
            apply (rule unsubscribe_disconnected(2); assumption)
           apply (rule unsubscribe_acknowledged(1); assumption)
          apply (rule unsubscribe_acknowledged(2); assumption)
         apply (rule unsubscribe_send_fails(1); assumption)
        apply (rule unsubscribe_send_fails(2); assumption)
       apply (rule unsubscribe_offline(1); assumption)
      apply (rule unsubscribe_offline(2); assumption)
     apply (rule unsubscribe_stalls(1); assumption)
    apply (rule unsubscribe_stalls(2); assumption)
   apply (rule unsubscribe_finish_set(1))
  apply (rule unsubscribe_finish_set(2))
  done

theorem registry_changes_on_response_only_witness:
  "is_connected ready
   \<and> table_ok ready
   \<and> ''MES'' |\<notin>| subscriptions ready
   \<and> list_all (\<lambda>fr. \<not> answers (request_id_text (request_id ready + 1) 1700000000000) fr) [push]
   \<and> list_all env_step [Frame push]
   \<and> dict_get [(''request_id'', JStr ''req_1_1700000000000''), (''status'', JStr ''ok'')] ''request_id'' JNull = JStr (request_id_text (request_id ready + 1) 1700000000000)
   \<and> fst (subscribe ''MES'' 1700000000000 (Completes None) (map Frame [push]) ready) =
       Returns (error_result (timed_out ''req_1_1700000000000'' 5) [(''symbol'', JStr ''MES'')])
   \<and> subscriptions (snd (subscribe ''MES'' 1700000000000 (Completes None) (map Frame [push]) ready)) = {||}
   \<and> fst (subscribe ''MES'' 1700000000000 (Completes None) (map Frame [push] @ Disconnect None # [Frame push]) ready) =
       Returns (error_result (Exception ''Connection closed'') [(''symbol'', JStr ''MES'')])
   \<and> subscriptions (snd (subscribe ''MES'' 1700000000000 (Completes None) (map Frame [push] @ Disconnect None # [Frame push]) ready)) = {||}
   \<and> fst (subscribe ''MES'' 1700000000000 (Completes None) (map Frame [push] @ Frame (''ack'', Inr (JObj [(''request_id'', JStr ''req_1_1700000000000''), (''status'', JStr ''ok'')])) # [Frame push]) ready) =
       Returns (JObj [(''status'', JStr ''subscribed''), (''symbol'', JStr ''MES''),
                      (''data'', JObj [(''request_id'', JStr ''req_1_1700000000000''), (''status'', JStr ''ok'')])])
   \<and> subscriptions (snd (subscribe ''MES'' 1700000000000 (Completes None) (map Frame [push] @ Frame (''ack'', Inr (JObj [(''request_id'', JStr ''req_1_1700000000000''), (''status'', JStr ''ok'')])) # [Frame push]) ready)) = {|''MES''|}
   \<and> fst (subscribe ''MES'' 1700000000000 (Completes (Some ''broken pipe'')) [] ready) =
       Returns (error_result (Exception ''broken pipe'') [(''symbol'', JStr ''MES'')])
   \<and> subscriptions (snd (subscribe ''MES'' 1700000000000 (Completes (Some ''broken pipe'')) [] ready)) = {||}
   \<and> \<not> is_connected fresh
   \<and> ''MES'' |\<notin>| subscriptions fresh
   \<and> fst (subscribe ''MES'' 1700000000000 (Completes None) [] fresh) =
       Returns (error_result (Exception ''WebSocket not connected'') [(''symbol'', JStr ''MES'')])
   \<and> subscriptions (snd (subscribe ''MES'' 1700000000000 (Completes None) [] fresh)) = {||}
   \<and> fst (subscribe ''MES'' 1700000000000 Stalls [Frame push] ready) = Hangs
   \<and> subscriptions (snd (subscribe ''MES'' 1700000000000 Stalls [Frame push] ready)) = {||}
   \<and> (\<exists>r. futures answered 0 = Finished r)
   \<and> subscriptions (snd (subscribe_finish ''MES'' ''req_1_1700000000000'' 0 answered)) = {|''MES''|}
   \<and> status_of (fst (subscribe_finish ''MES'' ''req_1_1700000000000'' 0 answered)) = ''subscribed''
   \<and> is_connected subscribed
   \<and> table_ok subscribed
   \<and> ''MES'' |\<in>| subscriptions subscribed
   \<and> list_all (\<lambda>fr. \<not> answers (request_id_text (request_id subscribed + 1) 1700000000000) fr) [push]
   \<and> dict_get [(''request_id'', JStr ''req_1_1700000000000''), (''status'', JStr ''ok'')] ''request_id'' JNull = JStr (request_id_text (request_id subscribed + 1) 1700000000000)
   \<and> fst (unsubscribe ''MES'' 1700000000000 (Completes None) (map Frame [push]) subscribed) =
       Returns (error_result (timed_out ''req_1_1700000000000'' 5) [(''symbol'', JStr ''MES'')])
   \<and> subscriptions (snd (unsubscribe ''MES'' 1700000000000 (Completes None) (map Frame [push]) subscribed)) = {|''MES''|}
   \<and> fst (unsubscribe ''MES'' 1700000000000 (Completes None) (map Frame [push] @ Disconnect None # [Frame push]) subscribed) =
       Returns (error_result (Exception ''Connection closed'') [(''symbol'', JStr ''MES'')])
   \<and> subscriptions (snd (unsubscribe ''MES'' 1700000000000 (Completes None) (map Frame [push] @ Disconnect None # [Frame push]) subscribed)) = {|''MES''|}
   \<and> fst (unsubscribe ''MES'' 1700000000000 (Completes None) (map Frame [push] @ Frame (''ack'', Inr (JObj [(''request_id'', JStr ''req_1_1700000000000''), (''status'', JStr ''ok'')])) # [Frame push]) subscribed) =
       Returns (JObj [(''status'', JStr ''unsubscribed''), (''symbol'', JStr ''MES''),
                      (''data'', JObj [(''request_id'', JStr ''req_1_1700000000000''), (''status'', JStr ''ok'')])])
   \<and> subscriptions (snd (unsubscribe ''MES'' 1700000000000 (Completes None) (map Frame [push] @ Frame (''ack'', Inr (JObj [(''request_id'', JStr ''req_1_1700000000000''), (''status'', JStr ''ok'')])) # [Frame push]) subscribed)) = {||}
   \<and> fst (unsubscribe ''MES'' 1700000000000 (Completes (Some ''broken pipe'')) [] subscribed) =
       Returns (error_result (Exception ''broken pipe'') [(''symbol'', JStr ''MES'')])
   \<and> subscriptions (snd (unsubscribe ''MES'' 1700000000000 (Completes (Some ''broken pipe'')) [] subscribed)) = {|''MES''|}
   \<and> \<not> is_connected (subscribed\<lparr>connected := False\<rparr>)
   \<and> ''MES'' |\<in>| subscriptions (subscribed\<lparr>connected := False\<rparr>)
   \<and> fst (unsubscribe ''MES'' 1700000000000 (Completes None) [] (subscribed\<lparr>connected := False\<rparr>)) =
       Returns (error_result (Exception ''WebSocket not connected'') [(''symbol'', JStr ''MES'')])
   \<and> subscriptions (snd (unsubscribe ''MES'' 1700000000000 (Completes None) [] (subscribed\<lparr>connected := False\<rparr>))) = {|''MES''|}
   \<and> fst (unsubscribe ''MES'' 1700000000000 Stalls [Frame push] subscribed) = Hangs
   \<and> subscriptions (snd (unsubscribe ''MES'' 1700000000000 Stalls [Frame push] subscribed)) = {|''MES''|}
   \<and> (\<exists>r. futures (answered\<lparr>subscriptions := {|''MES'', ''ES''|}\<rparr>) 0 = Finished r)
   \<and> subscriptions (snd (unsubscribe_finish ''MES'' ''req_1_1700000000000'' 0 (answered\<lparr>subscriptions := {|''MES'', ''ES''|}\<rparr>))) = {|''ES''|}
   \<and> status_of (fst (unsubscribe_finish ''MES'' ''req_1_1700000000000'' 0 (answered\<lparr>subscriptions := {|''MES'', ''ES''|}\<rparr>))) = ''unsubscribed''"
proof -
  have rt: "request_id_text (request_id ready + 1) 1700000000000 = ''req_1_1700000000000''"
    "request_id_text (request_id subscribed + 1) 1700000000000 = ''req_1_1700000000000''"
    by (simp_all add: subscribed_def ready_def fresh_def init_def request_id_text_def str_int_def
          str_nat.simps digit_char_def)
  have h: "is_connected ready" "table_ok ready" "''MES'' |\<notin>| subscriptions ready"
    "is_connected subscribed" "table_ok subscribed" "''MES'' |\<in>| subscriptions subscribed"
    "\<not> is_connected fresh" "''MES'' |\<notin>| subscriptions fresh"
    "\<not> is_connected (subscribed\<lparr>connected := False\<rparr>)" "''MES'' |\<in>| subscriptions (subscribed\<lparr>connected := False\<rparr>)"
    "\<not> answers ''req_1_1700000000000'' push"
    "dict_get [(''request_id'', JStr ''req_1_1700000000000''), (''status'', JStr ''ok'')] ''request_id'' JNull = JStr ''req_1_1700000000000''"
    "subscriptions ready = {||}" "subscriptions fresh = {||}"
    "subscriptions subscribed = {|''MES''|}" "subscriptions (subscribed\<lparr>connected := False\<rparr>) = {|''MES''|}"
    by (simp_all add: subscribed_def ready_def fresh_def init_def is_connected_def table_ok_def
          answers_def push_def dict_get_def)
  have f: "futures answered 0 = Finished (JObj [(''request_id'', JStr ''req_1_1700000000000''), (''status'', JStr ''ok'')])"
    "futures (answered\<lparr>subscriptions := {|''MES'', ''ES''|}\<rparr>) 0 = Finished (JObj [(''request_id'', JStr ''req_1_1700000000000''), (''status'', JStr ''ok'')])"
    "subscriptions answered = {||}"
    by (simp_all add: answered_future) (simp add: answered_def waiting_subscriptions)
  note t = registry_changes_on_response_only
      [where c = ready and u = subscribed and ?c0.0 = fresh and ?u0.0 = "(subscribed\<lparr>connected := False\<rparr>)"
         and symb = "''MES''" and now = 1700000000000 and fs = "[push]" and gs = "[Frame push]"
         and co = None and raw = "''ack''" and x = "''broken pipe''" and es = "[]"
         and tr = "Completes None" and rid = "''req_1_1700000000000''" and a = 0
         and d = "[(''request_id'', JStr ''req_1_1700000000000''), (''status'', JStr ''ok'')]" and du = "[(''request_id'', JStr ''req_1_1700000000000''), (''status'', JStr ''ok'')]" and w = answered and wu = "(answered\<lparr>subscriptions := {|''MES'', ''ES''|}\<rparr>)"]
  show ?thesis
    using t by (simp add: rt h f)
qed
subsection \<open>Two callers, one symbol\<close>

lemma subscribe_start_Waiting:
  "subscribe_start symb now tr c = (Waiting rid a, c') \<Longrightarrow>
   symb |\<notin>| subscriptions c \<and> subscriptions c' = subscriptions c"
proof -
  assume w: "subscribe_start symb now tr c = (Waiting rid a, c')"
  then have "subscriptions c' = subscriptions c"
    using subscribe_start_subscriptions [of symb now tr c] by simp
  moreover have "symb |\<notin>| subscriptions c"
  proof
    assume "symb |\<in>| subscriptions c"
    then have "fst (subscribe_start symb now tr c) =
                 Done (JObj [(''status'', JStr ''already_subscribed''), (''symbol'', JStr symb)])"
      by (simp add: subscribe_start_def)
    with w show False by simp
  qed
  ultimately show ?thesis by simp
qed

lemma waiting_facts:
  "is_connected waiting" "request_id waiting = 1"
  by (simp_all add: waiting_def subscribe_start_def get_request_id_eq register_sent
      ready_def fresh_def init_def is_connected_def)

lemma waiting2_start:
  "subscribe_start ''MES'' 1700000000001 (Completes None) waiting = (Waiting ''req_2_1700000000001'' 1, waiting2)"
proof -
  have "fst (subscribe_start ''MES'' 1700000000001 (Completes None) waiting) = Waiting ''req_2_1700000000001'' 1"
    using waiting_facts(1)
    by (simp add: subscribe_start_def get_request_id_eq register_sent waiting_subscriptions
          waiting_facts(2) waiting_next is_connected_def request_id_text_def str_int_def
          str_nat.simps digit_char_def)
  then show ?thesis by (simp add: waiting2_def prod_eq_iff)
qed

lemma waiting2_facts:
  "pending_requests waiting2 = [(''req_1_1700000000000'', 0), (''req_2_1700000000001'', Suc 0)]"
  "futures waiting2 0 = Pending" "futures waiting2 (Suc 0) = Pending"
  "subscriptions waiting2 = {||}"
  using waiting_facts(1)
  by (simp_all add: waiting2_def subscribe_start_def get_request_id_eq register_sent
        waiting_subscriptions waiting_facts(2) waiting_next waiting_pending waiting_future
        is_connected_def request_id_text_def str_int_def str_nat.simps digit_char_def)

lemma both_acknowledged:
  "futures (fold handle_message [ack, ack2] waiting2) 0 =
     Finished (JObj [(''request_id'', JStr ''req_1_1700000000000''), (''status'', JStr ''ok'')])"
  "futures (fold handle_message [ack, ack2] waiting2) (Suc 0) =
     Finished (JObj [(''request_id'', JStr ''req_2_1700000000001''), (''status'', JStr ''ok'')])"
  by (simp_all add: ack_def ack2_def handle_message_eq handle_decoded_def dict_get_def
        waiting2_facts fut_done_def)



text \<open>
  C8. Two calls of \<^verbatim>\<open>subscribe\<close> for one symbol, both acknowledged, add the symbol
  once. For both to be acknowledged the second call must start while the first one
  waits (after it, the second returns \<^verbatim>\<open>already_subscribed\<close> without a request, which
  is C10). So: the first caller sends its request and waits, the second caller sends its
  request and waits, frames arrive, the first caller resumes and reports
  \<^verbatim>\<open>subscribed\<close>, further frames arrive, the second caller resumes and reports
  \<^verbatim>\<open>subscribed\<close>. Then the subscription set is the old one and the symbol, the second
  addition has changed nothing, and \<^verbatim>\<open>get_connection_stats\<close> counts one subscription
  more than before.
\<close>

theorem concurrent_subscribes_add_once:
  assumes "subscribe_start symb now1 so1 c = (Waiting r1 a1, c1)"
    and "subscribe_start symb now2 so2 c1 = (Waiting r2 a2, c2)"
    and "subscribe_finish symb r1 a1 (fold handle_message frames c2) = (res1, c3)"
    and "status_of res1 = ''subscribed''"
    and "subscribe_finish symb r2 a2 (fold handle_message frames' c3) = (res2, c4)"
    and "status_of res2 = ''subscribed''"
  shows "subscriptions c4 = finsert symb (subscriptions c)
         \<and> subscriptions c4 = subscriptions c3
         \<and> fcard (subscriptions c4) = Suc (fcard (subscriptions c))
         \<and> get_connection_stats c4 =
             Stats (connected c4) (reconnect_attempts c4) (Suc (fcard (subscriptions c)))
               (length (pending_requests c4)) (finsert symb (subscriptions c))"
proof -
  from assms(1) have n: "symb |\<notin>| subscriptions c" and s1: "subscriptions c1 = subscriptions c"
    using subscribe_start_Waiting by blast+
  from assms(2) have s2: "subscriptions c2 = subscriptions c1"
    using subscribe_start_Waiting by blast
  have s3: "subscriptions c3 = finsert symb (subscriptions c)"
    using subscribe_finish_registry [of symb r1 a1 "fold handle_message frames c2"] assms(3,4) s1 s2
    by simp
  have s4: "subscriptions c4 = finsert symb (subscriptions c3)"
    using subscribe_finish_registry [of symb r2 a2 "fold handle_message frames' c3"] assms(5,6)
    by simp
  show ?thesis using n s3 s4 by (simp add: get_connection_stats_def fcard_finsert_disjoint)
qed



theorem concurrent_subscribes_add_once_witness:
  "subscribe_start ''MES'' 1700000000000 (Completes None) ready = (Waiting ''req_1_1700000000000'' 0, waiting)
   \<and> subscribe_start ''MES'' 1700000000001 (Completes None) waiting =
       (Waiting ''req_2_1700000000001'' 1, waiting2)
   \<and> status_of (fst (subscribe_finish ''MES'' ''req_1_1700000000000'' 0
          (fold handle_message [ack, ack2] waiting2))) = ''subscribed''
   \<and> status_of (fst (subscribe_finish ''MES'' ''req_2_1700000000001'' 1
          (fold handle_message []
             (snd (subscribe_finish ''MES'' ''req_1_1700000000000'' 0
                (fold handle_message [ack, ack2] waiting2)))))) = ''subscribed''
   \<and> subscriptions (snd (subscribe_finish ''MES'' ''req_2_1700000000001'' 1
          (fold handle_message []
             (snd (subscribe_finish ''MES'' ''req_1_1700000000000'' 0
                (fold handle_message [ack, ack2] waiting2)))))) = {|''MES''|}
   \<and> fcard (subscriptions (snd (subscribe_finish ''MES'' ''req_2_1700000000001'' 1
          (fold handle_message []
             (snd (subscribe_finish ''MES'' ''req_1_1700000000000'' 0
                (fold handle_message [ack, ack2] waiting2))))))) = 1"
proof -
  let ?c2 = "fold handle_message [ack, ack2] waiting2"
  let ?f1 = "subscribe_finish ''MES'' ''req_1_1700000000000'' 0 ?c2"
  let ?f2 = "subscribe_finish ''MES'' ''req_2_1700000000001'' 1 (fold handle_message [] (snd ?f1))"
  have st1: "status_of (fst ?f1) = ''subscribed''"
    using both_acknowledged(1) by (simp add: subscribe_finish_def send_with_response_await_def)
  have "futures (snd ?f1) (Suc 0) = futures ?c2 (Suc 0)"
    using both_acknowledged(1) by (simp add: subscribe_finish_def send_with_response_await_def)
  then have st2: "status_of (fst ?f2) = ''subscribed''"
    using both_acknowledged(2) by (simp add: subscribe_finish_def send_with_response_await_def)
  have s0: "subscriptions ready = {||}" by (simp add: ready_def fresh_def init_def)
  from concurrent_subscribes_add_once
         [OF waiting_start waiting2_start surjective_pairing st1 surjective_pairing st2]
  show ?thesis using waiting_start waiting2_start st1 st2 s0 by (simp add: fcard_finsert_if)
qed


end
